(* ===== verification/Prelude.thy ===== *)
theory Prelude
  imports Complex_Main "HOL-Library.Word" "HOL-Library.Sublist"
begin

text \<open>
  Shared vocabulary of the development: the machine types of the C++ code
  (\<open>size_t\<close> and \<open>int64_t\<close> as 64-bit words), a state-and-exception monad in which the
  harness of \<open>src/SEAL_Working.h\<close> is written (a C++ function that may throw and
  that writes to streams becomes a function from the state to a result and the new
  state), checked vector indexing, \<open>int64_t\<close> addition and multiplication whose
  overflow is undefined behaviour, and the list lemmas the component theories share.
\<close>

named_theorems exc_simps "evaluation rules of the state-and-exception monad"
named_theorems model_defs "definitions unfolded when a concrete run is evaluated"
named_theorems grows_intros "rules that a computation only consumes input and appends output"

type_synonym size_t = "64 word"
type_synonym int64 = "64 word"

section \<open>State and exceptions\<close>

text \<open>
  \<open>('s, 'e, 'a) exc\<close> is a computation on a state \<open>'s\<close> that either throws an
  \<open>'e\<close> (\<open>Inl\<close>) or returns an \<open>'a\<close> (\<open>Inr\<close>); the state reached is kept in both
  cases, as the log written before a C++ exception stays written.
\<close>

type_synonym ('s, 'e, 'a) exc = "'s \<Rightarrow> ('e + 'a) \<times> 's"

definition ret :: "'a \<Rightarrow> ('s, 'e, 'a) exc" where
  "ret a = (\<lambda>s. (Inr a, s))"

definition throw :: "'e \<Rightarrow> ('s, 'e, 'a) exc" where
  "throw e = (\<lambda>s. (Inl e, s))"

definition xbind :: "('s, 'e, 'a) exc \<Rightarrow> ('a \<Rightarrow> ('s, 'e, 'b) exc) \<Rightarrow> ('s, 'e, 'b) exc" where
  "xbind m f = (\<lambda>s. case m s of (Inl e, s') \<Rightarrow> (Inl e, s') | (Inr a, s') \<Rightarrow> f a s')"

definition lift :: "'e + 'a \<Rightarrow> ('s, 'e, 'a) exc" where
  "lift r = (\<lambda>s. (r, s))"

definition modify :: "('s \<Rightarrow> 's) \<Rightarrow> ('s, 'e, unit) exc" where
  "modify f = (\<lambda>s. (Inr (), f s))"

definition gets :: "('s \<Rightarrow> 'a) \<Rightarrow> ('s, 'e, 'a) exc" where
  "gets f = (\<lambda>s. (Inr (f s), s))"

text \<open>A call of a routine that cannot throw and returns a value and the new state.\<close>

definition call :: "('s \<Rightarrow> 'a \<times> 's) \<Rightarrow> ('s, 'e, 'a) exc" where
  "call f = (\<lambda>s. (Inr (fst (f s)), snd (f s)))"

text \<open>Reading \<open>xs[i]\<close> for every \<open>i < n\<close>: out of range is a fault, not a value.\<close>

definition checked_take :: "nat \<Rightarrow> 'a list \<Rightarrow> 'a list option" where
  "checked_take n xs = (if n \<le> length xs then Some (take n xs) else None)"

text \<open>\<open>std::vector::resize\<close>: truncate, or pad with value-initialised elements.\<close>

definition resize :: "nat \<Rightarrow> 'a::zero list \<Rightarrow> 'a list" where
  "resize n xs = take n xs @ replicate (n - length xs) 0"

text \<open>
  Signed \<open>int64_t\<close> arithmetic as C++ defines it: the exact result must be representable,
  and signed overflow is undefined behaviour. \<open>signed_add\<close> and \<open>signed_mul\<close> give the
  wrapped word only when nothing wraps, and \<open>None\<close> otherwise.
\<close>

definition int64_fits :: "int \<Rightarrow> bool" where
  "int64_fits x \<longleftrightarrow> - (2 ^ 63) \<le> x \<and> x < 2 ^ 63"

definition signed_add :: "int64 \<Rightarrow> int64 \<Rightarrow> int64 option" where
  "signed_add a b = (if int64_fits (sint a + sint b) then Some (a + b) else None)"

definition signed_mul :: "int64 \<Rightarrow> int64 \<Rightarrow> int64 option" where
  "signed_mul a b = (if int64_fits (sint a * sint b) then Some (a * b) else None)"

text \<open>The results of a loop whose iterations may fail, in order, or the first failure.\<close>

fun collect :: "('e + 'a) list \<Rightarrow> 'e + 'a list" where
  "collect [] = Inr []"
| "collect (r # rs) = (case r of Inl e \<Rightarrow> Inl e | Inr a \<Rightarrow> (case collect rs of Inl e \<Rightarrow> Inl e | Inr as \<Rightarrow> Inr (a # as)))"

declare ret_def [exc_simps] throw_def [exc_simps] xbind_def [exc_simps] lift_def [exc_simps]
  modify_def [exc_simps] gets_def [exc_simps] call_def [exc_simps]

subsection \<open>Monad laws and evaluation rules\<close>

lemma xbind_ret [simp]: "xbind (ret a) f = f a"
  by (simp add: xbind_def ret_def)

lemma xbind_throw [simp]: "xbind (throw e) f = throw e"
  by (simp add: xbind_def throw_def)

lemma xbind_lift_Inl [simp]: "xbind (lift (Inl e)) f = throw e"
  by (simp add: xbind_def lift_def throw_def)

lemma xbind_lift_Inr [simp]: "xbind (lift (Inr a)) f = f a"
  by (simp add: xbind_def lift_def)

lemma xbind_assoc: "xbind (xbind m f) g = xbind m (\<lambda>a. xbind (f a) g)"
  by (rule ext) (simp add: xbind_def split: prod.splits sum.splits)

lemma xbind_Inr_step:
  "m s = (Inr a, s') \<Longrightarrow> xbind m f s = f a s'"
  by (simp add: xbind_def)

lemma xbind_Inl_step:
  "m s = (Inl e, s') \<Longrightarrow> xbind m f s = (Inl e, s')"
  by (simp add: xbind_def)

lemma modify_step [simp]: "xbind (modify g) f s = f () (g s)"
  by (simp add: xbind_def modify_def)

lemma gets_step [simp]: "xbind (gets g) f s = f (g s) s"
  by (simp add: xbind_def gets_def)

lemma call_step [simp]: "xbind (call g) f s = f (fst (g s)) (snd (g s))"
  by (simp add: xbind_def call_def)

lemma ret_apply [simp]: "ret a s = (Inr a, s)"
  by (simp add: ret_def)

lemma throw_apply [simp]: "throw e s = (Inl e, s)"
  by (simp add: throw_def)

section \<open>Lists\<close>

lemma resize_le [simp]: "n \<le> length xs \<Longrightarrow> resize n xs = take n xs"
  by (simp add: resize_def)

lemma checked_take_ok [simp]: "n \<le> length xs \<Longrightarrow> checked_take n xs = Some (take n xs)"
  by (simp add: checked_take_def)

lemma checked_take_short [simp]: "length xs < n \<Longrightarrow> checked_take n xs = None"
  by (simp add: checked_take_def)

text \<open>
  A decoded SEAL vector is the list of all slots, \<open>map f [0..<N]\<close>; the harness only
  looks at a prefix. These rules read the prefix without unfolding the whole list.
\<close>

lemma take_map_upt [simp]: "n \<le> N \<Longrightarrow> take n (map f [0..<N]) = map f [0..<n]"
  by (simp add: take_map)

text \<open>The first line a loop stops at is one of the input lines and fails the loop's test.\<close>

lemma dropWhile_hd: "dropWhile P xs = y # ys \<Longrightarrow> y \<in> set xs \<and> \<not> P y"
  by (induction xs) (auto split: if_splits)

text \<open>What a loop leaves of its input after the line it stops at is a suffix of the input.\<close>

lemma suffix_dropWhile_Cons: "dropWhile P xs = l # rest \<Longrightarrow> suffix rest xs"
  using suffix_dropWhile[of P xs] by (metis suffix_ConsD)

lemma list_eq_map_upt_iff:
  "(map f [0..<n] = map g [0..<n]) \<longleftrightarrow> (\<forall>i<n. f i = g i)"
  by (auto simp: map_eq_conv)

lemma all_less_list_all: "(\<forall>i<n. P i) \<longleftrightarrow> list_all P [0..<n]"
  by (auto simp: list_all_iff)

lemma collect_map_Inr:
  "(\<And>x. x \<in> set xs \<Longrightarrow> f x = Inr (g x)) \<Longrightarrow> collect (map f xs) = Inr (map g xs)"
  by (induction xs) simp_all

lemma collect_map_Inl:
  assumes "x \<in> set xs" and "f x = Inl w" and "\<And>y e. y \<in> set xs \<Longrightarrow> f y = Inl e \<Longrightarrow> e = w"
  shows "collect (map f xs) = Inl w"
  using assms
proof (induction xs)
  case Nil
  then show ?case by simp
next
  case (Cons y ys)
  show ?case
  proof (cases "f y")
    case (Inl e)
    then have "e = w" using Cons.prems(3)[of y e] by simp
    with Inl show ?thesis by simp
  next
    case (Inr a)
    then have "x \<noteq> y" using Cons.prems(2) by auto
    then have "x \<in> set ys" using Cons.prems(1) by simp
    have "collect (map f ys) = Inl w"
    proof (rule Cons.IH)
      show "x \<in> set ys" by fact
      show "f x = Inl w" by (rule Cons.prems(2))
      show "e = w" if "z \<in> set ys" "f z = Inl e" for z e
        using Cons.prems(3)[of z e] that by simp
    qed
    with Inr show ?thesis by simp
  qed
qed

lemma signed_add_fits: "int64_fits (sint a + sint b) \<Longrightarrow> signed_add a b = Some (a + b)"
  by (simp add: signed_add_def)

lemma signed_mul_fits: "int64_fits (sint a * sint b) \<Longrightarrow> signed_mul a b = Some (a * b)"
  by (simp add: signed_mul_def)

end
