(* ===== verification/Seal.thy ===== *)
theory Seal
  imports Prelude
begin

text \<open>
  Microsoft SEAL as this program drives it. SEAL is an external library, not code of
  the repository: its operations are modelled from the behaviour the spec describes
  (\<open>spec.md\<close> sections 3 and 4.3--4.5) and from the checks SEAL's public operations
  make before they compute (each \<open>throw std::invalid_argument\<close> is an \<open>Inl\<close> with the
  message). A ciphertext is its metadata (size, level as the chain index of its
  parameters, scale) and the slot values it encrypts; decryption is exact, that is,
  the noise that SEAL keeps below its budget is not modelled, and CKKS slots hold
  exact real numbers. BFV slots hold residues modulo the plain modulus \<open>t\<close>, so
  wrap-around modulo \<open>t\<close> is part of the model. Which algebra the slots carry is a
  field of the context, so that one set of evaluator operations serves both schemes,
  as SEAL's \<open>Evaluator\<close> does.
\<close>

datatype exn = InvalidArgument string | LogicError string

datatype scheme_type = BFV | CKKS

record encryption_parameters =
  scheme :: scheme_type
  poly_modulus_degree :: nat
  coeff_modulus :: "nat list"
  plain_modulus :: nat

record 'v slot_algebra =
  sa_add :: "'v \<Rightarrow> 'v \<Rightarrow> 'v"
  sa_mul :: "'v \<Rightarrow> 'v \<Rightarrow> 'v"

record 'v seal_context =
  ctx_parms :: encryption_parameters
  ctx_alg :: "'v slot_algebra"

record 'v plaintext =
  pt_level :: "nat option"
  pt_scale :: real
  pt_data :: "nat \<Rightarrow> 'v"

record 'v ciphertext =
  ct_size :: nat
  ct_level :: nat
  ct_scale :: real
  ct_data :: "nat \<Rightarrow> 'v"

record relin_keys =
  rk_count :: nat
  rk_level :: nat

section \<open>Parameters and the modulus chain\<close>

text \<open>
  \<open>CoeffModulus::BFVDefault(8192)\<close>: SEAL's table of primes for 128-bit security
  (43, 43, 44, 44, 44 bits). \<open>PlainModulus::Batching(8192, 20)\<close> and
  \<open>CoeffModulus::Create(8192, {60, 40, 40, 60})\<close> search downwards from \<open>2^bits\<close> for
  primes \<open>\<equiv> 1 (mod 2 \<cdot> 8192)\<close>; these are the primes the search returns, in the order
  \<open>Create\<close> places them.
\<close>

definition bfv_default_coeff_8192 :: "nat list" where
  "bfv_default_coeff_8192 = [8796092858369, 8796092792833, 17592186028033, 17592185438209,
     17592184717313]"

definition plain_modulus_batching_8192_20 :: nat where
  "plain_modulus_batching_8192_20 = 1032193"

definition ckks_coeff_8192_60_40_40_60 :: "nat list" where
  "ckks_coeff_8192_60_40_40_60 = [1152921504606748673, 1099510890497, 1099511480321,
     1152921504606830593]"

fun bit_count :: "nat \<Rightarrow> nat" where
  "bit_count n = (if n = 0 then 0 else Suc (bit_count (n div 2)))"

declare bit_count.simps [simp del]

text \<open>
  The chain: the key level holds every prime; the data levels drop the last (special)
  prime and then one prime per level, down to chain index 0.
\<close>

definition key_level :: "encryption_parameters \<Rightarrow> nat" where
  "key_level p = length (coeff_modulus p) - 1"

definition first_level :: "encryption_parameters \<Rightarrow> nat" where
  "first_level p = length (coeff_modulus p) - 2"

definition level_bits :: "encryption_parameters \<Rightarrow> nat \<Rightarrow> nat" where
  "level_bits p i = sum_list (map bit_count (take (Suc i) (coeff_modulus p)))"

definition slot_count :: "encryption_parameters \<Rightarrow> nat" where
  "slot_count p = (case scheme p of BFV \<Rightarrow> poly_modulus_degree p | CKKS \<Rightarrow> poly_modulus_degree p div 2)"

text \<open>
  \<open>is_scale_within_bounds\<close>: \<open>0 < scale\<close> and \<open>\<lfloor>log2 scale\<rfloor>\<close> below the level's bit
  count, which for a positive scale is \<open>scale < 2^bits\<close>.
\<close>

definition scale_within_bounds :: "encryption_parameters \<Rightarrow> nat \<Rightarrow> real \<Rightarrow> bool" where
  "scale_within_bounds p lvl s \<longleftrightarrow> 0 < s \<and> s < 2 ^ level_bits p lvl"

section \<open>The slot algebras\<close>

definition bfv_context :: "encryption_parameters \<Rightarrow> int seal_context" where
  "bfv_context p =
     \<lparr>ctx_parms = p,
      ctx_alg = \<lparr>sa_add = (\<lambda>a b. (a + b) mod int (plain_modulus p)),
                 sa_mul = (\<lambda>a b. (a * b) mod int (plain_modulus p))\<rparr>\<rparr>"

definition ckks_context :: "encryption_parameters \<Rightarrow> real seal_context" where
  "ckks_context p = \<lparr>ctx_parms = p, ctx_alg = \<lparr>sa_add = (+), sa_mul = (*)\<rparr>\<rparr>"

section \<open>Encoders\<close>

text \<open>\<open>BatchEncoder::encode\<close>: one slot per value, the rest zero; a value is taken modulo \<open>t\<close>.\<close>

definition batch_encode :: "int seal_context \<Rightarrow> int64 list \<Rightarrow> exn + int plaintext" where
  "batch_encode ctx v =
     (if slot_count (ctx_parms ctx) < length v
      then Inl (InvalidArgument ''values_matrix size is too large'')
      else Inr \<lparr>pt_level = None, pt_scale = 1,
                pt_data = (\<lambda>i. if i < length v then sint (v ! i) mod int (plain_modulus (ctx_parms ctx)) else 0)\<rparr>)"

text \<open>\<open>BatchEncoder::decode\<close>: every slot, lifted to the centred range of \<open>t\<close>.\<close>

definition centred :: "nat \<Rightarrow> int \<Rightarrow> int" where
  "centred t x = (if int t div 2 < x then x - int t else x)"

definition batch_decode :: "int seal_context \<Rightarrow> int plaintext \<Rightarrow> int64 list" where
  "batch_decode ctx p =
     map (\<lambda>i. word_of_int (centred (plain_modulus (ctx_parms ctx)) (pt_data p i)))
       [0..<slot_count (ctx_parms ctx)]"

text \<open>
  \<open>CKKSEncoder::encode(values, scale)\<close> at the first data level, and
  \<open>encode(value, parms_id, scale)\<close>, which fills every slot; both refuse a scale with
  \<open>\<lfloor>log2 scale\<rfloor> + 1\<close> not below the level's bit count.
\<close>

definition ckks_encode :: "real seal_context \<Rightarrow> real list \<Rightarrow> real \<Rightarrow> exn + real plaintext" where
  "ckks_encode ctx v s =
     (let p = ctx_parms ctx; lvl = first_level p in
      if slot_count p < length v then Inl (InvalidArgument ''values_size is too large'')
      else if s \<le> 0 \<or> 2 ^ (level_bits p lvl - 1) \<le> s then Inl (InvalidArgument ''scale out of bounds'')
      else Inr \<lparr>pt_level = Some lvl, pt_scale = s, pt_data = (\<lambda>i. if i < length v then v ! i else 0)\<rparr>)"

definition ckks_encode_scalar :: "real seal_context \<Rightarrow> real \<Rightarrow> nat \<Rightarrow> real \<Rightarrow> exn + real plaintext" where
  "ckks_encode_scalar ctx x lvl s =
     (if s \<le> 0 \<or> 2 ^ (level_bits (ctx_parms ctx) lvl - 1) \<le> s
      then Inl (InvalidArgument ''scale out of bounds'')
      else Inr \<lparr>pt_level = Some lvl, pt_scale = s, pt_data = (\<lambda>i. x)\<rparr>)"

definition ckks_decode :: "real seal_context \<Rightarrow> real plaintext \<Rightarrow> real list" where
  "ckks_decode ctx p = map (pt_data p) [0..<slot_count (ctx_parms ctx)]"

section \<open>Encryptor and decryptor\<close>

text \<open>
  A fresh ciphertext has size 2. BFV encrypts at the first data level a plaintext that
  is not in NTT form; CKKS encrypts at the plaintext's own level.
\<close>

definition encryptor_encrypt :: "'v seal_context \<Rightarrow> 'v plaintext \<Rightarrow> exn + 'v ciphertext" where
  "encryptor_encrypt ctx p =
     (case (scheme (ctx_parms ctx), pt_level p) of
        (BFV, None) \<Rightarrow> Inr \<lparr>ct_size = 2, ct_level = first_level (ctx_parms ctx), ct_scale = pt_scale p,
                             ct_data = pt_data p\<rparr>
      | (BFV, Some _) \<Rightarrow> Inl (InvalidArgument ''plain cannot be in NTT form'')
      | (CKKS, Some l) \<Rightarrow> Inr \<lparr>ct_size = 2, ct_level = l, ct_scale = pt_scale p, ct_data = pt_data p\<rparr>
      | (CKKS, None) \<Rightarrow> Inl (InvalidArgument ''plain is not valid for encryption parameters''))"

definition decryptor_decrypt :: "'v seal_context \<Rightarrow> 'v ciphertext \<Rightarrow> 'v plaintext" where
  "decryptor_decrypt ctx c =
     \<lparr>pt_level = (case scheme (ctx_parms ctx) of BFV \<Rightarrow> None | CKKS \<Rightarrow> Some (ct_level c)),
      pt_scale = ct_scale c, pt_data = ct_data c\<rparr>"

section \<open>Evaluator\<close>

definition evaluator_add :: "'v seal_context \<Rightarrow> 'v ciphertext \<Rightarrow> 'v ciphertext \<Rightarrow> exn + 'v ciphertext" where
  "evaluator_add ctx c1 c2 =
     (if ct_level c1 \<noteq> ct_level c2
      then Inl (InvalidArgument ''encrypted1 and encrypted2 parameter mismatch'')
      else if ct_scale c1 \<noteq> ct_scale c2 then Inl (InvalidArgument ''scale mismatch'')
      else Inr \<lparr>ct_size = max (ct_size c1) (ct_size c2), ct_level = ct_level c1, ct_scale = ct_scale c1,
                ct_data = (\<lambda>i. sa_add (ctx_alg ctx) (ct_data c1 i) (ct_data c2 i))\<rparr>)"

text \<open>
  Multiplication: sizes add up less one (2 and 2 give 3); CKKS multiplies the scales and
  refuses a product scale out of bounds.
\<close>

definition evaluator_multiply :: "'v seal_context \<Rightarrow> 'v ciphertext \<Rightarrow> 'v ciphertext \<Rightarrow> exn + 'v ciphertext" where
  "evaluator_multiply ctx c1 c2 =
     (let p = ctx_parms ctx;
          s = (case scheme p of BFV \<Rightarrow> ct_scale c1 | CKKS \<Rightarrow> ct_scale c1 * ct_scale c2)
      in if ct_level c1 \<noteq> ct_level c2
         then Inl (InvalidArgument ''encrypted1 and encrypted2 parameter mismatch'')
         else if scheme p = CKKS \<and> \<not> scale_within_bounds p (ct_level c1) s
         then Inl (InvalidArgument ''scale out of bounds'')
         else Inr \<lparr>ct_size = ct_size c1 + ct_size c2 - 1, ct_level = ct_level c1, ct_scale = s,
                   ct_data = (\<lambda>i. sa_mul (ctx_alg ctx) (ct_data c1 i) (ct_data c2 i))\<rparr>)"

text \<open>
  \<open>relinearize_inplace\<close> brings the size down to 2 with one key-switching key per
  component above 2; a size-2 ciphertext is left as it is.
\<close>

definition evaluator_relinearize :: "'v seal_context \<Rightarrow> relin_keys \<Rightarrow> 'v ciphertext \<Rightarrow> exn + 'v ciphertext" where
  "evaluator_relinearize ctx rk c =
     (if rk_level rk \<noteq> key_level (ctx_parms ctx)
      then Inl (InvalidArgument ''relin_keys is not valid for encryption parameters'')
      else if ct_size c < 2
      then Inl (InvalidArgument ''destination_size must be at least 2 and less than or equal to current count'')
      else if rk_count rk < ct_size c - 2 then Inl (InvalidArgument ''not enough relinearization keys'')
      else Inr (c\<lparr>ct_size := 2\<rparr>))"

text \<open>
  \<open>rescale_to_next_inplace\<close>: CKKS only, not at the last level; the level drops by one
  and the scale is divided by the prime that is dropped.
\<close>

definition evaluator_rescale_to_next :: "'v seal_context \<Rightarrow> 'v ciphertext \<Rightarrow> exn + 'v ciphertext" where
  "evaluator_rescale_to_next ctx c =
     (let p = ctx_parms ctx; s = ct_scale c / real (coeff_modulus p ! ct_level c) in
      if ct_level c = 0 then Inl (InvalidArgument ''end of modulus switching chain reached'')
      else if scheme p \<noteq> CKKS then Inl (InvalidArgument ''unsupported operation for scheme type'')
      else if \<not> scale_within_bounds p (ct_level c - 1) s then Inl (InvalidArgument ''scale out of bounds'')
      else Inr (c\<lparr>ct_level := ct_level c - 1, ct_scale := s\<rparr>))"

text \<open>
  SEAL is built with \<open>SEAL_THROW_ON_TRANSPARENT_CIPHERTEXT\<close> on (its default): a
  product whose ciphertext is transparent, which a product with the zero plaintext is,
  raises \<open>std::logic_error\<close>. A batch-encoded plaintext is zero exactly when every
  slot is.
\<close>

definition plain_is_zero :: "'v::zero seal_context \<Rightarrow> 'v plaintext \<Rightarrow> bool" where
  "plain_is_zero ctx pl \<longleftrightarrow> list_all (\<lambda>i. pt_data pl i = 0) [0..<slot_count (ctx_parms ctx)]"

definition evaluator_multiply_plain :: "'v::zero seal_context \<Rightarrow> 'v ciphertext \<Rightarrow> 'v plaintext \<Rightarrow> exn + 'v ciphertext" where
  "evaluator_multiply_plain ctx c pl =
     (let p = ctx_parms ctx;
          s = (case scheme p of BFV \<Rightarrow> ct_scale c | CKKS \<Rightarrow> ct_scale c * pt_scale pl)
      in if scheme p = CKKS \<and> pt_level pl \<noteq> Some (ct_level c)
         then Inl (InvalidArgument ''encrypted and plain parameter mismatch'')
         else if scheme p = CKKS \<and> \<not> scale_within_bounds p (ct_level c) s
         then Inl (InvalidArgument ''scale out of bounds'')
         else if plain_is_zero ctx pl then Inl (LogicError ''result ciphertext is transparent'')
         else Inr (c\<lparr>ct_scale := s, ct_data := (\<lambda>i. sa_mul (ctx_alg ctx) (ct_data c i) (pt_data pl i))\<rparr>))"

definition evaluator_add_plain :: "'v seal_context \<Rightarrow> 'v ciphertext \<Rightarrow> 'v plaintext \<Rightarrow> exn + 'v ciphertext" where
  "evaluator_add_plain ctx c pl =
     (if scheme (ctx_parms ctx) = CKKS \<and> pt_level pl \<noteq> Some (ct_level c)
      then Inl (InvalidArgument ''encrypted and plain parameter mismatch'')
      else if scheme (ctx_parms ctx) = CKKS \<and> ct_scale c \<noteq> pt_scale pl
      then Inl (InvalidArgument ''scale mismatch'')
      else Inr (c\<lparr>ct_data := (\<lambda>i. sa_add (ctx_alg ctx) (ct_data c i) (pt_data pl i))\<rparr>))"

text \<open>
  A well-formed ciphertext, as SEAL's metadata checks require of an operand: at least two
  components, a level of the data chain, and a scale within the level's bound.
\<close>

definition ct_wf :: "encryption_parameters \<Rightarrow> 'v ciphertext \<Rightarrow> bool" where
  "ct_wf p c \<longleftrightarrow> 2 \<le> ct_size c \<and> ct_level c \<le> first_level p \<and> scale_within_bounds p (ct_level c) (ct_scale c)"

text \<open>
  A BFV ciphertext whose slots are reduced: every slot holds a residue in \<open>[0, t)\<close> of
  the plain modulus \<open>t\<close>, as the batch encoder and the slot arithmetic of the evaluator
  produce them.
\<close>

definition slots_reduced :: "int seal_context \<Rightarrow> int ciphertext \<Rightarrow> bool" where
  "slots_reduced ctx c \<longleftrightarrow>
     list_all (\<lambda>i. 0 \<le> ct_data c i \<and> ct_data c i < int (plain_modulus (ctx_parms ctx)))
       [0..<slot_count (ctx_parms ctx)]"

section \<open>Evaluator lemmas\<close>

lemma plain_is_zero_iff: "plain_is_zero ctx pl \<longleftrightarrow> (\<forall>i < slot_count (ctx_parms ctx). pt_data pl i = 0)"
  by (auto simp: plain_is_zero_def list_all_iff)

lemma ct_wf_add:
  "ct_wf (ctx_parms ctx) c1 \<Longrightarrow> evaluator_add ctx c1 c2 = Inr c \<Longrightarrow> ct_wf (ctx_parms ctx) c"
  by (auto simp: ct_wf_def evaluator_add_def split: if_splits)

lemma ct_wf_multiply:
  "ct_wf (ctx_parms ctx) c1 \<Longrightarrow> ct_wf (ctx_parms ctx) c2 \<Longrightarrow> evaluator_multiply ctx c1 c2 = Inr c \<Longrightarrow>
     ct_wf (ctx_parms ctx) c"
  by (cases "scheme (ctx_parms ctx)") (auto simp: ct_wf_def evaluator_multiply_def Let_def split: if_splits)

lemma ct_wf_relinearize:
  "ct_wf (ctx_parms ctx) c1 \<Longrightarrow> evaluator_relinearize ctx rk c1 = Inr c \<Longrightarrow> ct_wf (ctx_parms ctx) c"
  by (auto simp: ct_wf_def evaluator_relinearize_def split: if_splits)

lemma ct_wf_rescale:
  "ct_wf (ctx_parms ctx) c1 \<Longrightarrow> evaluator_rescale_to_next ctx c1 = Inr c \<Longrightarrow> ct_wf (ctx_parms ctx) c"
  by (auto simp: ct_wf_def evaluator_rescale_to_next_def Let_def split: if_splits)

lemma ct_wf_multiply_plain:
  "ct_wf (ctx_parms ctx) c1 \<Longrightarrow> evaluator_multiply_plain ctx c1 pl = Inr c \<Longrightarrow> ct_wf (ctx_parms ctx) c"
  by (cases "scheme (ctx_parms ctx)") (auto simp: ct_wf_def evaluator_multiply_plain_def Let_def split: if_splits)

lemma ct_wf_add_plain:
  "ct_wf (ctx_parms ctx) c1 \<Longrightarrow> evaluator_add_plain ctx c1 pl = Inr c \<Longrightarrow> ct_wf (ctx_parms ctx) c"
  by (auto simp: ct_wf_def evaluator_add_plain_def split: if_splits)

text \<open>
  Every evaluator operation the program uses keeps
  ciphertexts well formed: when its operands are well formed and it returns a result, the
  result is well formed (the scale checks of SEAL are what keep products and rescales in
  bounds).
\<close>

lemma evaluator_preserves_ct_wf:
  assumes "ct_wf (ctx_parms ctx) c1" and "ct_wf (ctx_parms ctx) c2"
    and "evaluator_add ctx c1 c2 = Inr c \<or> evaluator_multiply ctx c1 c2 = Inr c \<or>
         evaluator_relinearize ctx rk c1 = Inr c \<or> evaluator_rescale_to_next ctx c1 = Inr c \<or>
         evaluator_multiply_plain ctx c1 pl = Inr c \<or> evaluator_add_plain ctx c1 pl = Inr c"
  shows "ct_wf (ctx_parms ctx) c"
  using assms(3) ct_wf_add[OF assms(1)] ct_wf_multiply[OF assms(1,2)] ct_wf_relinearize[OF assms(1)]
    ct_wf_rescale[OF assms(1)] ct_wf_multiply_plain[OF assms(1)] ct_wf_add_plain[OF assms(1)]
  by blast

lemma slots_reduced_iff:
  "slots_reduced ctx c \<longleftrightarrow>
     (\<forall>i < slot_count (ctx_parms ctx). 0 \<le> ct_data c i \<and> ct_data c i < int (plain_modulus (ctx_parms ctx)))"
  by (simp add: slots_reduced_def all_less_list_all)

lemma slots_reduced_add:
  "0 < plain_modulus p \<Longrightarrow> evaluator_add (bfv_context p) c1 c2 = Inr c \<Longrightarrow> slots_reduced (bfv_context p) c"
  by (auto simp: slots_reduced_iff evaluator_add_def bfv_context_def split: if_splits)

lemma slots_reduced_multiply:
  "0 < plain_modulus p \<Longrightarrow> evaluator_multiply (bfv_context p) c1 c2 = Inr c \<Longrightarrow> slots_reduced (bfv_context p) c"
  by (auto simp: slots_reduced_iff evaluator_multiply_def bfv_context_def Let_def split: if_splits)

lemma slots_reduced_multiply_plain:
  "0 < plain_modulus p \<Longrightarrow> evaluator_multiply_plain (bfv_context p) c pl = Inr c' \<Longrightarrow>
   slots_reduced (bfv_context p) c'"
  by (auto simp: slots_reduced_iff evaluator_multiply_plain_def bfv_context_def Let_def split: if_splits)

lemma slots_reduced_relinearize:
  "slots_reduced ctx c \<Longrightarrow> evaluator_relinearize ctx rk c = Inr c' \<Longrightarrow> slots_reduced ctx c'"
  by (auto simp: slots_reduced_def evaluator_relinearize_def split: if_splits)

lemma slots_reduced_encrypt:
  "0 < plain_modulus p \<Longrightarrow> batch_encode (bfv_context p) v = Inr pl \<Longrightarrow>
   encryptor_encrypt (bfv_context p) pl = Inr c \<Longrightarrow> slots_reduced (bfv_context p) c"
  by (auto simp: slots_reduced_iff batch_encode_def encryptor_encrypt_def bfv_context_def
      split: if_splits prod.splits scheme_type.splits option.splits)

section \<open>The centred lift of BFV\<close>

text \<open>
  Decoding lifts a residue to the centred range \<open>[-(t div 2), t div 2]\<close> of the odd
  plain modulus \<open>t\<close>. Read back as an \<open>int64_t\<close>, the lift of \<open>x mod t\<close> equals
  \<open>x\<close> (taken modulo \<open>2^64\<close>) exactly when \<open>x\<close> lies in that range: for \<open>|x| \<le> 2^64\<close>
  the two congruences, modulo \<open>t\<close> and modulo \<open>2^64\<close>, leave no other solution.
\<close>

lemma centred_mod_cong:
  assumes "0 < t" shows "centred t (x mod int t) mod int t = x mod int t"
  using assms by (simp add: centred_def)

lemma centred_mod_eq: "centred t x mod int t = x mod int t"
  by (simp add: centred_def mod_diff_right_eq[symmetric])

lemma centred_bound:
  assumes "odd t" shows "\<bar>centred t (x mod int t)\<bar> \<le> int t div 2"
proof -
  have t: "0 < int t" using assms by (cases t) auto
  have "0 \<le> x mod int t" "x mod int t < int t" using t by simp_all
  moreover have "odd (int t)" using assms by simp
  ultimately show ?thesis by (auto simp: centred_def elim!: oddE)
qed

lemma centred_id:
  assumes "odd t" and "\<bar>x\<bar> \<le> int t div 2" shows "centred t (x mod int t) = x"
proof -
  obtain k where k: "int t = 2 * k + 1" using assms(1) by (metis odd_two_times_div_two_succ of_nat_numeral of_nat_add of_nat_mult of_nat_1)
  then have h: "int t div 2 = k" by simp
  show ?thesis
  proof (cases "0 \<le> x")
    case True
    with assms(2) h k have "x mod int t = x" by (simp add: mod_pos_pos_trivial)
    with assms(2) True h show ?thesis by (simp add: centred_def)
  next
    case False
    have "(x + int t) mod int t = x + int t"
      by (rule mod_pos_pos_trivial) (use assms(2) False h k in linarith)+
    then have "x mod int t = x + int t" by (simp only: mod_add_self2)
    with assms(2) False h k show ?thesis by (simp add: centred_def)
  qed
qed

lemma word_eq_dvd:
  "(word_of_int a :: 64 word) = word_of_int b \<Longrightarrow> (2::int) ^ 64 dvd a - b"
  by (simp only: word_of_int_eq_iff take_bit_eq_mod mod_eq_dvd_iff len_num1 len_bit0) simp

lemma odd_coprime_pow2:
  assumes "odd t" shows "coprime (int t) (2 ^ 64)"
proof -
  have "coprime (int t) 2" using assms by simp
  then show ?thesis by (simp only: coprime_power_right_iff) simp
qed

lemma dvd_small_zero:
  fixes d m :: int
  assumes "m dvd d" and "\<bar>d\<bar> < m" shows "d = 0"
  using assms dvd_imp_le_int[of d m] by fastforce

lemma sum_le_prod_int:
  fixes T N :: int
  assumes "2 \<le> T" and "2 \<le> N" shows "T + N \<le> T * N"
proof -
  have "1 * 1 \<le> (T - 1) * (N - 1)" using assms by (intro mult_mono) simp_all
  then show ?thesis by (simp add: algebra_simps)
qed

lemma centred_diff_bound:
  fixes c x T :: int
  assumes "2 \<le> T" and "\<bar>c\<bar> \<le> T div 2" and "\<bar>x\<bar> \<le> 2 ^ 64"
  shows "\<bar>c - x\<bar> < T * 2 ^ 64"
proof -
  have "T div 2 < T" using assms(1) by simp
  moreover have "T + 2 ^ 64 \<le> T * 2 ^ 64" using assms(1) by (rule sum_le_prod_int) simp
  ultimately show ?thesis using assms(2,3) by linarith
qed

lemma word_of_centred_iff:
  assumes "odd t" and "1 < t" and "\<bar>x\<bar> \<le> 2 ^ 64"
  shows "(word_of_int (centred t (x mod int t)) :: 64 word) = word_of_int x \<longleftrightarrow> \<bar>x\<bar> \<le> int t div 2"
proof
  let ?c = "centred t (x mod int t)"
  assume eq: "(word_of_int ?c :: 64 word) = word_of_int x"
  have dt: "int t dvd ?c - x"
    using centred_mod_cong[of t x] assms(2) by (simp add: mod_eq_dvd_iff)
  have d: "int t * 2 ^ 64 dvd ?c - x"
    using divides_mult[OF dt word_eq_dvd[OF eq] odd_coprime_pow2[OF assms(1)]] .
  have "\<bar>?c - x\<bar> < int t * 2 ^ 64"
    using centred_diff_bound centred_bound[OF assms(1), of x] assms(2,3) by simp
  then have "?c = x" using dvd_small_zero[OF d] by simp
  then show "\<bar>x\<bar> \<le> int t div 2" using centred_bound[OF assms(1), of x] by simp
next
  assume "\<bar>x\<bar> \<le> int t div 2"
  then show "(word_of_int (centred t (x mod int t)) :: 64 word) = word_of_int x"
    using centred_id[OF assms(1)] by simp
qed

text \<open>The lift of a residue of a modulus below \<open>2^64\<close>, read back as an \<open>int64_t\<close>, is itself.\<close>

lemma sint_centred:
  assumes "odd t" and "t < 2 ^ 64" and "0 \<le> x" and "x < int t"
  shows "sint (word_of_int (centred t x) :: 64 word) = centred t x"
proof -
  have "\<bar>centred t (x mod int t)\<bar> \<le> int t div 2" by (rule centred_bound[OF assms(1)])
  moreover have "x mod int t = x" using assms(3,4) by simp
  ultimately have "\<bar>centred t x\<bar> \<le> int t div 2" by simp
  moreover have "int t div 2 < 2 ^ 63" using assms(2) by simp
  ultimately show ?thesis
    by (simp add: sint_sbintrunc' signed_take_bit_int_eq_self)
qed

end
