(* ===== verification/StreamIO.thy ===== *)
theory StreamIO
  imports Prelude
begin

text \<open>
  The C++ standard streams the program reads and writes, as far as its code depends
  on them: the formatted extractions
  \<open>ss >> size\<close> (\<open>size_t\<close>), \<open>ss >> val\<close> (\<open>int64_t\<close> and \<open>double\<close>) and
  \<open>ss >> c\<close> (\<open>char\<close>) on a \<open>std::stringstream\<close>, and the insertion
  \<open>log_stream << val\<close> of an \<open>int64_t\<close>. These are library code, not code of the
  repository; they are modelled from the C++ standard's description of
  \<open>num_get\<close> (stage 2 accumulates characters, stage 3 converts as \<open>strtoull\<close>,
  \<open>strtoll\<close> and \<open>strtod\<close> do) in the "C" locale. An extraction is a parser
  \<open>string \<Rightarrow> ('a \<times> string) option\<close>: \<open>None\<close> is the stream's failbit, \<open>Some (v, rest)\<close>
  the value stored and the characters left in the stream.
\<close>

type_synonym 'a extractor = "string \<Rightarrow> ('a \<times> string) option"

section \<open>Characters\<close>

definition is_space :: "char \<Rightarrow> bool" where
  "is_space c \<longleftrightarrow> (of_char c :: nat) \<in> {9, 10, 11, 12, 13, 32}"

definition is_digit :: "char \<Rightarrow> bool" where
  "is_digit c \<longleftrightarrow> 48 \<le> (of_char c :: nat) \<and> (of_char c :: nat) \<le> 57"

definition digit_value :: "char \<Rightarrow> nat" where
  "digit_value c = of_char c - 48"

definition dec_value :: "string \<Rightarrow> nat" where
  "dec_value ds = foldl (\<lambda>n c. 10 * n + digit_value c) 0 ds"

section \<open>Extraction\<close>

text \<open>The optional sign that \<open>num_get\<close> accepts for every integer and floating type.\<close>

definition scan_sign :: "string \<Rightarrow> bool \<times> string" where
  "scan_sign s = (case s of
      [] \<Rightarrow> (False, [])
    | c # r \<Rightarrow> (if c = CHR ''-'' then (True, r) else if c = CHR ''+'' then (False, r) else (False, s)))"

text \<open>Skip white space (the sentry), read a sign and the decimal digits that follow.\<close>

definition scan_integer :: "string \<Rightarrow> bool \<times> string \<times> string" where
  "scan_integer s = (case scan_sign (dropWhile is_space s) of
      (neg, r) \<Rightarrow> (neg, takeWhile is_digit r, dropWhile is_digit r))"

text \<open>
  \<open>ss >> size\<close> for \<open>size_t\<close>: no digit, or a magnitude above \<open>2^64 - 1\<close>, sets failbit;
  a minus sign is accepted and the magnitude negated modulo \<open>2^64\<close>, as \<open>strtoull\<close> does.
\<close>

definition extract_size_t :: "size_t extractor" where
  "extract_size_t s = (case scan_integer s of
      (neg, ds, rest) \<Rightarrow>
        if ds = [] \<or> 2 ^ 64 \<le> dec_value ds then None
        else Some (if neg then - of_nat (dec_value ds) else of_nat (dec_value ds), rest))"

text \<open>\<open>ss >> val\<close> for \<open>int64_t\<close>: the value must lie in \<open>[-2^63, 2^63 - 1]\<close>.\<close>

definition extract_int64 :: "int64 extractor" where
  "extract_int64 s = (case scan_integer s of
      (neg, ds, rest) \<Rightarrow>
        if ds = [] \<or> (if neg then 2 ^ 63 < dec_value ds else 2 ^ 63 \<le> dec_value ds) then None
        else Some (word_of_int (if neg then - int (dec_value ds) else int (dec_value ds)), rest))"

text \<open>\<open>ss >> c\<close> for \<open>char\<close>: the next character that is not white space.\<close>

definition extract_char :: "char extractor" where
  "extract_char s = (case dropWhile is_space s of [] \<Rightarrow> None | c # r \<Rightarrow> Some (c, r))"

text \<open>
  \<open>ss >> val\<close> for \<open>double\<close>: sign, digits, an optional point and fraction digits, and,
  only after a digit, an exponent \<open>e\<close>/\<open>E\<close> with an optional sign. The accumulated text
  is converted as \<open>strtod\<close> does; it fails when there is no digit before the exponent or
  no digit after the exponent mark. The value is the exact decimal: rounding to the
  nearest double and overflow to infinity are not modelled.
\<close>

definition scan_fraction :: "string \<Rightarrow> string \<times> string" where
  "scan_fraction r = (case r of
      c # r' \<Rightarrow> (if c = CHR ''.'' then (takeWhile is_digit r', dropWhile is_digit r') else ([], r))
    | [] \<Rightarrow> ([], []))"

definition decimal_real :: "bool \<Rightarrow> nat \<Rightarrow> int \<Rightarrow> real" where
  "decimal_real neg m e =
     (if neg then -1 else 1) * real m * (if 0 \<le> e then 10 ^ nat e else 1 / 10 ^ nat (- e))"

definition extract_double :: "real extractor" where
  "extract_double s = (case scan_sign (dropWhile is_space s) of
      (neg, r) \<Rightarrow>
        let ip = takeWhile is_digit r;
            (fp, r2) = scan_fraction (dropWhile is_digit r)
        in if ip = [] \<and> fp = [] then None
           else (case r2 of
                   c # r3 \<Rightarrow>
                     if c = CHR ''e'' \<or> c = CHR ''E'' then
                       (case scan_sign r3 of
                          (eneg, r4) \<Rightarrow>
                            let ed = takeWhile is_digit r4;
                                ex = (if eneg then - int (dec_value ed) else int (dec_value ed))
                            in if ed = [] then None
                               else Some (decimal_real neg (dec_value (ip @ fp)) (ex - int (length fp)),
                                          dropWhile is_digit r4))
                     else Some (decimal_real neg (dec_value (ip @ fp)) (- int (length fp)), r2)
                 | [] \<Rightarrow> Some (decimal_real neg (dec_value (ip @ fp)) (- int (length fp)), [])))"

section \<open>Insertion of integers\<close>

text \<open>\<open>log_stream << val\<close> for an integer: decimal digits, a minus sign if negative.\<close>

definition digit_char :: "nat \<Rightarrow> char" where
  "digit_char d = ''0123456789'' ! d"

fun show_nat :: "nat \<Rightarrow> string" where
  "show_nat n = (if n < 10 then [digit_char n] else show_nat (n div 10) @ [digit_char (n mod 10)])"

declare show_nat.simps [simp del]

definition show_int :: "int \<Rightarrow> string" where
  "show_int i = (if i < 0 then CHR ''-'' # show_nat (nat (- i)) else show_nat (nat i))"

text \<open>The rules that evaluate an extraction on a concrete string.\<close>

lemmas extraction_eval = extract_size_t_def extract_int64_def extract_char_def extract_double_def
  scan_integer_def scan_sign_def scan_fraction_def decimal_real_def is_space_def is_digit_def
  dec_value_def digit_value_def

section \<open>Lemmas on characters and digit strings\<close>

lemma digit_char_facts:
  assumes "d < 10"
  shows "(of_char (digit_char d) :: nat) = 48 + d"
  using assms by (auto simp: digit_char_def less_Suc_eq numeral_eq_Suc)

lemma is_digit_digit_char [simp]: "d < 10 \<Longrightarrow> is_digit (digit_char d)"
  by (simp add: is_digit_def digit_char_facts)

lemma digit_value_digit_char [simp]: "d < 10 \<Longrightarrow> digit_value (digit_char d) = d"
  by (simp add: digit_value_def digit_char_facts)

lemma digit_not_space: "is_digit c \<Longrightarrow> \<not> is_space c"
  by (auto simp: is_digit_def is_space_def)

lemma digit_not_sign: "is_digit c \<Longrightarrow> c \<noteq> CHR ''-'' \<and> c \<noteq> CHR ''+''"
  by (auto simp: is_digit_def)

lemma dec_value_snoc [simp]: "dec_value (xs @ [c]) = 10 * dec_value xs + digit_value c"
  by (simp add: dec_value_def)

lemma show_nat_digits: "\<forall>c\<in>set (show_nat n). is_digit c"
  by (induction n rule: show_nat.induct) (subst show_nat.simps, simp)

lemma show_nat_nonempty [simp]: "show_nat n \<noteq> []"
  by (subst show_nat.simps) simp

lemma dec_value_show_nat [simp]: "dec_value (show_nat n) = n"
proof (induction n rule: show_nat.induct)
  case (1 n)
  show ?case
  proof (cases "n < 10")
    case True
    then show ?thesis by (subst show_nat.simps) (simp add: dec_value_def)
  next
    case False
    with "1" have "dec_value (show_nat (n div 10)) = n div 10" by simp
    with False show ?thesis by (subst show_nat.simps) simp
  qed
qed

text \<open>A digit string followed by a non-digit is read back whole.\<close>

lemma digits_then_stop:
  assumes "\<forall>c\<in>set ds. is_digit c" and "rest = [] \<or> \<not> is_digit (hd rest)"
  shows "takeWhile is_digit (ds @ rest) = ds" and "dropWhile is_digit (ds @ rest) = rest"
  using assms by (cases rest; simp add: takeWhile_append2 dropWhile_append2)+

lemma scan_integer_unsigned:
  assumes "\<forall>c\<in>set ds. is_digit c" and "ds \<noteq> []" and "rest = [] \<or> \<not> is_digit (hd rest)"
  shows "scan_integer (ds @ rest) = (False, ds, rest)"
proof -
  obtain d ds' where ds: "ds = d # ds'" using assms(2) by (cases ds) auto
  with assms(1) have "is_digit d" by simp
  then have "dropWhile is_space (ds @ rest) = ds @ rest" and "scan_sign (ds @ rest) = (False, ds @ rest)"
    using digit_not_space digit_not_sign by (auto simp: ds scan_sign_def)
  then show ?thesis using digits_then_stop[OF assms(1,3)] by (simp add: scan_integer_def)
qed

lemma scan_integer_negative:
  assumes "\<forall>c\<in>set ds. is_digit c" and "rest = [] \<or> \<not> is_digit (hd rest)"
  shows "scan_integer (CHR ''-'' # ds @ rest) = (True, ds, rest)"
proof -
  have "\<not> is_space CHR ''-''" by (simp add: is_space_def)
  then show ?thesis using digits_then_stop[OF assms] by (simp add: scan_integer_def scan_sign_def)
qed

lemma extract_int64_show_int:
  assumes "rest = [] \<or> \<not> is_digit (hd rest)"
  shows "extract_int64 (show_int (sint w) @ rest) = Some (w, rest)"
proof (cases "sint w < 0")
  case True
  have lo: "- (2 ^ 63) \<le> sint w" using sint_ge[of w] by simp
  have "scan_integer (show_int (sint w) @ rest) = (True, show_nat (nat (- sint w)), rest)"
    using True scan_integer_negative[OF show_nat_digits assms] by (simp add: show_int_def)
  moreover have "\<not> 2 ^ 63 < nat (- sint w)" using lo by (simp add: nat_le_iff)
  ultimately show ?thesis using True by (simp add: extract_int64_def)
next
  case False
  have hi: "sint w < 2 ^ 63" using sint_lt[of w] by simp
  have "scan_integer (show_int (sint w) @ rest) = (False, show_nat (nat (sint w)), rest)"
    using False scan_integer_unsigned[OF show_nat_digits show_nat_nonempty assms] by (simp add: show_int_def)
  moreover have "\<not> 2 ^ 63 \<le> nat (sint w)" using hi False by (simp add: nat_less_iff)
  ultimately show ?thesis using False by (simp add: extract_int64_def)
qed

lemma extract_size_t_show_nat:
  assumes "rest = [] \<or> \<not> is_digit (hd rest)"
  shows "extract_size_t (show_nat (unat w) @ rest) = Some (w, rest)"
proof -
  have "scan_integer (show_nat (unat w) @ rest) = (False, show_nat (unat w), rest)"
    by (rule scan_integer_unsigned[OF show_nat_digits show_nat_nonempty assms])
  moreover have "unat w < 2 ^ 64" using unsigned_less[of w] by simp
  ultimately show ?thesis by (simp add: extract_size_t_def)
qed

end
