(* ===== verification/Console_Log.thy ===== *)
theory Console_Log
  imports StreamIO
begin

text \<open>
  The streams the class \<open>SEAL_Working\<close> (\<open>src/SEAL_Working.h\<close>) and \<open>main\<close>
  (\<open>src/main.cpp\<close>) use: standard input, read line by line; the console
  (\<open>std::cout\<close> prompts and error messages, \<open>std::cerr\<close> in \<open>main\<close>); and the log
  file \<open>output_log.txt\<close> that \<open>log_stream\<close> refers to. The log is a list of
  entries, one per line the code writes, holding the values the line prints; the
  timings (\<open>std::chrono\<close> readings) and the text of SEAL's polynomials and noise
  budgets are not modelled, only the fact that the line is written.
\<close>

datatype console_msg =
    PromptSize
  | ErrNotSingle
  | ErrNotPositive
  | PromptInts size_t string
  | PromptDoubles size_t string
  | ErrNotEnough
  | Finished
  | CErr string

datatype log_entry =
    LText string
  | LSizeChosen size_t
  | LUserInput string string
  | LPlaintextInts string string
  | LPlaintextReals string "real list"
  | LEncodedPoly
  | LTiming string
  | LInfoBFV string nat
  | LInfoCKKS string nat nat real
  | LOpInts string "int64 list" "int64 list" "int64 list"
  | LResultReals string "real list"
  | LVerdict string bool
  | LVerifyFail nat real real
  | LAllPass string
  | LError string

record io =
  stdin :: "string list"
  console :: "console_msg list"
  log :: "log_entry list"

text \<open>Writing one line to the log and one message to the console.\<close>

definition log_line :: "log_entry \<Rightarrow> io \<Rightarrow> io" where
  "log_line e s = s\<lparr>log := log s @ [e]\<rparr>"

definition say :: "console_msg \<Rightarrow> io \<Rightarrow> io" where
  "say m s = s\<lparr>console := console s @ [m]\<rparr>"

text \<open>The verdict lines of a log, in order: the name of the check and PASS or FAIL.\<close>

definition verdicts :: "log_entry list \<Rightarrow> (string \<times> bool) list" where
  "verdicts tr = concat (map (\<lambda>e. case e of LVerdict m b \<Rightarrow> [(m, b)] | _ \<Rightarrow> []) tr)"

text \<open>
  \<open>io_le s s'\<close>: the streams of \<open>s'\<close> extend those of \<open>s\<close> as a run of the program can:
  standard input is only consumed (what is left is a suffix), the console and the log are
  only appended to (the old contents are a prefix).
\<close>

definition io_le :: "io \<Rightarrow> io \<Rightarrow> bool" where
  "io_le s s' \<longleftrightarrow> suffix (stdin s') (stdin s) \<and> prefix (console s) (console s') \<and> prefix (log s) (log s')"

lemma log_line_fields [simp]:
  "stdin (log_line e s) = stdin s" "console (log_line e s) = console s"
  "log (log_line e s) = log s @ [e]"
  by (simp_all add: log_line_def)

lemma say_fields [simp]:
  "stdin (say m s) = stdin s" "console (say m s) = console s @ [m]" "log (say m s) = log s"
  by (simp_all add: say_def)

lemma io_le_refl [simp]: "io_le s s"
  by (simp add: io_le_def)

lemma io_le_trans: "io_le s1 s2 \<Longrightarrow> io_le s2 s3 \<Longrightarrow> io_le s1 s3"
  unfolding io_le_def by (meson prefix_order.trans suffix_order.trans)

lemma io_le_log_line [simp]: "io_le s s' \<Longrightarrow> io_le s (log_line e s')"
  by (auto simp: io_le_def prefix_def)

lemma io_le_say [simp]: "io_le s s' \<Longrightarrow> io_le s (say m s')"
  by (auto simp: io_le_def prefix_def)

lemma io_le_stdin_Nil: "io_le s s' \<Longrightarrow> stdin s = [] \<Longrightarrow> stdin s' = []"
  by (simp add: io_le_def)

end
