(* ===== verification/UserInput.thy ===== *)
theory UserInput
  imports Console_Log
begin

text \<open>
  The interactive input routines of \<open>SEAL_Working\<close> (\<open>src/SEAL_Working.h\<close>):
  \<open>getUserSize\<close> (lines 88--116) and \<open>getUserVectorInt\<close>/\<open>getUserVectorDouble\<close>
  (lines 118--166), which differ only in the extraction they use and so are one loop
  \<open>user_vector_loop\<close> over an extractor. Each loop runs over the lines of standard
  input and terminates because every iteration consumes a line or leaves the loop.
  The lemmas give each routine's result as a function of the input (the first
  accepted line), the lines it consumes, the messages it prints, and the round trip
  between the echo of a vector in the log and its re-reading. They also show that each
  routine only consumes input and appends output, and that a vector routine returns a
  vector of the size asked for unless the input ran out (and does return one when a line
  has enough values).
\<close>

section \<open>getUserSize\<close>

datatype size_line = SizeAccepted size_t | SizeTrailing | SizeInvalid

text \<open>
  One line of \<open>getUserSize\<close>: \<open>ss >> size && size > 0\<close>, then \<open>ss >> c\<close> to reject
  anything after the number.
\<close>

definition classify_size_line :: "string \<Rightarrow> size_line" where
  "classify_size_line line =
     (case extract_size_t line of
        Some (n, rest) \<Rightarrow>
          if 0 < n then (case extract_char rest of Some _ \<Rightarrow> SizeTrailing | None \<Rightarrow> SizeAccepted n)
          else SizeInvalid
      | None \<Rightarrow> SizeInvalid)"

text \<open>
  \<open>while (size <= 0)\<close>, with the variable \<open>size\<close> as \<open>sz\<close>: it is a \<open>size_t\<close>, so the
  guard is \<open>sz = 0\<close>.
\<close>

function user_size_loop :: "size_t \<Rightarrow> io \<Rightarrow> size_t \<times> io" where
  "user_size_loop sz s =
     (if sz = 0 then
        (case stdin s of
           [] \<Rightarrow> (sz, say PromptSize s)
         | line # rest \<Rightarrow>
             (let s' = say PromptSize (s\<lparr>stdin := rest\<rparr>) in
              case classify_size_line line of
                SizeAccepted n \<Rightarrow> (n, s')
              | SizeTrailing \<Rightarrow> user_size_loop 0 (say ErrNotSingle s')
              | SizeInvalid \<Rightarrow> user_size_loop 0 (say ErrNotPositive s')))
      else (sz, s))"
  by pat_completeness auto
termination
  by (relation "measure (\<lambda>(sz, s). length (stdin s))") auto

declare user_size_loop.simps [simp del]

definition getUserSize :: "io \<Rightarrow> size_t \<times> io" where
  "getUserSize s = (case user_size_loop 0 s of (n, s') \<Rightarrow> (n, log_line (LSizeChosen n) s'))"

section \<open>getUserVectorInt and getUserVectorDouble\<close>

text \<open>
  The inner loop \<open>while (ss >> val && vec.size() < size) vec.push_back(val)\<close>: the
  extraction comes first, so one value past the last needed one is read and dropped.
  It stops because \<open>size - vec.size()\<close> decreases.
\<close>

function read_values :: "'a extractor \<Rightarrow> nat \<Rightarrow> 'a list \<Rightarrow> string \<Rightarrow> 'a list" where
  "read_values ex n vec str =
     (case ex str of
        None \<Rightarrow> vec
      | Some (v, str') \<Rightarrow> if length vec < n then read_values ex n (vec @ [v]) str' else vec)"
  by pat_completeness auto
termination
  by (relation "measure (\<lambda>(ex, n, vec, str). n - length vec)") auto

declare read_values.simps [simp del]

text \<open>
  The outer loop \<open>while (vec.size() < size)\<close>: prompt, read a line (leave at the end
  of input), log it, extract, and on too few values print an error and clear the vector.
\<close>

function user_vector_loop ::
  "'a extractor \<Rightarrow> console_msg \<Rightarrow> nat \<Rightarrow> string \<Rightarrow> 'a list \<Rightarrow> io \<Rightarrow> 'a list \<times> io" where
  "user_vector_loop ex prompt n name vec s =
     (if length vec < n then
        (case stdin s of
           [] \<Rightarrow> (vec, say prompt s)
         | line # rest \<Rightarrow>
             (let s' = log_line (LUserInput name line) (say prompt (s\<lparr>stdin := rest\<rparr>));
                  vec' = read_values ex n vec line
              in if length vec' < n then user_vector_loop ex prompt n name [] (say ErrNotEnough s')
                 else (vec', s')))
      else (vec, s))"
  by pat_completeness auto
termination
  by (relation "measure (\<lambda>(ex, prompt, n, name, vec, s). length (stdin s))") auto

declare user_vector_loop.simps [simp del]

definition getUserVectorInt :: "size_t \<Rightarrow> string \<Rightarrow> io \<Rightarrow> int64 list \<times> io" where
  "getUserVectorInt sz name s =
     user_vector_loop extract_int64 (PromptInts sz name) (unat sz) name [] s"

definition getUserVectorDouble :: "size_t \<Rightarrow> string \<Rightarrow> io \<Rightarrow> real list \<times> io" where
  "getUserVectorDouble sz name s =
     user_vector_loop extract_double (PromptDoubles sz name) (unat sz) name [] s"

text \<open>
  The echo \<open>for (int64_t val : plaintext1) log_stream << val << " ";\<close> of a vector read
  by \<open>getUserVectorInt\<close> (\<open>demonstrateBFV\<close>, lines 228--233).
\<close>

definition render_ints :: "int64 list \<Rightarrow> string" where
  "render_ints xs = concat (map (\<lambda>x. show_int (sint x) @ '' '') xs)"

section \<open>Properties of getUserSize\<close>

text \<open>The size a line is accepted with, if it is; the messages a rejected line prints.\<close>

definition size_of_line :: "string \<Rightarrow> size_t option" where
  "size_of_line l = (case classify_size_line l of SizeAccepted n \<Rightarrow> Some n | _ \<Rightarrow> None)"

definition size_rejection :: "string \<Rightarrow> console_msg list" where
  "size_rejection l =
     [PromptSize, if classify_size_line l = SizeTrailing then ErrNotSingle else ErrNotPositive]"

lemma classify_size_line_pos: "classify_size_line l = SizeAccepted n \<Longrightarrow> 0 < n"
  by (auto simp: classify_size_line_def split: option.splits if_splits prod.splits)

lemma size_of_line_pos: "size_of_line l = Some n \<Longrightarrow> 0 < n"
  by (auto simp: size_of_line_def classify_size_line_pos split: size_line.splits)

lemma user_size_loop_reject:
  assumes "stdin s = l # ls" and "\<And>n. classify_size_line l \<noteq> SizeAccepted n"
  shows "user_size_loop 0 s =
           user_size_loop 0 (s\<lparr>stdin := ls, console := console s @ size_rejection l\<rparr>)"
proof (cases "classify_size_line l")
  case (SizeAccepted n)
  with assms show ?thesis by blast
qed (use assms in \<open>simp_all add: user_size_loop.simps[of 0 s] size_rejection_def say_def\<close>)

lemma user_size_loop_spec:
  "user_size_loop 0 s =
     (let rejected = takeWhile (\<lambda>l. size_of_line l = None) (stdin s);
          s' = s\<lparr>console := console s @ concat (map size_rejection rejected) @ [PromptSize]\<rparr>
      in case dropWhile (\<lambda>l. size_of_line l = None) (stdin s) of
           [] \<Rightarrow> (0, s'\<lparr>stdin := []\<rparr>)
         | l # rest \<Rightarrow> (the (size_of_line l), s'\<lparr>stdin := rest\<rparr>))"
proof (induction "stdin s" arbitrary: s)
  case Nil
  then show ?case by (simp add: user_size_loop.simps say_def)
next
  case (Cons l ls)
  show ?case
  proof (cases "size_of_line l")
    case None
    let ?s1 = "s\<lparr>stdin := ls, console := console s @ size_rejection l\<rparr>"
    have "classify_size_line l \<noteq> SizeAccepted n" for n
      using None by (auto simp: size_of_line_def)
    then have "user_size_loop 0 s = user_size_loop 0 ?s1"
      using Cons.hyps(2) by (intro user_size_loop_reject) simp_all
    also have "\<dots> = (let rejected = takeWhile (\<lambda>l. size_of_line l = None) ls;
          s' = ?s1\<lparr>console := console ?s1 @ concat (map size_rejection rejected) @ [PromptSize]\<rparr>
      in case dropWhile (\<lambda>l. size_of_line l = None) ls of
           [] \<Rightarrow> (0, s'\<lparr>stdin := []\<rparr>)
         | l # rest \<Rightarrow> (the (size_of_line l), s'\<lparr>stdin := rest\<rparr>))"
      using Cons.hyps(1)[of ?s1] by simp
    finally show ?thesis using Cons.hyps(2)[symmetric] None
      by (auto simp: Let_def split: list.split dest: dropWhile_hd)
  next
    case (Some n)
    then have "classify_size_line l = SizeAccepted n"
      by (auto simp: size_of_line_def split: size_line.splits)
    with Cons.hyps(2)[symmetric] Some show ?thesis
      by (simp add: user_size_loop.simps[of 0 s] say_def)
  qed
qed

text \<open>
  C18. \<open>getUserSize\<close> returns the size of the first line of standard input that holds a
  single positive number and nothing else, consumes the input up to and including that
  line, prints the prompt and one error per rejected line, and logs the chosen size;
  at the end of input it returns 0 after consuming everything.
\<close>

theorem getUserSize_spec:
  "getUserSize s =
     (let rejected = takeWhile (\<lambda>l. size_of_line l = None) (stdin s);
          out = console s @ concat (map size_rejection rejected) @ [PromptSize]
      in case dropWhile (\<lambda>l. size_of_line l = None) (stdin s) of
           [] \<Rightarrow> (0, s\<lparr>stdin := [], console := out, log := log s @ [LSizeChosen 0]\<rparr>)
         | l # rest \<Rightarrow> (the (size_of_line l),
                        s\<lparr>stdin := rest, console := out, log := log s @ [LSizeChosen (the (size_of_line l))]\<rparr>))"
  by (auto simp: getUserSize_def user_size_loop_spec Let_def log_line_def split: list.split
      dest: dropWhile_hd)

text \<open>
  C25. The size returned by \<open>getUserSize\<close> is positive exactly when some input line is
  accepted; it is 0 only when the input runs out first.
\<close>

theorem getUserSize_positive:
  "0 < fst (getUserSize s) \<longleftrightarrow> (\<exists>l\<in>set (stdin s). size_of_line l \<noteq> None)"
proof (cases "dropWhile (\<lambda>l. size_of_line l = None) (stdin s)")
  case Nil
  moreover from Nil have "\<forall>l\<in>set (stdin s). size_of_line l = None"
    by (simp add: dropWhile_eq_Nil_conv)
  moreover from Nil have "fst (getUserSize s) = 0"
    by (simp add: getUserSize_def user_size_loop_spec Let_def del: dropWhile_eq_Nil_conv)
  ultimately show ?thesis by simp
next
  case (Cons l rest)
  then have "l \<in> set (stdin s)" and "size_of_line l \<noteq> None" by (auto dest: dropWhile_hd)
  then show ?thesis using Cons
    by (auto simp: getUserSize_def user_size_loop_spec Let_def intro: size_of_line_pos)
qed

lemma size_of_line_show_nat:
  assumes "0 < k" and "k < 2 ^ 64"
  shows "size_of_line (show_nat k) = Some (of_nat k)"
proof -
  have "scan_integer (show_nat k @ []) = (False, show_nat k, [])"
    by (rule scan_integer_unsigned[OF show_nat_digits show_nat_nonempty]) simp
  moreover have "(of_nat k :: size_t) \<noteq> 0"
    using assms by (simp add: word_of_nat_eq_0_iff nat_dvd_not_less)
  ultimately show ?thesis using assms
    by (simp add: size_of_line_def classify_size_line_def extract_size_t_def extract_char_def
        word_greater_zero_iff)
qed

text \<open>
  C24. The size prompt accepts a negative number: the line \<open>-k\<close>, for \<open>0 < k < 2^64\<close>,
  is taken as the size \<open>2^64 - k\<close>, because \<open>ss >> size\<close> negates the magnitude
  modulo \<open>2^64\<close> and the test \<open>size > 0\<close> then holds.
\<close>

theorem size_of_line_negative:
  assumes "0 < k" and "k < 2 ^ 64"
  shows "size_of_line (CHR ''-'' # show_nat k) = Some (of_nat (2 ^ 64 - k))"
proof -
  have "scan_integer (CHR ''-'' # show_nat k @ []) = (True, show_nat k, [])"
    by (rule scan_integer_negative[OF show_nat_digits]) simp
  moreover have nz: "(of_nat k :: size_t) \<noteq> 0"
    using assms by (simp add: word_of_nat_eq_0_iff nat_dvd_not_less)
  moreover have "- (of_nat k :: size_t) = of_nat (2 ^ 64 - k)"
    using assms by (simp add: of_nat_diff)
  ultimately show ?thesis using assms
    by (simp add: size_of_line_def classify_size_line_def extract_size_t_def extract_char_def
        word_greater_zero_iff)
qed

section \<open>Properties of the vector input loops\<close>

lemma read_values_full: "n \<le> length vec \<Longrightarrow> read_values ex n vec str = vec"
  by (subst read_values.simps) (auto split: option.split)

lemma read_values_length: "length vec \<le> n \<Longrightarrow> length (read_values ex n vec str) \<le> n"
  by (induction ex n vec str rule: read_values.induct) (subst read_values.simps; auto split: option.splits)

lemma read_values_skip:
  "(\<And>str. ex (c # str) = ex str) \<Longrightarrow> read_values ex n vec (c # str) = read_values ex n vec str"
  by (simp add: read_values.simps[of ex n vec "c # str"] read_values.simps[of ex n vec str])

lemma extract_int64_space: "is_space c \<Longrightarrow> extract_int64 (c # str) = extract_int64 str"
  by (simp add: extract_int64_def scan_integer_def)

lemma render_ints_Cons: "render_ints (x # xs) = show_int (sint x) @ CHR '' '' # render_ints xs"
  by (simp add: render_ints_def)

lemma read_values_render:
  "length vec + length xs \<le> n \<Longrightarrow>
     read_values extract_int64 n vec (render_ints xs @ rest) = read_values extract_int64 n (vec @ xs) rest"
proof (induction xs arbitrary: vec)
  case Nil
  then show ?case by (simp add: render_ints_def)
next
  case (Cons x xs)
  have sp: "is_space CHR '' ''" by (simp add: is_space_def)
  have "extract_int64 (render_ints (x # xs) @ rest) = Some (x, CHR '' '' # render_ints xs @ rest)"
    using extract_int64_show_int[of "CHR '' '' # render_ints xs @ rest" x]
    by (simp add: render_ints_Cons is_digit_def)
  moreover have "length vec < n" using Cons.prems by simp
  ultimately have "read_values extract_int64 n vec (render_ints (x # xs) @ rest) =
      read_values extract_int64 n (vec @ [x]) (CHR '' '' # render_ints xs @ rest)"
    by (simp add: read_values.simps[of _ n vec])
  also have "\<dots> = read_values extract_int64 n (vec @ [x]) (render_ints xs @ rest)"
    using sp by (intro read_values_skip extract_int64_space)
  also have "\<dots> = read_values extract_int64 n (vec @ x # xs) rest"
    using Cons by simp
  finally show ?case .
qed

text \<open>A line of \<open>k\<close> ones, \<open>"1 1 ... 1 "\<close>, read by the extraction loop for \<open>double\<close>.\<close>

lemma extract_double_space: "is_space c \<Longrightarrow> extract_double (c # str) = extract_double str"
  by (simp add: extract_double_def)

lemma extract_double_one: "extract_double (CHR ''1'' # CHR '' '' # str) = Some (1, CHR '' '' # str)"
  by (simp add: extraction_eval)

lemma read_values_ones:
  "length vec + k \<le> n \<Longrightarrow>
     read_values extract_double n vec (concat (replicate k ''1 '') @ rest) =
     read_values extract_double n (vec @ replicate k 1) rest"
proof (induction k arbitrary: vec)
  case 0
  then show ?case by simp
next
  case (Suc k)
  have sp: "is_space CHR '' ''" by (simp add: is_space_def)
  have "read_values extract_double n vec (concat (replicate (Suc k) ''1 '') @ rest) =
      read_values extract_double n (vec @ [1]) (CHR '' '' # concat (replicate k ''1 '') @ rest)"
    using Suc.prems by (simp add: read_values.simps[of _ n vec] extract_double_one)
  also have "\<dots> = read_values extract_double n (vec @ [1]) (concat (replicate k ''1 '') @ rest)"
    using sp by (intro read_values_skip extract_double_space)
  also have "\<dots> = read_values extract_double n (vec @ replicate (Suc k) 1) rest"
    using Suc by (simp add: replicate_append_same)
  finally show ?case .
qed

definition short_line :: "'a extractor \<Rightarrow> nat \<Rightarrow> string \<Rightarrow> bool" where
  "short_line ex n l \<longleftrightarrow> length (read_values ex n [] l) < n"

lemma user_vector_loop_retry:
  assumes "0 < n" and "stdin s = l # ls" and "short_line ex n l"
  shows "user_vector_loop ex prompt n name [] s =
           user_vector_loop ex prompt n name []
             (s\<lparr>stdin := ls, log := log s @ [LUserInput name l],
                 console := console s @ [prompt, ErrNotEnough]\<rparr>)"
  using assms by (simp add: user_vector_loop.simps[of _ _ _ _ "[]" s] short_line_def say_def log_line_def)

text \<open>
  C19. The vector input loop, for a positive length \<open>n\<close>, returns the first \<open>n\<close>
  values of the first line that yields at least \<open>n\<close> values, consumes the lines up to
  it, logs every line it read and prints one error per short line; at the end of input it
  returns the empty vector.
\<close>

theorem user_vector_loop_spec:
  assumes "0 < n"
  shows "user_vector_loop ex prompt n name [] s =
     (let tried = takeWhile (short_line ex n) (stdin s);
          s' = s\<lparr>console := console s @ concat (map (\<lambda>_. [prompt, ErrNotEnough]) tried) @ [prompt],
                log := log s @ map (LUserInput name) tried\<rparr>
      in case dropWhile (short_line ex n) (stdin s) of
           [] \<Rightarrow> ([], s'\<lparr>stdin := []\<rparr>)
         | l # rest \<Rightarrow> (read_values ex n [] l, s'\<lparr>stdin := rest, log := log s' @ [LUserInput name l]\<rparr>))"
proof (induction "stdin s" arbitrary: s)
  case Nil
  with assms show ?case by (simp add: user_vector_loop.simps say_def)
next
  case (Cons l ls)
  show ?case
  proof (cases "short_line ex n l")
    case True
    let ?s1 = "s\<lparr>stdin := ls, log := log s @ [LUserInput name l],
                 console := console s @ [prompt, ErrNotEnough]\<rparr>"
    have "user_vector_loop ex prompt n name [] s = user_vector_loop ex prompt n name [] ?s1"
      using assms Cons.hyps(2) True by (intro user_vector_loop_retry) simp_all
    also have "\<dots> = (let tried = takeWhile (short_line ex n) ls;
          s' = ?s1\<lparr>console := console ?s1 @ concat (map (\<lambda>_. [prompt, ErrNotEnough]) tried) @ [prompt],
                log := log ?s1 @ map (LUserInput name) tried\<rparr>
      in case dropWhile (short_line ex n) ls of
           [] \<Rightarrow> ([], s'\<lparr>stdin := []\<rparr>)
         | l # rest \<Rightarrow> (read_values ex n [] l, s'\<lparr>stdin := rest, log := log s' @ [LUserInput name l]\<rparr>))"
      using Cons.hyps(1)[of ?s1] by simp
    finally show ?thesis using Cons.hyps(2)[symmetric] True
      by (auto simp: Let_def split: list.split dest: dropWhile_hd)
  next
    case False
    with assms Cons.hyps(2)[symmetric] show ?thesis
      by (simp add: user_vector_loop.simps[of _ _ _ _ "[]" s] short_line_def say_def log_line_def)
  qed
qed

lemma read_values_line_length:
  "\<not> short_line ex n l \<Longrightarrow> length (read_values ex n [] l) = n"
  using read_values_length[of "[]" n ex l] by (simp add: short_line_def)

lemma user_vector_loop_length:
  "length (fst (user_vector_loop ex prompt n name [] s)) = 0 \<or>
   length (fst (user_vector_loop ex prompt n name [] s)) = n"
proof (cases "n = 0")
  case True
  then show ?thesis by (simp add: user_vector_loop.simps)
next
  case False
  show ?thesis
  proof (cases "dropWhile (short_line ex n) (stdin s)")
    case Nil
    then show ?thesis using False
      by (simp add: user_vector_loop_spec Let_def del: dropWhile_eq_Nil_conv)
  next
    case (Cons l rest)
    then have "\<not> short_line ex n l" by (auto dest: dropWhile_hd)
    with read_values_length[of "[]" n ex l] have "length (read_values ex n [] l) = n"
      by (simp add: short_line_def)
    then show ?thesis using Cons False by (simp add: user_vector_loop_spec Let_def)
  qed
qed

text \<open>
  The input routines only consume standard input and append to the console and the log;
  a vector routine returns a vector of the requested length unless the input ran out.
\<close>

lemma getUserSize_io_le: "io_le s (snd (getUserSize s))"
proof (cases "dropWhile (\<lambda>l. size_of_line l = None) (stdin s)")
  case Nil
  then show ?thesis by (simp add: getUserSize_spec io_le_def del: dropWhile_eq_Nil_conv)
next
  case (Cons l rest)
  then show ?thesis by (simp add: getUserSize_spec io_le_def suffix_dropWhile_Cons)
qed

lemma user_vector_loop_io_le: "io_le s (snd (user_vector_loop ex prompt n name [] s))"
proof (cases "n = 0")
  case True
  then show ?thesis by (simp add: user_vector_loop.simps)
next
  case False
  show ?thesis
  proof (cases "dropWhile (short_line ex n) (stdin s)")
    case Nil
    with False show ?thesis
      by (simp add: user_vector_loop_spec io_le_def Let_def del: dropWhile_eq_Nil_conv)
  next
    case (Cons l rest)
    with False show ?thesis
      by (simp add: user_vector_loop_spec io_le_def Let_def suffix_dropWhile_Cons)
  qed
qed

lemma user_vector_loop_eof:
  "length (fst (user_vector_loop ex prompt n name [] s)) = n \<or>
   stdin (snd (user_vector_loop ex prompt n name [] s)) = []"
proof (cases "n = 0")
  case True
  then show ?thesis by (simp add: user_vector_loop.simps)
next
  case False
  show ?thesis
  proof (cases "dropWhile (short_line ex n) (stdin s)")
    case Nil
    then show ?thesis using False
      by (simp add: user_vector_loop_spec Let_def del: dropWhile_eq_Nil_conv)
  next
    case (Cons l rest)
    then have "\<not> short_line ex n l" by (auto dest: dropWhile_hd)
    with Cons False show ?thesis
      by (simp add: user_vector_loop_spec Let_def read_values_line_length)
  qed
qed

lemma getUserVectorInt_io_le: "io_le s (snd (getUserVectorInt sz name s))"
  unfolding getUserVectorInt_def by (rule user_vector_loop_io_le)

lemma getUserVectorDouble_io_le: "io_le s (snd (getUserVectorDouble sz name s))"
  unfolding getUserVectorDouble_def by (rule user_vector_loop_io_le)

lemma getUserVectorInt_eof:
  "length (fst (getUserVectorInt sz name s)) = unat sz \<or> stdin (snd (getUserVectorInt sz name s)) = []"
  unfolding getUserVectorInt_def by (rule user_vector_loop_eof)

lemma getUserVectorDouble_eof:
  "length (fst (getUserVectorDouble sz name s)) = unat sz \<or> stdin (snd (getUserVectorDouble sz name s)) = []"
  unfolding getUserVectorDouble_def by (rule user_vector_loop_eof)

text \<open>
  C13. If some line of the remaining input yields the requested
  number of integers, \<open>getUserVectorInt\<close> returns a vector of that length: the retry loop
  cannot end before reaching such a line.
\<close>

theorem getUserVectorInt_progress:
  assumes "\<exists>l\<in>set (stdin s). \<not> short_line extract_int64 (unat sz) l"
  shows "length (fst (getUserVectorInt sz name s)) = unat sz"
proof (cases "unat sz = 0")
  case True
  then show ?thesis by (simp add: getUserVectorInt_def user_vector_loop.simps)
next
  case False
  obtain l rest where d: "dropWhile (short_line extract_int64 (unat sz)) (stdin s) = l # rest"
    using assms by (cases "dropWhile (short_line extract_int64 (unat sz)) (stdin s)") auto
  then have "\<not> short_line extract_int64 (unat sz) l" by (auto dest: dropWhile_hd)
  with d False show ?thesis
    by (simp add: getUserVectorInt_def user_vector_loop_spec Let_def read_values_line_length)
qed

text \<open>
  C26. \<open>getUserVectorInt\<close> returns either exactly \<open>size\<close> integers or, when the input ends
  first, none at all.
\<close>

theorem getUserVectorInt_length:
  "length (fst (getUserVectorInt sz name s)) = 0 \<or> length (fst (getUserVectorInt sz name s)) = unat sz"
  unfolding getUserVectorInt_def by (rule user_vector_loop_length)

text \<open>
  C27. Round trip between the log and the input: the text \<open>demonstrateBFV\<close> writes for a
  vector (\<open>val << " "\<close> for each value), read back by the extraction loop of
  \<open>getUserVectorInt\<close> with the vector's length, gives the vector again.
\<close>

theorem read_values_render_roundtrip:
  "read_values extract_int64 (length xs) [] (render_ints xs) = xs"
  using read_values_render[of "[]" xs "length xs" "[]"] by (simp add: read_values_full)

section \<open>Witnesses\<close>

theorem getUserSize_positive_witness:
  "(\<exists>l\<in>set [''x'', ''3''] . size_of_line l \<noteq> None) \<and>
   0 < fst (getUserSize \<lparr>stdin = [''x'', ''3''], console = [], log = []\<rparr>)"
proof -
  have "size_of_line ''3'' = Some 3"
    by (simp add: size_of_line_def classify_size_line_def extraction_eval)
  then show ?thesis
    using getUserSize_positive[of "\<lparr>stdin = [''x'', ''3''], console = [], log = []\<rparr>"] by auto
qed

theorem size_of_line_negative_witness:
  "0 < (1::nat) \<and> (1::nat) < 2 ^ 64 \<and> size_of_line ''-1'' = Some 18446744073709551615"
proof -
  have "show_nat 1 = ''1''" by (simp add: show_nat.simps digit_char_def)
  then show ?thesis using size_of_line_negative[of 1] by simp
qed

theorem user_vector_loop_spec_witness:
  "0 < (2::nat) \<and>
   fst (user_vector_loop extract_int64 (PromptInts 2 ''v'') 2 ''v'' []
          \<lparr>stdin = [''1'', ''3 4 5''], console = [], log = []\<rparr>) = [3, 4]"
proof -
  have "short_line extract_int64 2 ''1''" and "\<not> short_line extract_int64 2 ''3 4 5''"
    and "read_values extract_int64 2 [] ''3 4 5'' = [3, 4]"
    by (simp_all add: short_line_def read_values.simps extraction_eval)
  then show ?thesis
    using user_vector_loop_spec[of 2 extract_int64 "PromptInts 2 ''v''" "''v''"
        "\<lparr>stdin = [''1'', ''3 4 5''], console = [], log = []\<rparr>"]
    by (simp add: Let_def)
qed

theorem getUserVectorInt_progress_witness:
  "(\<exists>l\<in>set [''x'', ''5 6'']. \<not> short_line extract_int64 (unat (2 :: size_t)) l) \<and>
   length (fst (getUserVectorInt 2 ''plaintext1'' \<lparr>stdin = [''x'', ''5 6''], console = [], log = []\<rparr>)) = 2"
proof -
  have "\<not> short_line extract_int64 2 ''5 6''"
    by (simp add: short_line_def read_values.simps extraction_eval)
  then show ?thesis
    using getUserVectorInt_progress[of "\<lparr>stdin = [''x'', ''5 6''], console = [], log = []\<rparr>" 2 "''plaintext1''"]
    by simp
qed

end
