(* ===== verification/Working.thy ===== *)
theory Working
  imports Seal UserInput
begin

text \<open>
  The object \<open>SEAL_Working\<close> (\<open>src/SEAL_Working.h\<close>, lines 21--67 and 171--207): the
  two parameter sets, the contexts, the relinearization keys, the two encryptors held
  in \<open>std::optional\<close> and engaged only at the end of the constructor, and the CKKS scale.
  After construction nothing of the object changes; the demonstrations only write to
  the streams. A run of the harness is a computation in the monad of \<open>Prelude\<close>
  over the streams, whose failures are SEAL's exceptions and undefined behaviour
  (reading a \<open>std::vector\<close> out of range, using an empty \<open>std::optional\<close>), which
  \<open>main\<close> cannot catch. The last section defines \<open>grows\<close> (a computation only
  consumes input and appends output) with its structural rules, and the input phase
  and the undefined-behaviour argument the two demonstrations share.
\<close>

datatype fault = Exception exn | Undefined string

type_synonym 'a prog = "(io, fault, 'a) exc"

definition library :: "exn + 'a \<Rightarrow> 'a prog" where
  "library r = lift (case r of Inl e \<Rightarrow> Inl (Exception e) | Inr a \<Rightarrow> Inr a)"

definition defined :: "string \<Rightarrow> 'a option \<Rightarrow> 'a prog" where
  "defined what r = (case r of None \<Rightarrow> throw (Undefined what) | Some a \<Rightarrow> ret a)"

text \<open>A computation whose failure is undefined behaviour, named by the string.\<close>

definition ub_check :: "string + 'a \<Rightarrow> 'a prog" where
  "ub_check r = (case r of Inl what \<Rightarrow> throw (Undefined what) | Inr a \<Rightarrow> ret a)"

definition emit :: "log_entry \<Rightarrow> unit prog" where
  "emit e = modify (log_line e)"

lemma library_Inr [simp]: "library (Inr a) = ret a"
  by (simp add: library_def lift_def ret_def)

lemma library_Inl [simp]: "library (Inl e) = throw (Exception e)"
  by (simp add: library_def lift_def throw_def)

lemma defined_Some [simp]: "defined what (Some a) = ret a"
  by (simp add: defined_def)

lemma defined_None [simp]: "defined what None = throw (Undefined what)"
  by (simp add: defined_def)

lemma ub_check_Inr [simp]: "ub_check (Inr a) = ret a"
  by (simp add: ub_check_def)

lemma ub_check_Inl [simp]: "ub_check (Inl what) = throw (Undefined what)"
  by (simp add: ub_check_def)

lemma emit_step [simp]: "xbind (emit e) f s = f () (log_line e s)"
  by (simp add: emit_def)

lemma emit_apply [simp]: "emit e s = (Inr (), log_line e s)"
  by (simp add: emit_def modify_def)

text \<open>
  \<open>runs_to m s a tr\<close>: run from \<open>s\<close>, \<open>m\<close> returns \<open>a\<close> having written \<open>tr\<close> to the log and
  nothing else (no input read, nothing printed to the console).
\<close>

definition runs_to :: "'a prog \<Rightarrow> io \<Rightarrow> 'a \<Rightarrow> log_entry list \<Rightarrow> bool" where
  "runs_to m s a tr \<longleftrightarrow> m s = (Inr a, s\<lparr>log := log s @ tr\<rparr>)"

lemma runs_to_ret [intro]: "runs_to (ret a) s a []"
  by (simp add: runs_to_def)

lemma runs_to_emit [intro]: "runs_to (emit e) s () [e]"
  by (simp add: runs_to_def emit_def modify_def log_line_def)

lemma runs_to_xbind:
  assumes "runs_to m s a tr1" and "runs_to (f a) (s\<lparr>log := log s @ tr1\<rparr>) b tr2"
  shows "runs_to (xbind m f) s b (tr1 @ tr2)"
  using assms by (simp add: runs_to_def xbind_def)

lemma runs_to_emit_xbind:
  "runs_to (f ()) (s\<lparr>log := log s @ [e]\<rparr>) b tr \<Longrightarrow> runs_to (xbind (emit e) f) s b (e # tr)"
  by (simp add: runs_to_def log_line_def)

lemma runs_to_exI: "runs_to m s a tr \<Longrightarrow> P tr \<Longrightarrow> \<exists>tr. runs_to m s a tr \<and> P tr"
  by blast

lemma runs_to_ret_xbind:
  "runs_to (f a) s b tr \<Longrightarrow> runs_to (xbind (ret a) f) s b tr"
  by simp

section \<open>Parameters\<close>

definition create_bfv_parms :: encryption_parameters where
  "create_bfv_parms =
     \<lparr>scheme = BFV, poly_modulus_degree = 8192, coeff_modulus = bfv_default_coeff_8192,
      plain_modulus = plain_modulus_batching_8192_20\<rparr>"

definition create_ckks_parms :: encryption_parameters where
  "create_ckks_parms =
     \<lparr>scheme = CKKS, poly_modulus_degree = 8192, coeff_modulus = ckks_coeff_8192_60_40_40_60,
      plain_modulus = 0\<rparr>"

text \<open>
  What \<open>SEALContext\<close> checks of a parameter set before \<open>KeyGenerator\<close> accepts it
  (primality of the moduli is not modelled): a supported degree, coefficient moduli of
  2 to 60 bits, each \<open>\<equiv> 1 (mod 2n)\<close>, of at most \<open>CoeffModulus::MaxBitCount\<close> bits in
  all; for BFV a plain modulus that admits batching and lies below every coefficient
  modulus.
\<close>

definition max_bit_count :: "nat \<Rightarrow> nat" where
  "max_bit_count n =
     (if n = 1024 then 27 else if n = 2048 then 54 else if n = 4096 then 109
      else if n = 8192 then 218 else if n = 16384 then 438 else if n = 32768 then 881 else 0)"

definition parms_valid :: "encryption_parameters \<Rightarrow> bool" where
  "parms_valid p \<longleftrightarrow>
     (let n = poly_modulus_degree p; q = coeff_modulus p in
      0 < max_bit_count n \<and> 2 \<le> length q \<and>
      list_all (\<lambda>x. x mod (2 * n) = 1 \<and> 2 \<le> bit_count x \<and> bit_count x \<le> 60) q \<and>
      sum_list (map bit_count q) \<le> max_bit_count n \<and>
      (case scheme p of
         BFV \<Rightarrow> 1 < plain_modulus p \<and> plain_modulus p mod (2 * n) = 1 \<and>
                list_all (\<lambda>x. plain_modulus p < x) q
       | CKKS \<Rightarrow> plain_modulus p = 0))"

text \<open>\<open>KeyGenerator::create_relin_keys\<close>: one key-switching key, for size 3, at the key level.\<close>

definition keygen_relin_keys :: "encryption_parameters \<Rightarrow> relin_keys" where
  "keygen_relin_keys p = \<lparr>rk_count = 1, rk_level = key_level p\<rparr>"

section \<open>The object and its constructor\<close>

record seal_working =
  bfv_parms :: encryption_parameters
  bfv_ctx :: "int seal_context"
  bfv_relin :: relin_keys
  bfv_encryptor :: "int seal_context option"
  ckks_parms :: encryption_parameters
  ckks_ctx :: "real seal_context"
  ckks_relin :: relin_keys
  ckks_encryptor :: "real seal_context option"
  ckks_scale :: real

text \<open>
  The constructor: parameters, contexts and key generators in the member initialiser
  list (a key generator refuses invalid parameters), then the keys, then the two
  encryptors are engaged.
\<close>

text \<open>The members once constructed: contexts, relinearization keys, engaged encryptors.\<close>

definition init_members :: "encryption_parameters \<Rightarrow> encryption_parameters \<Rightarrow> seal_working" where
  "init_members bp cp =
     \<lparr>bfv_parms = bp, bfv_ctx = bfv_context bp, bfv_relin = keygen_relin_keys bp,
      bfv_encryptor = Some (bfv_context bp),
      ckks_parms = cp, ckks_ctx = ckks_context cp, ckks_relin = keygen_relin_keys cp,
      ckks_encryptor = Some (ckks_context cp), ckks_scale = 2 ^ 40\<rparr>"

definition SEAL_Working_new :: "seal_working prog" where
  "SEAL_Working_new =
     (let bp = create_bfv_parms; cp = create_ckks_parms in
      if \<not> parms_valid bp \<or> \<not> parms_valid cp
      then throw (Exception (InvalidArgument ''encryption parameters are not set correctly''))
      else xbind (emit (LText ''SEAL_Working: Microsoft SEAL library implementation'')) (\<lambda>_.
           xbind (emit (LText ''Features: Real BFV and CKKS with proper noise management'')) (\<lambda>_.
           ret (init_members bp cp))))"

section \<open>Diagnostics\<close>

definition print_bfv_info :: "int ciphertext \<Rightarrow> string \<Rightarrow> unit prog" where
  "print_bfv_info c name = emit (LInfoBFV name (ct_size c))"

definition print_ckks_info :: "real ciphertext \<Rightarrow> string \<Rightarrow> unit prog" where
  "print_ckks_info c name = emit (LInfoCKKS name (ct_size c) (ct_level c) (ct_scale c))"

section \<open>The constructed object\<close>

definition seal_working_init :: seal_working where
  "seal_working_init = init_members create_bfv_parms create_ckks_parms"

lemma parms_valid_bfv: "parms_valid create_bfv_parms"
  by (simp add: parms_valid_def create_bfv_parms_def bfv_default_coeff_8192_def
      plain_modulus_batching_8192_20_def max_bit_count_def bit_count.simps)

lemma parms_valid_ckks: "parms_valid create_ckks_parms"
  by (simp add: parms_valid_def create_ckks_parms_def ckks_coeff_8192_60_40_40_60_def
      max_bit_count_def bit_count.simps)

text \<open>
  Both parameter sets pass the checks SEAL makes of them, so the
  constructor of \<open>SEAL_Working\<close> never throws: it writes its two lines to the log and
  returns the object with both encryptors engaged, whatever the state of the streams.
\<close>

theorem SEAL_Working_new_run:
  "SEAL_Working_new s =
     (Inr seal_working_init,
      log_line (LText ''Features: Real BFV and CKKS with proper noise management'')
        (log_line (LText ''SEAL_Working: Microsoft SEAL library implementation'') s))"
  by (simp add: SEAL_Working_new_def seal_working_init_def parms_valid_bfv parms_valid_ckks
      emit_def exc_simps)

lemma xbind_SEAL_Working_new:
  "xbind SEAL_Working_new f s =
     f seal_working_init
       (log_line (LText ''Features: Real BFV and CKKS with proper noise management'')
         (log_line (LText ''SEAL_Working: Microsoft SEAL library implementation'') s))"
  by (simp add: xbind_def SEAL_Working_new_run)

text \<open>The facts of the two parameter sets that the demonstrations depend on.\<close>

lemma bfv_facts [simp]:
  "bfv_ctx seal_working_init = bfv_context create_bfv_parms"
  "bfv_relin seal_working_init = keygen_relin_keys create_bfv_parms"
  "bfv_encryptor seal_working_init = Some (bfv_context create_bfv_parms)"
  "ctx_parms (bfv_context p) = p"
  "scheme create_bfv_parms = BFV"
  "plain_modulus create_bfv_parms = 1032193"
  "slot_count create_bfv_parms = 8192"
  "first_level create_bfv_parms = 3"
  "key_level create_bfv_parms = 4"
  by (simp_all add: seal_working_init_def init_members_def create_bfv_parms_def bfv_context_def
      plain_modulus_batching_8192_20_def slot_count_def first_level_def key_level_def
      bfv_default_coeff_8192_def)

lemma ckks_facts [simp]:
  "ckks_ctx seal_working_init = ckks_context create_ckks_parms"
  "ckks_relin seal_working_init = keygen_relin_keys create_ckks_parms"
  "ckks_encryptor seal_working_init = Some (ckks_context create_ckks_parms)"
  "ckks_scale seal_working_init = 2 ^ 40"
  "ctx_parms (ckks_context p) = p"
  "scheme create_ckks_parms = CKKS"
  "slot_count create_ckks_parms = 4096"
  "first_level create_ckks_parms = 2"
  "key_level create_ckks_parms = 3"
  "coeff_modulus create_ckks_parms = ckks_coeff_8192_60_40_40_60"
  by (simp_all add: seal_working_init_def init_members_def create_ckks_parms_def ckks_context_def
      slot_count_def first_level_def key_level_def ckks_coeff_8192_60_40_40_60_def)

section \<open>Streams only grow\<close>

text \<open>
  \<open>grows m\<close>: from every state, \<open>m\<close> only consumes input and appends to the console
  and the log (\<open>io_le\<close>), whether it returns or throws. The rules \<open>grows_intros\<close> prove
  it of a computation by its structure.
\<close>

definition grows :: "'a prog \<Rightarrow> bool" where
  "grows m \<longleftrightarrow> (\<forall>s. io_le s (snd (m s)))"

lemma grows_ret [grows_intros]: "grows (ret a)"
  by (simp add: grows_def)

lemma grows_throw [grows_intros]: "grows (throw e)"
  by (simp add: grows_def)

lemma grows_emit [grows_intros]: "grows (emit e)"
  by (simp add: grows_def)

lemma grows_library [grows_intros]: "grows (library r)"
  by (simp add: grows_def library_def lift_def)

lemma grows_defined [grows_intros]: "grows (defined w r)"
  by (simp add: grows_def defined_def split: option.split)

lemma grows_ub_check [grows_intros]: "grows (ub_check r)"
  by (simp add: grows_def ub_check_def split: sum.split)

lemma grows_call [grows_intros]: "(\<And>s. io_le s (snd (f s))) \<Longrightarrow> grows (call f)"
  by (simp add: grows_def call_def)

lemma grows_xbind [grows_intros]: "grows m \<Longrightarrow> (\<And>a. grows (f a)) \<Longrightarrow> grows (xbind m f)"
  unfolding grows_def xbind_def by (auto split: prod.split sum.split intro: io_le_trans)

lemma grows_case_prod [grows_intros]: "(\<And>a b. grows (f a b)) \<Longrightarrow> grows (case_prod f p)"
  by (cases p) simp

lemma grows_if [grows_intros]:
  "(b \<Longrightarrow> grows m1) \<Longrightarrow> (\<not> b \<Longrightarrow> grows m2) \<Longrightarrow> grows (if b then m1 else m2)"
  by simp

declare getUserSize_io_le [grows_intros] getUserVectorInt_io_le [grows_intros]
  getUserVectorDouble_io_le [grows_intros]

lemma grows_print_infos [grows_intros]: "grows (print_bfv_info c n)" "grows (print_ckks_info c' n)"
  by (simp_all add: print_bfv_info_def print_ckks_info_def grows_intros)

lemma grows_SEAL_Working_new [grows_intros]: "grows SEAL_Working_new"
  unfolding SEAL_Working_new_def Let_def by (intro grows_intros)

text \<open>
  The input phase shared by both demonstrations (\<open>getUserSize\<close>, then two vectors of that
  size, then their echo in the log): it returns, and its two vectors have the size read
  unless the input ran out on the way.
\<close>

lemma read_input_cases:
  assumes io: "\<And>sz name s. io_le s (snd (rd sz name s))"
    and eof: "\<And>sz name s. length (fst (rd sz name s)) = unat sz \<or> stdin (snd (rd sz name s)) = []"
  shows "\<exists>n p1 p2 s'.
     xbind (emit (LText ''2. Encryption:'')) (\<lambda>_.
     xbind (call getUserSize) (\<lambda>n.
     xbind (call (rd n ''plaintext1'')) (\<lambda>p1.
     xbind (call (rd n ''plaintext2'')) (\<lambda>p2.
     xbind (emit (e1 p1)) (\<lambda>_.
     xbind (emit (e2 p2)) (\<lambda>_.
     ret (n, p1, p2))))))) s = (Inr (n, p1, p2), s') \<and> io_le s s' \<and>
     (length p1 = unat n \<and> length p2 = unat n \<or> stdin s' = [])"
proof -
  define s0 where "s0 = log_line (LText ''2. Encryption:'') s"
  obtain n s1 where 1: "getUserSize s0 = (n, s1)" by fastforce
  obtain p1 s2 where 2: "rd n ''plaintext1'' s1 = (p1, s2)" by fastforce
  obtain p2 s3 where 3: "rd n ''plaintext2'' s2 = (p2, s3)" by fastforce
  have "io_le s s0" by (simp add: s0_def)
  moreover have "io_le s0 s1" "io_le s1 s2" "io_le s2 s3"
    using getUserSize_io_le[of s0] io[where sz = n and name = "''plaintext1''" and s = s1]
      io[where sz = n and name = "''plaintext2''" and s = s2]
    by (simp_all add: 1 2 3)
  ultimately have sl: "io_le s s3" "io_le s2 s3" by (blast intro: io_le_trans)+
  have "length p1 = unat n \<or> stdin s2 = []" "length p2 = unat n \<or> stdin s3 = []"
    using eof[where sz = n and name = "''plaintext1''" and s = s1]
      eof[where sz = n and name = "''plaintext2''" and s = s2]
    by (simp_all add: 2 3)
  then have "length p1 = unat n \<and> length p2 = unat n \<or> stdin s3 = []"
    using io_le_stdin_Nil[OF sl(2)] by blast
  with sl(1) show ?thesis by (simp add: 1 2 3 flip: s0_def)
qed

text \<open>
  A demonstration (banner, input, then the work on the two vectors) whose work, on
  vectors of the size read, reaches only the undefined behaviour allowed by \<open>ok\<close>, reaches
  any other undefined behaviour only once the input is exhausted.
\<close>

lemma demo_undefined_eof:
  assumes banner: "fst (banner s) = Inr ()"
    and input: "\<And>s. \<exists>n p1 p2 s'. input s = (Inr (n, p1, p2), s') \<and> io_le s s' \<and>
                   (length p1 = unat n \<and> length p2 = unat n \<or> stdin s' = [])"
    and core: "\<And>n p1 p2 s w. length p1 = unat n \<Longrightarrow> length p2 = unat n \<Longrightarrow>
                 fst (core n p1 p2 s) = Inl (Undefined w) \<Longrightarrow> ok w"
    and grows: "\<And>n p1 p2. grows (core n p1 p2)"
    and ub: "fst (xbind banner (\<lambda>_. xbind input (\<lambda>(n, p1, p2). core n p1 p2)) s) = Inl (Undefined u)"
  shows "stdin (snd (xbind banner (\<lambda>_. xbind input (\<lambda>(n, p1, p2). core n p1 p2)) s)) = [] \<or> ok u"
proof -
  obtain s0 where b: "banner s = (Inr (), s0)" using banner by (cases "banner s") simp
  obtain n p1 p2 s' where i: "input s0 = (Inr (n, p1, p2), s')"
    and l: "length p1 = unat n \<and> length p2 = unat n \<or> stdin s' = []"
    using input[of s0] by blast
  have d: "xbind banner (\<lambda>_. xbind input (\<lambda>(n, p1, p2). core n p1 p2)) s = core n p1 p2 s'"
    by (simp add: xbind_Inr_step[where m = banner, OF b] xbind_Inr_step[where m = input, OF i])
  have "io_le s' (snd (core n p1 p2 s'))" using grows by (simp add: grows_def)
  with l core[of p1 n p2 s' u] ub show ?thesis by (auto simp: d intro: io_le_stdin_Nil)
qed

end
