(* ===== verification/DemoBFV.thy ===== *)
theory DemoBFV
  imports Working UserInput
begin

text \<open>
  \<open>SEAL_Working::demonstrateBFV\<close> (\<open>src/SEAL_Working.h\<close>, lines 210--360), split at the
  numbered sections of its log: the banner, the input of the size and the two vectors,
  encoding and encryption, then addition, multiplication with relinearization, and
  multiplication by the plaintext scalar 2, each decrypted, decoded and logged, and
  last the comparison with the results computed on \<open>int64_t\<close>, whose overflow is
  undefined behaviour (\<open>bfv_expected_at\<close>). Each part is one definition; \<open>bfv_core\<close>
  is everything after the input. The lemmas trace the run on the constructed object,
  characterise its verdicts on inputs free of overflow, show that an overflowing input
  is undefined after the line \<open>4. Verification:\<close>, that on vectors of the size read
  and free of overflow the run has no undefined behaviour, and that its homomorphic
  addition and multiplication refine \<open>int64_t\<close> arithmetic within the centred range
  of \<open>t\<close>.
\<close>

definition rule_line :: log_entry where
  "rule_line = LText (replicate 60 CHR ''='')"

definition bfv_banner :: "unit prog" where
  "bfv_banner =
     xbind (emit rule_line) (\<lambda>_.
     xbind (emit (LText ''BFV (Brakerski-Fan-Vercauteren) with Microsoft SEAL'')) (\<lambda>_.
     xbind (emit rule_line) (\<lambda>_.
     xbind (emit (LText ''1. Key Generation:'')) (\<lambda>_.
     emit (LTiming ''Key generation completed in constructor'')))))"

definition bfv_input :: "(size_t \<times> int64 list \<times> int64 list) prog" where
  "bfv_input =
     xbind (emit (LText ''2. Encryption:'')) (\<lambda>_.
     xbind (call getUserSize) (\<lambda>n.
     xbind (call (getUserVectorInt n ''plaintext1'')) (\<lambda>p1.
     xbind (call (getUserVectorInt n ''plaintext2'')) (\<lambda>p2.
     xbind (emit (LPlaintextInts ''Plaintext 1: '' (render_ints p1))) (\<lambda>_.
     xbind (emit (LPlaintextInts ''Plaintext 2: '' (render_ints p2))) (\<lambda>_.
     ret (n, p1, p2)))))))"

definition bfv_encrypt :: "seal_working \<Rightarrow> int64 list \<Rightarrow> int64 list \<Rightarrow> (int ciphertext \<times> int ciphertext) prog" where
  "bfv_encrypt w p1 p2 =
     xbind (library (batch_encode (bfv_ctx w) p1)) (\<lambda>pt1.
     xbind (library (batch_encode (bfv_ctx w) p2)) (\<lambda>pt2.
     xbind (emit LEncodedPoly) (\<lambda>_.
     xbind (defined ''bfv_encryptor'' (bfv_encryptor w)) (\<lambda>enc.
     xbind (library (encryptor_encrypt enc pt1)) (\<lambda>c1.
     xbind (library (encryptor_encrypt enc pt2)) (\<lambda>c2.
     xbind (emit (LTiming ''Encryption completed'')) (\<lambda>_.
     xbind (print_bfv_info c1 ''ctxt1 (after encryption)'') (\<lambda>_.
     xbind (print_bfv_info c2 ''ctxt2 (after encryption)'') (\<lambda>_.
     ret (c1, c2))))))))))"

text \<open>Decrypt and decode: \<open>bfv_decryptor.decrypt\<close> then \<open>bfv_encoder.decode\<close>.\<close>

definition bfv_reveal :: "seal_working \<Rightarrow> int ciphertext \<Rightarrow> int64 list" where
  "bfv_reveal w c = batch_decode (bfv_ctx w) (decryptor_decrypt (bfv_ctx w) c)"

definition bfv_addition ::
  "seal_working \<Rightarrow> nat \<Rightarrow> int64 list \<Rightarrow> int64 list \<Rightarrow> int ciphertext \<Rightarrow> int ciphertext \<Rightarrow> int64 list prog" where
  "bfv_addition w n p1 p2 c1 c2 =
     xbind (library (evaluator_add (bfv_ctx w) c1 c2)) (\<lambda>cs.
     xbind (defined ''plaintext1[i]'' (checked_take n p1)) (\<lambda>a.
     xbind (defined ''plaintext2[i]'' (checked_take n p2)) (\<lambda>b.
     xbind (defined ''sum_result[i]'' (checked_take n (bfv_reveal w cs))) (\<lambda>r.
     xbind (emit (LOpInts ''Addition'' a b r)) (\<lambda>_.
     xbind (emit (LTiming ''Addition operation'')) (\<lambda>_.
     xbind (print_bfv_info cs ''ctxt_sum (after addition)'') (\<lambda>_.
     ret (bfv_reveal w cs))))))))"

definition bfv_multiplication ::
  "seal_working \<Rightarrow> nat \<Rightarrow> int64 list \<Rightarrow> int64 list \<Rightarrow> int ciphertext \<Rightarrow> int ciphertext \<Rightarrow> int64 list prog" where
  "bfv_multiplication w n p1 p2 c1 c2 =
     xbind (library (evaluator_multiply (bfv_ctx w) c1 c2)) (\<lambda>cm.
     xbind (emit (LTiming ''Multiplication operation'')) (\<lambda>_.
     xbind (print_bfv_info cm ''ctxt_mult (after multiply)'') (\<lambda>_.
     xbind (library (evaluator_relinearize (bfv_ctx w) (bfv_relin w) cm)) (\<lambda>cr.
     xbind (emit (LTiming ''Relinearization operation'')) (\<lambda>_.
     xbind (print_bfv_info cr ''ctxt_mult (after relinearize)'') (\<lambda>_.
     xbind (defined ''plaintext1[i]'' (checked_take n p1)) (\<lambda>a.
     xbind (defined ''plaintext2[i]'' (checked_take n p2)) (\<lambda>b.
     xbind (defined ''mult_result[i]'' (checked_take n (bfv_reveal w cr))) (\<lambda>r.
     xbind (emit (LOpInts ''Multiplication'' a b r)) (\<lambda>_.
     ret (bfv_reveal w cr)))))))))))"

text \<open>
  The scalar is encoded as a vector of \<open>plaintext1.size()\<close> copies of 2, multiplied into
  \<open>ctxt1\<close> as a plaintext.
\<close>

definition bfv_scalar ::
  "seal_working \<Rightarrow> nat \<Rightarrow> int64 list \<Rightarrow> int ciphertext \<Rightarrow> int64 list prog" where
  "bfv_scalar w n p1 c1 =
     xbind (library (batch_encode (bfv_ctx w) (replicate (length p1) 2))) (\<lambda>ps.
     xbind (library (evaluator_multiply_plain (bfv_ctx w) c1 ps)) (\<lambda>csc.
     xbind (defined ''plaintext1[i]'' (checked_take n p1)) (\<lambda>a.
     xbind (defined ''scalar_result[i]'' (checked_take n (bfv_reveal w csc))) (\<lambda>r.
     xbind (emit (LOpInts ''Scalar multiplication'' a (replicate n 2) r)) (\<lambda>_.
     xbind (emit (LTiming ''Scalar multiplication'')) (\<lambda>_.
     xbind (print_bfv_info csc ''ctxt_scalar (after plain_mult)'') (\<lambda>_.
     ret (bfv_reveal w csc))))))))"

text \<open>
  The expected results, computed on \<open>int64_t\<close> in the loop of lines 336--340: iteration
  \<open>i\<close> reads \<open>plaintext1[i]\<close> and \<open>plaintext2[i]\<close> (undefined out of range) and computes
  their sum, their product and \<open>plaintext1[i] * scalar\<close>, where signed overflow is
  undefined behaviour. The first iteration that fails names the undefined behaviour.
\<close>

definition bfv_expected_at ::
  "int64 list \<Rightarrow> int64 list \<Rightarrow> int64 \<Rightarrow> nat \<Rightarrow> string + int64 \<times> int64 \<times> int64" where
  "bfv_expected_at p1 p2 scalar i =
     (if i < length p1 \<and> i < length p2 then
        (case (signed_add (p1 ! i) (p2 ! i), signed_mul (p1 ! i) (p2 ! i), signed_mul (p1 ! i) scalar) of
           (Some a, Some m, Some c) \<Rightarrow> Inr (a, m, c)
         | _ \<Rightarrow> Inl ''signed overflow'')
      else Inl ''plaintext[i]'')"

definition bfv_expected ::
  "nat \<Rightarrow> int64 list \<Rightarrow> int64 list \<Rightarrow> int64 \<Rightarrow> string + int64 list \<times> int64 list \<times> int64 list" where
  "bfv_expected n p1 p2 scalar =
     (case collect (map (bfv_expected_at p1 p2 scalar) [0..<n]) of
        Inl what \<Rightarrow> Inl what
      | Inr ts \<Rightarrow> Inr (map fst ts, map (\<lambda>t. fst (snd t)) ts, map (\<lambda>t. snd (snd t)) ts))"

definition bfv_verify ::
  "nat \<Rightarrow> int64 list \<Rightarrow> int64 list \<Rightarrow> int64 list \<Rightarrow> int64 list \<Rightarrow> int64 list \<Rightarrow> unit prog" where
  "bfv_verify n p1 p2 sum_result mult_result scalar_result =
     xbind (emit (LText ''4. Verification:'')) (\<lambda>_.
     xbind (ub_check (bfv_expected n p1 p2 2)) (\<lambda>(es, em, esc).
     (let sum_ok = (resize (length es) sum_result = es);
          mult_ok = (resize (length em) mult_result = em);
          sc_ok = (resize (length esc) scalar_result = esc)
      in xbind (emit (LVerdict ''Addition verification'' sum_ok)) (\<lambda>_.
         xbind (emit (LVerdict ''Multiplication verification'' mult_ok)) (\<lambda>_.
         xbind (emit (LVerdict ''Scalar multiplication verification'' sc_ok)) (\<lambda>_.
         if sum_ok \<and> mult_ok \<and> sc_ok
         then xbind (emit (LAllPass ''BFV with Microsoft SEAL'')) (\<lambda>_.
              xbind (emit (LText ''   - Proper noise management'')) (\<lambda>_.
              xbind (emit (LText ''   - Relinearization after multiplication'')) (\<lambda>_.
              emit (LText ''   - Modulus switching for noise reduction''))))
         else ret ()))))))"

definition bfv_core :: "seal_working \<Rightarrow> size_t \<Rightarrow> int64 list \<Rightarrow> int64 list \<Rightarrow> unit prog" where
  "bfv_core w sz p1 p2 =
     xbind (bfv_encrypt w p1 p2) (\<lambda>(c1, c2).
     xbind (emit (LText ''3. Homomorphic Operations:'')) (\<lambda>_.
     xbind (bfv_addition w (unat sz) p1 p2 c1 c2) (\<lambda>sum_result.
     xbind (bfv_multiplication w (unat sz) p1 p2 c1 c2) (\<lambda>mult_result.
     xbind (bfv_scalar w (unat sz) p1 c1) (\<lambda>scalar_result.
     bfv_verify (unat sz) p1 p2 sum_result mult_result scalar_result)))))"

definition demonstrateBFV :: "seal_working \<Rightarrow> unit prog" where
  "demonstrateBFV w =
     xbind bfv_banner (\<lambda>_.
     xbind bfv_input (\<lambda>(sz, p1, p2).
     bfv_core w sz p1 p2))"

section \<open>The run on the constructed object\<close>

text \<open>
  What the SEAL objects of \<open>seal_working_init\<close> compute: the slots a batch-encoded
  vector holds (each value modulo \<open>t = 1032193\<close>), a fresh ciphertext at the first
  data level, the first \<open>m\<close> decoded slots, and whether a value survives the trip through
  \<open>Z_t\<close>, the centred lift and \<open>int64_t\<close>.
\<close>

definition bfv_slots :: "int64 list \<Rightarrow> nat \<Rightarrow> int" where
  "bfv_slots v i = (if i < length v then sint (v ! i) mod 1032193 else 0)"

definition bfv_fresh :: "int64 list \<Rightarrow> int ciphertext" where
  "bfv_fresh v = \<lparr>ct_size = 2, ct_level = 3, ct_scale = 1, ct_data = bfv_slots v\<rparr>"

definition bfv_decoded :: "nat \<Rightarrow> (nat \<Rightarrow> int) \<Rightarrow> int64 list" where
  "bfv_decoded m f = map (\<lambda>i. word_of_int (centred 1032193 (f i))) [0..<m]"

definition decodes_back :: "int \<Rightarrow> bool" where
  "decodes_back x \<longleftrightarrow> (word_of_int (centred 1032193 (x mod 1032193)) :: int64) = word_of_int x"

text \<open>
  No iteration of the expected-value loop overflows: for every \<open>i < n\<close> the exact sum,
  product and double of the inputs are \<open>int64_t\<close> values.
\<close>

definition bfv_no_overflow :: "nat \<Rightarrow> int64 list \<Rightarrow> int64 list \<Rightarrow> bool" where
  "bfv_no_overflow n p1 p2 \<longleftrightarrow>
     list_all (\<lambda>i. int64_fits (sint (p1 ! i) + sint (p2 ! i)) \<and> int64_fits (sint (p1 ! i) * sint (p2 ! i)) \<and>
                   int64_fits (sint (p1 ! i) * 2)) [0..<n]"

text \<open>The ciphertext sizes in the \<open>[INFO]\<close> lines of a log.\<close>

definition bfv_info_sizes :: "log_entry list \<Rightarrow> nat list" where
  "bfv_info_sizes tr = concat (map (\<lambda>e. case e of LInfoBFV _ k \<Rightarrow> [k] | _ \<Rightarrow> []) tr)"

section \<open>Phases of the run\<close>


lemma take_bfv_decoded [simp]: "n \<le> m \<Longrightarrow> take n (bfv_decoded m f) = bfv_decoded n f"
  by (simp add: bfv_decoded_def)

lemma length_bfv_decoded [simp]: "length (bfv_decoded m f) = m"
  by (simp add: bfv_decoded_def)

lemma bfv_reveal_init: "bfv_reveal seal_working_init c = bfv_decoded 8192 (ct_data c)"
  by (simp add: bfv_reveal_def batch_decode_def decryptor_decrypt_def bfv_decoded_def)

lemma batch_encode_bfv:
  "length v \<le> 8192 \<Longrightarrow>
     batch_encode (bfv_context create_bfv_parms) v = Inr \<lparr>pt_level = None, pt_scale = 1, pt_data = bfv_slots v\<rparr>"
  by (simp add: batch_encode_def bfv_slots_def [abs_def] bfv_context_def create_bfv_parms_def
      plain_modulus_batching_8192_20_def slot_count_def cong: if_cong)

lemma bfv_encrypt_run:
  assumes "length p1 \<le> 8192" and "length p2 \<le> 8192"
  shows "runs_to (bfv_encrypt seal_working_init p1 p2) s (bfv_fresh p1, bfv_fresh p2)
     [LEncodedPoly, LTiming ''Encryption completed'', LInfoBFV ''ctxt1 (after encryption)'' 2,
      LInfoBFV ''ctxt2 (after encryption)'' 2]"
  using assms
  by (simp add: runs_to_def bfv_encrypt_def batch_encode_bfv encryptor_encrypt_def bfv_fresh_def
      print_bfv_info_def emit_def log_line_def)

lemma bfv_addition_run:
  assumes "length p1 = n" and "length p2 = n" and "n \<le> 8192"
  shows "runs_to (bfv_addition seal_working_init n p1 p2 (bfv_fresh p1) (bfv_fresh p2)) s
     (bfv_decoded 8192 (\<lambda>i. (bfv_slots p1 i + bfv_slots p2 i) mod 1032193))
     [LOpInts ''Addition'' p1 p2 (bfv_decoded n (\<lambda>i. (bfv_slots p1 i + bfv_slots p2 i) mod 1032193)),
      LTiming ''Addition operation'',
      LInfoBFV ''ctxt_sum (after addition)'' 2]"
  using assms
  by (simp add: runs_to_def bfv_addition_def evaluator_add_def bfv_fresh_def bfv_reveal_init
      print_bfv_info_def emit_def log_line_def bfv_context_def create_bfv_parms_def
      plain_modulus_batching_8192_20_def)

lemma bfv_multiplication_run:
  assumes "length p1 = n" and "length p2 = n" and "n \<le> 8192"
  shows "runs_to (bfv_multiplication seal_working_init n p1 p2 (bfv_fresh p1) (bfv_fresh p2)) s
     (bfv_decoded 8192 (\<lambda>i. (bfv_slots p1 i * bfv_slots p2 i) mod 1032193))
     [LTiming ''Multiplication operation'', LInfoBFV ''ctxt_mult (after multiply)'' 3,
      LTiming ''Relinearization operation'', LInfoBFV ''ctxt_mult (after relinearize)'' 2,
      LOpInts ''Multiplication'' p1 p2 (bfv_decoded n (\<lambda>i. (bfv_slots p1 i * bfv_slots p2 i) mod 1032193))]"
  using assms
  by (simp add: runs_to_def bfv_multiplication_def evaluator_multiply_def evaluator_relinearize_def
      keygen_relin_keys_def bfv_fresh_def bfv_reveal_init print_bfv_info_def emit_def log_line_def
      bfv_context_def create_bfv_parms_def plain_modulus_batching_8192_20_def)

lemma bfv_scalar_plain_nonzero:
  "0 < n \<Longrightarrow> \<not> plain_is_zero (bfv_context create_bfv_parms)
     \<lparr>pt_level = None, pt_scale = 1, pt_data = bfv_slots (replicate n (2 :: int64))\<rparr>"
  by (auto simp: plain_is_zero_iff bfv_slots_def intro!: exI[of _ 0])

lemma bfv_scalar_run:
  assumes "length p1 = n" and "0 < n" and "n \<le> 8192"
  shows "runs_to (bfv_scalar seal_working_init n p1 (bfv_fresh p1)) s
     (bfv_decoded 8192 (\<lambda>i. (bfv_slots p1 i * bfv_slots (replicate n 2) i) mod 1032193))
     [LOpInts ''Scalar multiplication'' p1 (replicate n 2)
        (bfv_decoded n (\<lambda>i. (bfv_slots p1 i * bfv_slots (replicate n 2) i) mod 1032193)),
      LTiming ''Scalar multiplication'', LInfoBFV ''ctxt_scalar (after plain_mult)'' 2]"
proof -
  have nz: "\<not> plain_is_zero (bfv_context create_bfv_parms)
     \<lparr>pt_level = None, pt_scale = 1, pt_data = bfv_slots (replicate n (2 :: int64))\<rparr>"
    using assms(2) by (rule bfv_scalar_plain_nonzero)
  show ?thesis
    using assms nz
    by (simp add: runs_to_def bfv_scalar_def batch_encode_bfv evaluator_multiply_plain_def bfv_fresh_def
        bfv_reveal_init print_bfv_info_def emit_def log_line_def Let_def)
      (simp add: bfv_context_def create_bfv_parms_def plain_modulus_batching_8192_20_def)
qed

lemma bfv_expected_ok:
  assumes "length p1 = n" and "length p2 = n" and "bfv_no_overflow n p1 p2"
  shows "bfv_expected n p1 p2 2 =
     Inr (map (\<lambda>i. p1 ! i + p2 ! i) [0..<n], map (\<lambda>i. p1 ! i * p2 ! i) [0..<n], map (\<lambda>i. p1 ! i * 2) [0..<n])"
proof -
  have "collect (map (bfv_expected_at p1 p2 2) [0..<n]) =
      Inr (map (\<lambda>i. (p1 ! i + p2 ! i, p1 ! i * p2 ! i, p1 ! i * 2)) [0..<n])"
    using assms
    by (intro collect_map_Inr)
      (auto simp: bfv_expected_at_def bfv_no_overflow_def list_all_iff signed_add_fits signed_mul_fits)
  then show ?thesis by (simp add: bfv_expected_def comp_def)
qed

lemma bfv_expected_overflow:
  assumes "length p1 = n" and "length p2 = n" and "\<not> bfv_no_overflow n p1 p2"
  shows "bfv_expected n p1 p2 2 = Inl ''signed overflow''"
proof -
  obtain i where i: "i \<in> set [0..<n]" and
    o: "\<not> (int64_fits (sint (p1 ! i) + sint (p2 ! i)) \<and> int64_fits (sint (p1 ! i) * sint (p2 ! i)) \<and>
           int64_fits (sint (p1 ! i) * 2))"
    using assms(3) by (auto simp: bfv_no_overflow_def list_all_iff)
  have "collect (map (bfv_expected_at p1 p2 2) [0..<n]) = Inl ''signed overflow''"
  proof (rule collect_map_Inl[OF i])
    show "bfv_expected_at p1 p2 2 i = Inl ''signed overflow''"
      using i o assms(1,2) by (auto simp: bfv_expected_at_def signed_add_def signed_mul_def)
    show "e = ''signed overflow''" if "y \<in> set [0..<n]" and "bfv_expected_at p1 p2 2 y = Inl e" for y e
      using that assms(1,2)
      by (auto simp: bfv_expected_at_def split: option.splits if_splits)
  qed
  then show ?thesis by (simp add: bfv_expected_def)
qed

lemma bfv_verify_run:
  assumes "length p1 = n" and "length p2 = n" and "bfv_no_overflow n p1 p2"
    and "n \<le> length r1" and "n \<le> length r2" and "n \<le> length r3"
  shows "runs_to (bfv_verify n p1 p2 r1 r2 r3) s ()
     (let a = (take n r1 = map (\<lambda>i. p1 ! i + p2 ! i) [0..<n]);
          m = (take n r2 = map (\<lambda>i. p1 ! i * p2 ! i) [0..<n]);
          c = (take n r3 = map (\<lambda>i. p1 ! i * 2) [0..<n])
      in [LText ''4. Verification:'', LVerdict ''Addition verification'' a,
          LVerdict ''Multiplication verification'' m, LVerdict ''Scalar multiplication verification'' c] @
         (if a \<and> m \<and> c
          then [LAllPass ''BFV with Microsoft SEAL'', LText ''   - Proper noise management'',
                LText ''   - Relinearization after multiplication'',
                LText ''   - Modulus switching for noise reduction'']
          else []))"
  using assms
  by (simp add: runs_to_def bfv_verify_def bfv_expected_ok log_line_def Let_def)

lemma bfv_verify_overflow:
  assumes "length p1 = n" and "length p2 = n" and "\<not> bfv_no_overflow n p1 p2"
  shows "bfv_verify n p1 p2 r1 r2 r3 s =
     (Inl (Undefined ''signed overflow''), log_line (LText ''4. Verification:'') s)"
  using assms by (simp add: bfv_verify_def bfv_expected_overflow)

lemma bfv_core_trace:
  assumes "length p1 = unat sz" and "length p2 = unat sz" and "0 < unat sz" and "unat sz \<le> 8192"
    and "bfv_no_overflow (unat sz) p1 p2"
  defines "n \<equiv> unat sz"
  defines "fa \<equiv> \<lambda>i. (bfv_slots p1 i + bfv_slots p2 i) mod 1032193"
  defines "fm \<equiv> \<lambda>i. (bfv_slots p1 i * bfv_slots p2 i) mod 1032193"
  defines "fs \<equiv> \<lambda>i. (bfv_slots p1 i * bfv_slots (replicate n 2) i) mod 1032193"
  shows "runs_to (bfv_core seal_working_init sz p1 p2) s ()
     ([LEncodedPoly, LTiming ''Encryption completed'', LInfoBFV ''ctxt1 (after encryption)'' 2,
       LInfoBFV ''ctxt2 (after encryption)'' 2, LText ''3. Homomorphic Operations:'',
       LOpInts ''Addition'' p1 p2 (bfv_decoded n fa), LTiming ''Addition operation'',
       LInfoBFV ''ctxt_sum (after addition)'' 2,
       LTiming ''Multiplication operation'', LInfoBFV ''ctxt_mult (after multiply)'' 3,
       LTiming ''Relinearization operation'', LInfoBFV ''ctxt_mult (after relinearize)'' 2,
       LOpInts ''Multiplication'' p1 p2 (bfv_decoded n fm),
       LOpInts ''Scalar multiplication'' p1 (replicate n 2) (bfv_decoded n fs),
       LTiming ''Scalar multiplication'', LInfoBFV ''ctxt_scalar (after plain_mult)'' 2] @
      (let a = (bfv_decoded n fa = map (\<lambda>i. p1 ! i + p2 ! i) [0..<n]);
           m = (bfv_decoded n fm = map (\<lambda>i. p1 ! i * p2 ! i) [0..<n]);
           c = (bfv_decoded n fs = map (\<lambda>i. p1 ! i * 2) [0..<n])
       in [LText ''4. Verification:'', LVerdict ''Addition verification'' a,
           LVerdict ''Multiplication verification'' m, LVerdict ''Scalar multiplication verification'' c] @
          (if a \<and> m \<and> c
           then [LAllPass ''BFV with Microsoft SEAL'', LText ''   - Proper noise management'',
                 LText ''   - Relinearization after multiplication'',
                 LText ''   - Modulus switching for noise reduction'']
           else [])))"
proof -
  note enc = bfv_encrypt_run[of p1 p2, unfolded runs_to_def]
  note add = bfv_addition_run[of p1 "unat sz" p2, unfolded runs_to_def]
  note mul = bfv_multiplication_run[of p1 "unat sz" p2, unfolded runs_to_def]
  note sca = bfv_scalar_run[of p1 "unat sz", unfolded runs_to_def]
  note ver = bfv_verify_run[of p1 "unat sz" p2, unfolded runs_to_def]
  show ?thesis
    using assms(1-5) unfolding n_def fa_def fm_def fs_def
    by (simp add: runs_to_def bfv_core_def xbind_def enc add mul sca ver log_line_def Let_def)
qed

lemma bfv_core_overflow_trace:
  assumes "length p1 = unat sz" and "length p2 = unat sz" and "0 < unat sz" and "unat sz \<le> 8192"
    and "\<not> bfv_no_overflow (unat sz) p1 p2"
  shows "\<exists>s'. bfv_core seal_working_init sz p1 p2 s = (Inl (Undefined ''signed overflow''), s') \<and>
     stdin s' = stdin s \<and> console s' = console s \<and> last (log s') = LText ''4. Verification:''"
proof -
  note enc = bfv_encrypt_run[of p1 p2, unfolded runs_to_def]
  note add = bfv_addition_run[of p1 "unat sz" p2, unfolded runs_to_def]
  note mul = bfv_multiplication_run[of p1 "unat sz" p2, unfolded runs_to_def]
  note sca = bfv_scalar_run[of p1 "unat sz", unfolded runs_to_def]
  note ver = bfv_verify_overflow[of p1 "unat sz" p2]
  show ?thesis
    using assms
    by (simp add: bfv_core_def xbind_def enc add mul sca ver log_line_def)
qed

section \<open>Slot arithmetic\<close>


lemma sint_abs_le: "\<bar>sint (a :: int64)\<bar> \<le> 2 ^ 63"
  using sint_ge[of a] sint_lt[of a] by simp

lemma bfv_roundtrip_iff:
  "\<bar>x\<bar> \<le> 2 ^ 64 \<Longrightarrow>
     (word_of_int (centred 1032193 (x mod 1032193)) :: int64) = word_of_int x \<longleftrightarrow> \<bar>x\<bar> \<le> 516096"
  using word_of_centred_iff[of 1032193 x] by simp

lemma bfv_decoded_eq_map:
  "(bfv_decoded n f = map g [0..<n]) \<longleftrightarrow> (\<forall>i<n. word_of_int (centred 1032193 (f i)) = g i)"
  unfolding bfv_decoded_def by (rule list_eq_map_upt_iff)

lemma bfv_slots_nth [simp]: "i < length p \<Longrightarrow> bfv_slots p i = sint (p ! i) mod 1032193"
  by (simp add: bfv_slots_def)

lemma decodes_back_iff: "\<bar>x\<bar> \<le> 2 ^ 64 \<Longrightarrow> decodes_back x \<longleftrightarrow> \<bar>x\<bar> \<le> 516096"
  unfolding decodes_back_def by (rule bfv_roundtrip_iff)

lemma bfv_sum_slot:
  "(word_of_int (centred 1032193 ((sint a mod 1032193 + sint b mod 1032193) mod 1032193)) = (a + b :: int64))
     \<longleftrightarrow> \<bar>sint a + sint b\<bar> \<le> 516096"
proof -
  have "\<bar>sint a + sint b\<bar> \<le> 2 ^ 64" using sint_abs_le[of a] sint_abs_le[of b] by simp
  then show ?thesis using decodes_back_iff[of "sint a + sint b"]
    by (simp add: decodes_back_def mod_add_eq)
qed

lemma bfv_mult_slot:
  "(word_of_int (centred 1032193 ((sint a mod 1032193 * (sint b mod 1032193)) mod 1032193)) = (a * b :: int64))
     \<longleftrightarrow> decodes_back (sint a * sint b)"
  by (simp add: decodes_back_def mod_mult_eq)

lemma bfv_scalar_slot:
  "(word_of_int (centred 1032193 ((sint a mod 1032193 * 2) mod 1032193)) = (a * 2 :: int64))
     \<longleftrightarrow> \<bar>2 * sint a\<bar> \<le> 516096"
proof -
  have "\<bar>2 * sint a\<bar> \<le> 2 ^ 64" using sint_abs_le[of a] by simp
  moreover have "(sint a mod 1032193 * 2) mod 1032193 = (2 * sint a) mod 1032193"
    by (metis mod_mult_left_eq mult.commute)
  moreover have "(word_of_int (2 * sint a) :: int64) = a * 2" by simp
  ultimately show ?thesis using decodes_back_iff[of "2 * sint a"] by (simp add: decodes_back_def mult.commute)
qed

lemma decodes_back_fits: "int64_fits x \<Longrightarrow> decodes_back x \<longleftrightarrow> \<bar>x\<bar> \<le> 516096"
  by (rule decodes_back_iff) (simp add: int64_fits_def abs_le_iff)

lemmas bfv_verdict_simps = bfv_decoded_eq_map bfv_sum_slot bfv_mult_slot bfv_scalar_slot

text \<open>
  The input part of \<open>demonstrateBFV\<close> on three lines that are accepted at once: a size
  and two lines with at least that many integers.
\<close>

lemma demonstrateBFV_input:
  assumes "size_of_line l0 = Some n" and "0 < unat n"
    and "\<not> short_line extract_int64 (unat n) l1" and "\<not> short_line extract_int64 (unat n) l2"
  shows "demonstrateBFV w \<lparr>stdin = l0 # l1 # l2 # rest, console = c, log = l\<rparr> =
     bfv_core w n (read_values extract_int64 (unat n) [] l1) (read_values extract_int64 (unat n) [] l2)
       \<lparr>stdin = rest, console = c @ [PromptSize, PromptInts n ''plaintext1'', PromptInts n ''plaintext2''],
         log = l @ [rule_line,
          LText ''BFV (Brakerski-Fan-Vercauteren) with Microsoft SEAL'', rule_line,
          LText ''1. Key Generation:'', LTiming ''Key generation completed in constructor'',
          LText ''2. Encryption:'', LSizeChosen n, LUserInput ''plaintext1'' l1,
          LUserInput ''plaintext2'' l2,
          LPlaintextInts ''Plaintext 1: '' (render_ints (read_values extract_int64 (unat n) [] l1)),
          LPlaintextInts ''Plaintext 2: '' (render_ints (read_values extract_int64 (unat n) [] l2))]\<rparr>"
  using assms
  by (simp add: demonstrateBFV_def bfv_banner_def bfv_input_def getUserSize_spec getUserVectorInt_def
      user_vector_loop_spec xbind_assoc log_line_def)

section \<open>Properties of demonstrateBFV\<close>


text \<open>
  C2. For a size \<open>n\<close> with \<open>0 < n \<le> 8192\<close> and two vectors of \<open>n\<close> values whose sums,
  products and doubles do not overflow \<open>int64_t\<close> in the expected-value loop, the part of
  \<open>demonstrateBFV\<close> after the input returns normally and logs the three verdicts in
  order: each check passes exactly when every exact result lies within
  \<open>t div 2 = 516096\<close>, and ALL TESTS PASSING is logged exactly when all three pass.
\<close>

theorem bfv_core_verdicts:
  assumes "length p1 = unat sz" and "length p2 = unat sz" and "0 < unat sz" and "unat sz \<le> 8192"
    and "bfv_no_overflow (unat sz) p1 p2"
  shows "\<exists>tr. runs_to (bfv_core seal_working_init sz p1 p2) s () tr \<and>
     verdicts tr =
       [(''Addition verification'', \<forall>i<unat sz. \<bar>sint (p1 ! i) + sint (p2 ! i)\<bar> \<le> 516096),
        (''Multiplication verification'', \<forall>i<unat sz. \<bar>sint (p1 ! i) * sint (p2 ! i)\<bar> \<le> 516096),
        (''Scalar multiplication verification'', \<forall>i<unat sz. \<bar>2 * sint (p1 ! i)\<bar> \<le> 516096)] \<and>
     (LAllPass ''BFV with Microsoft SEAL'' \<in> set tr \<longleftrightarrow>
        (\<forall>i<unat sz. \<bar>sint (p1 ! i) + sint (p2 ! i)\<bar> \<le> 516096 \<and>
                     \<bar>sint (p1 ! i) * sint (p2 ! i)\<bar> \<le> 516096 \<and> \<bar>2 * sint (p1 ! i)\<bar> \<le> 516096))"
proof -
  have m: "decodes_back (sint (p1 ! i) * sint (p2 ! i)) \<longleftrightarrow> \<bar>sint (p1 ! i) * sint (p2 ! i)\<bar> \<le> 516096"
    if "i < unat sz" for i
    using assms(5) that by (intro decodes_back_fits) (simp add: bfv_no_overflow_def list_all_iff)
  show ?thesis
    using bfv_core_trace[OF assms, of s]
    by (rule runs_to_exI) (use assms(1,2) m in \<open>auto simp: verdicts_def Let_def bfv_verdict_simps\<close>)
qed

text \<open>
  C15. On the same inputs the ciphertext sizes logged are 2 and 2 after
  encryption, 2 after addition, 3 after multiplication, 2 after relinearization and 2 after
  the plaintext product: relinearization brings the product back to two components.
\<close>

theorem bfv_core_sizes:
  assumes "length p1 = unat sz" and "length p2 = unat sz" and "0 < unat sz" and "unat sz \<le> 8192"
    and "bfv_no_overflow (unat sz) p1 p2"
  shows "\<exists>tr. runs_to (bfv_core seal_working_init sz p1 p2) s () tr \<and> bfv_info_sizes tr = [2, 2, 2, 3, 2, 2]"
  using bfv_core_trace[OF assms, of s]
  by (rule runs_to_exI) (auto simp: bfv_info_sizes_def Let_def)

text \<open>
  C8. When some sum, product or double of the inputs does not fit in
  \<open>int64_t\<close>, the expected-value loop of lines 336--340 overflows: the run reaches undefined
  behaviour right after logging the homomorphic results and the line
  \<open>4. Verification:\<close>, having read and printed nothing, and no verdict is logged.
\<close>

theorem bfv_core_overflow:
  assumes "length p1 = unat sz" and "length p2 = unat sz" and "0 < unat sz" and "unat sz \<le> 8192"
    and "\<not> bfv_no_overflow (unat sz) p1 p2"
  shows "\<exists>s'. bfv_core seal_working_init sz p1 p2 s = (Inl (Undefined ''signed overflow''), s') \<and>
     stdin s' = stdin s \<and> console s' = console s \<and> last (log s') = LText ''4. Verification:''"
  using bfv_core_overflow_trace[OF assms] .

text \<open>
  C22. A vector longer than the 8192 slots of BFV makes \<open>BatchEncoder::encode\<close> throw \<open>invalid_argument\<close> before anything is logged: the size is not checked against the slot count.
\<close>

theorem bfv_core_too_long:
  assumes "8192 < length p1"
  shows "bfv_core seal_working_init sz p1 p2 s =
           (Inl (Exception (InvalidArgument ''values_matrix size is too large'')), s)"
  using assms by (simp add: bfv_core_def bfv_encrypt_def batch_encode_def xbind_def)

text \<open>
  With the size 0 that \<open>getUserSize\<close> returns at the end of input the vectors are
  empty, and the plaintext product with the all-zero scalar plaintext throws.
\<close>

lemma bfv_core_empty:
  "\<exists>tr. bfv_core seal_working_init 0 [] [] s =
          (Inl (Exception (LogicError ''result ciphertext is transparent'')), s\<lparr>log := log s @ tr\<rparr>)"
proof -
  have z: "plain_is_zero (bfv_context create_bfv_parms)
     \<lparr>pt_level = None, pt_scale = 1, pt_data = bfv_slots []\<rparr>"
    by (simp add: plain_is_zero_iff bfv_slots_def)
  show ?thesis
    using bfv_encrypt_run[of "[]" "[]", unfolded runs_to_def]
      bfv_addition_run[of "[]" 0 "[]", unfolded runs_to_def]
      bfv_multiplication_run[of "[]" 0 "[]", unfolded runs_to_def] z
    by (auto simp: bfv_core_def xbind_def bfv_scalar_def batch_encode_bfv evaluator_multiply_plain_def
        bfv_fresh_def Let_def log_line_def)
qed

text \<open>
  C21. When the input ends while the first vector is read, \<open>getUserVectorInt\<close> returns the empty vector and the log loop reads \<open>plaintext1[i]\<close> out of range: undefined behaviour.
\<close>

theorem bfv_core_no_input:
  assumes "0 < unat sz" and "length p2 \<le> 8192"
  shows "\<exists>s'. bfv_core seal_working_init sz [] p2 s = (Inl (Undefined ''plaintext1[i]''), s')"
  using assms bfv_encrypt_run[of "[]" p2, unfolded runs_to_def]
  by (simp add: bfv_core_def xbind_def bfv_addition_def evaluator_add_def bfv_fresh_def)

section \<open>Streams and undefined behaviour\<close>

lemma grows_bfv_core [grows_intros]: "grows (bfv_core w sz p1 p2)"
  unfolding bfv_core_def bfv_encrypt_def bfv_addition_def bfv_multiplication_def bfv_scalar_def
    bfv_verify_def Let_def
  by (intro grows_intros)

lemma bfv_input_cases:
  "\<exists>n p1 p2 s'. bfv_input s = (Inr (n, p1, p2), s') \<and> io_le s s' \<and>
     (length p1 = unat n \<and> length p2 = unat n \<or> stdin s' = [])"
  unfolding bfv_input_def by (rule read_input_cases getUserVectorInt_io_le getUserVectorInt_eof)+

text \<open>
  The outcome of the work after the input, on two vectors of the size read: the empty
  vectors make the scalar product throw, a size up to the slot count runs through, a
  larger one makes the encoder throw.
\<close>

lemma bfv_core_outcome:
  assumes "length p1 = unat sz" and "length p2 = unat sz"
  shows "fst (bfv_core seal_working_init sz p1 p2 s) =
     (if sz = 0 then Inl (Exception (LogicError ''result ciphertext is transparent''))
      else if unat sz \<le> 8192 then
        (if bfv_no_overflow (unat sz) p1 p2 then Inr () else Inl (Undefined ''signed overflow''))
      else Inl (Exception (InvalidArgument ''values_matrix size is too large'')))"
proof (cases "sz = 0")
  case True
  then have "p1 = []" "p2 = []" using assms by simp_all
  with True bfv_core_empty[of s] show ?thesis by auto
next
  case False
  then have pos: "0 < unat sz" by (simp add: unat_gt_0)
  show ?thesis
  proof (cases "unat sz \<le> 8192")
    case True
    show ?thesis
    proof (cases "bfv_no_overflow (unat sz) p1 p2")
      case ok: True
      with assms pos True bfv_core_trace[of p1 sz p2 s] False show ?thesis
        by (simp add: runs_to_def)
    next
      case ov: False
      with assms pos True False show ?thesis
        using bfv_core_overflow_trace[of p1 sz p2 s] by auto
    qed
  next
    case big: False
    with assms False show ?thesis
      by (simp add: bfv_core_def bfv_encrypt_def batch_encode_def xbind_def)
  qed
qed

lemma bfv_core_short_first:
  assumes "length p1 < unat sz" and "length p1 \<le> 8192" and "length p2 \<le> 8192"
  shows "\<exists>s'. bfv_core seal_working_init sz p1 p2 s = (Inl (Undefined ''plaintext1[i]''), s')"
  using assms bfv_encrypt_run[of p1 p2, unfolded runs_to_def]
  by (simp add: bfv_core_def xbind_def bfv_addition_def evaluator_add_def bfv_fresh_def)

lemma demonstrateBFV_undefined_eof:
  assumes ub: "fst (demonstrateBFV seal_working_init s) = Inl (Undefined u)"
  shows "stdin (snd (demonstrateBFV seal_working_init s)) = [] \<or> u = ''signed overflow''"
proof -
  have b: "fst (bfv_banner s) = Inr ()" by (simp add: bfv_banner_def)
  have c: "w = ''signed overflow''"
    if "length p1 = unat n" "length p2 = unat n" "fst (bfv_core seal_working_init n p1 p2 s') = Inl (Undefined w)"
    for n p1 p2 s' w
    using that by (simp add: bfv_core_outcome split: if_splits)
  show ?thesis
    using demo_undefined_eof[OF b bfv_input_cases c grows_bfv_core ub[unfolded demonstrateBFV_def]]
    by (simp add: demonstrateBFV_def)
qed

lemma demonstrateBFV_size_only:
  assumes "stdin s = [l]" and "size_of_line l = Some n"
  shows "\<exists>s'. demonstrateBFV seal_working_init s = (Inl (Undefined ''plaintext1[i]''), s')"
proof -
  have "0 < unat n" using size_of_line_pos[OF assms(2)] by (simp add: unat_gt_0)
  then show ?thesis
    using assms
    by (simp add: demonstrateBFV_def bfv_banner_def xbind_assoc bfv_input_def getUserSize_spec
        getUserVectorInt_def user_vector_loop.simps bfv_core_short_first)
qed

text \<open>
  C11. On two vectors of the size read whose sums, products and doubles fit in
  \<open>int64_t\<close>, the work of \<open>demonstrateBFV\<close> after the input never reaches undefined
  behaviour: every vector read of the log loops and of the verification loop is in
  range, no signed arithmetic overflows, and the encryptor is engaged.
\<close>

theorem bfv_core_defined:
  assumes "length p1 = unat sz" and "length p2 = unat sz" and "bfv_no_overflow (unat sz) p1 p2"
  shows "fst (bfv_core seal_working_init sz p1 p2 s) \<noteq> Inl (Undefined u)"
  using bfv_core_outcome[OF assms(1,2), of s] assms(3) by simp

section \<open>Decoded values\<close>

lemma slots_reduced_bfv_fresh: "slots_reduced (bfv_context create_bfv_parms) (bfv_fresh v)"
  by (simp add: slots_reduced_iff bfv_fresh_def bfv_slots_def)

section \<open>Refinement of int64 arithmetic\<close>

text \<open>
  The abstraction of a BFV ciphertext is the \<open>int64_t\<close> vector \<open>bfv_reveal\<close> decrypts and
  decodes it to. Homomorphic addition, and multiplication followed by relinearization,
  implement slot-wise \<open>int64_t\<close> addition and multiplication of the abstractions
  whenever no slot of the exact result leaves the centred range of \<open>t\<close>.
\<close>

lemma bfv_slot_op:
  assumes "(op, opw) = ((+), (+)) \<or> (op, opw) = ((*), (*) :: int64 \<Rightarrow> int64 \<Rightarrow> int64)"
    and b: "\<bar>op (centred 1032193 x) (centred 1032193 y)\<bar> \<le> 516096"
  shows "(word_of_int (centred 1032193 (op x y mod 1032193)) :: int64) =
           opw (word_of_int (centred 1032193 x)) (word_of_int (centred 1032193 y))"
proof -
  let ?cx = "centred 1032193 x" and ?cy = "centred 1032193 y"
  have cx: "x mod 1032193 = ?cx mod 1032193" and cy: "y mod 1032193 = ?cy mod 1032193"
    using centred_mod_eq[of 1032193 x] centred_mod_eq[of 1032193 y] by simp_all
  have m: "op x y mod 1032193 = op ?cx ?cy mod 1032193"
    using assms(1) mod_add_cong[OF cx cy] mod_mult_cong[OF cx cy] by auto
  have "centred 1032193 (op ?cx ?cy mod 1032193) = op ?cx ?cy"
    using centred_id[of 1032193 "op ?cx ?cy"] b by simp
  with m assms(1) show ?thesis by auto
qed

lemma bfv_reveal_nth:
  "i < 8192 \<Longrightarrow> bfv_reveal seal_working_init c ! i = word_of_int (centred 1032193 (ct_data c i))"
  by (simp add: bfv_reveal_def batch_decode_def decryptor_decrypt_def)

lemma length_bfv_reveal [simp]: "length (bfv_reveal seal_working_init c) = 8192"
  by (simp add: bfv_reveal_def batch_decode_def)

lemma sint_bfv_reveal_nth:
  "slots_reduced (bfv_context create_bfv_parms) c \<Longrightarrow> i < 8192 \<Longrightarrow>
   sint (bfv_reveal seal_working_init c ! i) = centred 1032193 (ct_data c i)"
  by (simp add: bfv_reveal_nth slots_reduced_iff sint_centred)

lemma bfv_reveal_op:
  assumes "(op, opw) = ((+), (+)) \<or> (op, opw) = ((*), (*) :: int64 \<Rightarrow> int64 \<Rightarrow> int64)"
    and r: "slots_reduced (bfv_context create_bfv_parms) c1" "slots_reduced (bfv_context create_bfv_parms) c2"
    and d: "ct_data c = (\<lambda>i. op (ct_data c1 i) (ct_data c2 i) mod 1032193)"
    and b: "list_all2 (\<lambda>a b. \<bar>op (sint a) (sint b)\<bar> \<le> 516096)
              (bfv_reveal seal_working_init c1) (bfv_reveal seal_working_init c2)"
  shows "bfv_reveal seal_working_init c = map2 opw (bfv_reveal seal_working_init c1) (bfv_reveal seal_working_init c2)"
proof (rule nth_equalityI)
  fix i assume "i < length (bfv_reveal seal_working_init c)"
  then have i: "i < 8192" by simp
  have "\<bar>op (centred 1032193 (ct_data c1 i)) (centred 1032193 (ct_data c2 i))\<bar> \<le> 516096"
    using list_all2_nthD[OF b, of i] i sint_bfv_reveal_nth[OF r(1) i] sint_bfv_reveal_nth[OF r(2) i] by simp
  then show "bfv_reveal seal_working_init c ! i =
      map2 opw (bfv_reveal seal_working_init c1) (bfv_reveal seal_working_init c2) ! i"
    using i bfv_slot_op[OF assms(1)] by (simp add: bfv_reveal_nth d)
qed simp

lemma list_all2_bfv_reveal_iff:
  "list_all2 P (bfv_reveal seal_working_init c1) (bfv_reveal seal_working_init c2) \<longleftrightarrow>
   (\<forall>i < 8192. P (word_of_int (centred 1032193 (ct_data c1 i))) (word_of_int (centred 1032193 (ct_data c2 i))))"
  by (simp add: list_all2_conv_all_nth bfv_reveal_nth)

text \<open>
  C28. Homomorphic addition refines \<open>int64_t\<close> addition: for ciphertexts with
  reduced slots whose decoded sums all lie within \<open>516096\<close>, decoding the sum gives the
  slot-wise sum of the decoded operands.
\<close>

theorem bfv_add_refines:
  assumes "slots_reduced (bfv_context create_bfv_parms) c1" and "slots_reduced (bfv_context create_bfv_parms) c2"
    and "evaluator_add (bfv_context create_bfv_parms) c1 c2 = Inr c"
    and "list_all2 (\<lambda>a b. \<bar>sint a + sint b\<bar> \<le> 516096)
           (bfv_reveal seal_working_init c1) (bfv_reveal seal_working_init c2)"
  shows "bfv_reveal seal_working_init c =
           map2 (+) (bfv_reveal seal_working_init c1) (bfv_reveal seal_working_init c2)"
proof (rule bfv_reveal_op[OF _ assms(1,2) _ assms(4)])
  show "ct_data c = (\<lambda>i. (ct_data c1 i + ct_data c2 i) mod 1032193)"
    using assms(3) by (auto simp: evaluator_add_def bfv_context_def split: if_splits)
qed simp


text \<open>
  C29. Multiplication followed by relinearization, as \<open>demonstrateBFV\<close>
  does it, refines \<open>int64_t\<close> multiplication on the same condition for the products.
\<close>

theorem bfv_mult_refines:
  assumes "slots_reduced (bfv_context create_bfv_parms) c1" and "slots_reduced (bfv_context create_bfv_parms) c2"
    and "evaluator_multiply (bfv_context create_bfv_parms) c1 c2 = Inr cm"
    and "evaluator_relinearize (bfv_context create_bfv_parms) rk cm = Inr c"
    and "list_all2 (\<lambda>a b. \<bar>sint a * sint b\<bar> \<le> 516096)
           (bfv_reveal seal_working_init c1) (bfv_reveal seal_working_init c2)"
  shows "bfv_reveal seal_working_init c =
           map2 (*) (bfv_reveal seal_working_init c1) (bfv_reveal seal_working_init c2)"
proof (rule bfv_reveal_op[OF _ assms(1,2) _ assms(5)])
  have "ct_data cm = (\<lambda>i. (ct_data c1 i * ct_data c2 i) mod 1032193)"
    using assms(3) by (auto simp: evaluator_multiply_def bfv_context_def Let_def split: if_splits)
  then show "ct_data c = (\<lambda>i. (ct_data c1 i * ct_data c2 i) mod 1032193)"
    using assms(4) by (auto simp: evaluator_relinearize_def split: if_splits)
qed simp

section \<open>The scenario of the specification\<close>


lemma scen_size: "size_of_line ''4'' = Some 4"
  by (simp add: size_of_line_def classify_size_line_def extraction_eval)

lemma scen_r1: "read_values extract_int64 4 [] ''1 2 3 4'' = [1, 2, 3, 4]"
  by (simp add: read_values.simps extraction_eval)

lemma scen_input:
  "\<exists>c'. bfv_input \<lparr>stdin = [''4'', ''1 2 3 4'', ''5 6 7 8''], console = c, log = l\<rparr> =
     (Inr (4, [1, 2, 3, 4], [5, 6, 7, 8]),
      \<lparr>stdin = [], console = c', log = l @ [LText ''2. Encryption:'', LSizeChosen 4,
         LUserInput ''plaintext1'' ''1 2 3 4'', LUserInput ''plaintext2'' ''5 6 7 8'',
         LPlaintextInts ''Plaintext 1: '' (render_ints [1, 2, 3, 4]),
         LPlaintextInts ''Plaintext 2: '' (render_ints [5, 6, 7, 8])]\<rparr>)"
proof -
  have r2: "read_values extract_int64 4 [] ''5 6 7 8'' = [5, 6, 7, 8]"
    by (simp add: read_values.simps extraction_eval)
  show ?thesis
    using scen_size scen_r1 r2
    by (simp add: bfv_input_def getUserSize_spec getUserVectorInt_def user_vector_loop_spec short_line_def
        log_line_def)
qed

text \<open>
  C4. On the input \<open>4\<close>, \<open>1 2 3 4\<close>, \<open>5 6 7 8\<close>, \<open>demonstrateBFV\<close> logs the sums 6 8 10 12, the products 5 12 21 32 and the doubles 2 4 6 8, three PASS verdicts and ALL TESTS PASSING.
\<close>

theorem demonstrateBFV_scenario:
  "\<exists>s'. demonstrateBFV seal_working_init \<lparr>stdin = [''4'', ''1 2 3 4'', ''5 6 7 8''], console = [], log = []\<rparr>
          = (Inr (), s') \<and>
        LOpInts ''Addition'' [1, 2, 3, 4] [5, 6, 7, 8] [6, 8, 10, 12] \<in> set (log s') \<and>
        LOpInts ''Multiplication'' [1, 2, 3, 4] [5, 6, 7, 8] [5, 12, 21, 32] \<in> set (log s') \<and>
        LOpInts ''Scalar multiplication'' [1, 2, 3, 4] [2, 2, 2, 2] [2, 4, 6, 8] \<in> set (log s') \<and>
        verdicts (log s') = [(''Addition verification'', True), (''Multiplication verification'', True),
                             (''Scalar multiplication verification'', True)] \<and>
        LAllPass ''BFV with Microsoft SEAL'' \<in> set (log s')"
proof -
  let ?s0 = "\<lparr>stdin = [''4'', ''1 2 3 4'', ''5 6 7 8''], console = [], log = []\<rparr>"
  obtain c1 where i: "bfv_input (snd (bfv_banner ?s0)) = (Inr (4, [1, 2, 3, 4], [5, 6, 7, 8]),
      \<lparr>stdin = [], console = c1, log = [rule_line, LText ''BFV (Brakerski-Fan-Vercauteren) with Microsoft SEAL'',
         rule_line, LText ''1. Key Generation:'', LTiming ''Key generation completed in constructor'',
         LText ''2. Encryption:'', LSizeChosen 4,
         LUserInput ''plaintext1'' ''1 2 3 4'', LUserInput ''plaintext2'' ''5 6 7 8'',
         LPlaintextInts ''Plaintext 1: '' (render_ints [1, 2, 3, 4]),
         LPlaintextInts ''Plaintext 2: '' (render_ints [5, 6, 7, 8])]\<rparr>)"
    using scen_input[of "[]" "[rule_line, LText ''BFV (Brakerski-Fan-Vercauteren) with Microsoft SEAL'',
         rule_line, LText ''1. Key Generation:'', LTiming ''Key generation completed in constructor'']"]
    by (auto simp add: bfv_banner_def log_line_def)
  define s1 where "s1 = \<lparr>stdin = [], console = c1, log = [rule_line, LText ''BFV (Brakerski-Fan-Vercauteren) with Microsoft SEAL'',
         rule_line, LText ''1. Key Generation:'', LTiming ''Key generation completed in constructor'',
         LText ''2. Encryption:'', LSizeChosen 4,
         LUserInput ''plaintext1'' ''1 2 3 4'', LUserInput ''plaintext2'' ''5 6 7 8'',
         LPlaintextInts ''Plaintext 1: '' (render_ints [1, 2, 3, 4]),
         LPlaintextInts ''Plaintext 2: '' (render_ints [5, 6, 7, 8])]\<rparr>"
  have rep: "replicate 4 x = [x, x, x, x]" for x :: int64 by (simp add: numeral_eq_Suc)
  have "demonstrateBFV seal_working_init ?s0 = bfv_core seal_working_init 4 [1, 2, 3, 4] [5, 6, 7, 8] s1"
    using i by (simp add: demonstrateBFV_def xbind_def bfv_banner_def log_line_def s1_def)
  moreover have "bfv_no_overflow 4 [1, 2, 3, 4] [5, 6, 7, 8]"
    by (simp add: bfv_no_overflow_def int64_fits_def upt_rec)
  moreover note bfv_core_trace[of "[1, 2, 3, 4]" 4 "[5, 6, 7, 8]" s1, unfolded runs_to_def]
  ultimately show ?thesis
    by (simp add: verdicts_def bfv_decoded_def bfv_slots_def upt_rec centred_def Let_def rep s1_def rule_line_def)
qed

section \<open>Witnesses\<close>


theorem bfv_core_verdicts_witness:
  "length [1, 2, 3, 4 :: int64] = unat (4 :: size_t) \<and> length [5, 6, 7, 8 :: int64] = unat (4 :: size_t) \<and>
   0 < unat (4 :: size_t) \<and> unat (4 :: size_t) \<le> 8192 \<and>
   bfv_no_overflow (unat (4 :: size_t)) [1, 2, 3, 4] [5, 6, 7, 8] \<and>
   (\<exists>tr. runs_to (bfv_core seal_working_init 4 [1, 2, 3, 4] [5, 6, 7, 8]) \<lparr>stdin = [], console = [], log = []\<rparr> () tr \<and>
     verdicts tr = [(''Addition verification'', True), (''Multiplication verification'', True),
                    (''Scalar multiplication verification'', True)] \<and>
     LAllPass ''BFV with Microsoft SEAL'' \<in> set tr)"
  using bfv_core_verdicts[of "[1, 2, 3, 4]" 4 "[5, 6, 7, 8]" "\<lparr>stdin = [], console = [], log = []\<rparr>"]
  by (simp add: all_less_list_all upt_rec centred_def bfv_no_overflow_def int64_fits_def)

theorem bfv_core_sizes_witness:
  "length [1, 2, 3, 4 :: int64] = unat (4 :: size_t) \<and> length [5, 6, 7, 8 :: int64] = unat (4 :: size_t) \<and>
   0 < unat (4 :: size_t) \<and> unat (4 :: size_t) \<le> 8192 \<and>
   bfv_no_overflow (unat (4 :: size_t)) [1, 2, 3, 4] [5, 6, 7, 8] \<and>
   (\<exists>tr. runs_to (bfv_core seal_working_init 4 [1, 2, 3, 4] [5, 6, 7, 8]) \<lparr>stdin = [], console = [], log = []\<rparr> () tr \<and>
     bfv_info_sizes tr = [2, 2, 2, 3, 2, 2])"
  using bfv_core_sizes[of "[1, 2, 3, 4]" 4 "[5, 6, 7, 8]" "\<lparr>stdin = [], console = [], log = []\<rparr>"]
  by (simp add: bfv_no_overflow_def int64_fits_def upt_rec)

theorem bfv_core_too_long_witness:
  "8192 < length (replicate 8193 (0 :: int64)) \<and>
   bfv_core seal_working_init 8193 (replicate 8193 0) (replicate 8193 0) \<lparr>stdin = [], console = [], log = []\<rparr> =
     (Inl (Exception (InvalidArgument ''values_matrix size is too large'')), \<lparr>stdin = [], console = [], log = []\<rparr>)"
  using bfv_core_too_long[of "replicate 8193 0" 8193 "replicate 8193 0" "\<lparr>stdin = [], console = [], log = []\<rparr>"]
  by simp

theorem bfv_core_no_input_witness:
  "0 < unat (4 :: size_t) \<and> length ([] :: int64 list) \<le> 8192 \<and>
   (\<exists>s'. bfv_core seal_working_init 4 [] [] \<lparr>stdin = [], console = [], log = []\<rparr> = (Inl (Undefined ''plaintext1[i]''), s'))"
  using bfv_core_no_input[of 4 "[]" "\<lparr>stdin = [], console = [], log = []\<rparr>"] by simp

theorem bfv_core_defined_witness:
  "length [1, 2 :: int64] = unat (2 :: size_t) \<and> length [3, 4 :: int64] = unat (2 :: size_t) \<and>
   bfv_no_overflow (unat (2 :: size_t)) [1, 2] [3, 4] \<and>
   fst (bfv_core seal_working_init 2 [1, 2] [3, 4] \<lparr>stdin = [], console = [], log = []\<rparr>) \<noteq>
     Inl (Undefined ''plaintext1[i]'')"
proof -
  have o: "bfv_no_overflow (unat (2 :: size_t)) [1, 2] [3, 4]"
    by (simp add: bfv_no_overflow_def int64_fits_def upt_rec)
  show ?thesis
    using bfv_core_defined[OF _ _ o, of "\<lparr>stdin = [], console = [], log = []\<rparr>" "''plaintext1[i]''"] o
    by simp
qed

theorem bfv_core_overflow_witness:
  "length [4611686018427387904 :: int64] = unat (1 :: size_t) \<and> 0 < unat (1 :: size_t) \<and>
   unat (1 :: size_t) \<le> 8192 \<and>
   \<not> bfv_no_overflow (unat (1 :: size_t)) [4611686018427387904] [4611686018427387904] \<and>
   (\<exists>s'. bfv_core seal_working_init 1 [4611686018427387904] [4611686018427387904]
      \<lparr>stdin = [], console = [], log = []\<rparr> = (Inl (Undefined ''signed overflow''), s') \<and>
      stdin s' = [] \<and> console s' = [] \<and> last (log s') = LText ''4. Verification:'')"
proof -
  have o: "\<not> bfv_no_overflow (unat (1 :: size_t)) [4611686018427387904] [4611686018427387904]"
    by (simp add: bfv_no_overflow_def int64_fits_def)
  show ?thesis
    using bfv_core_overflow[of "[4611686018427387904]" 1 "[4611686018427387904]" "\<lparr>stdin = [], console = [], log = []\<rparr>"] o
    by simp
qed


theorem bfv_add_refines_witness:
  "slots_reduced (bfv_context create_bfv_parms) (bfv_fresh [3]) \<and>
   slots_reduced (bfv_context create_bfv_parms) (bfv_fresh [- 4]) \<and>
   list_all2 (\<lambda>a b. \<bar>sint a + sint b\<bar> \<le> 516096)
     (bfv_reveal seal_working_init (bfv_fresh [3])) (bfv_reveal seal_working_init (bfv_fresh [- 4])) \<and>
   (\<exists>c. evaluator_add (bfv_context create_bfv_parms) (bfv_fresh [3]) (bfv_fresh [- 4]) = Inr c \<and>
     bfv_reveal seal_working_init c =
       map2 (+) (bfv_reveal seal_working_init (bfv_fresh [3])) (bfv_reveal seal_working_init (bfv_fresh [- 4])))"
proof -
  obtain c where c: "evaluator_add (bfv_context create_bfv_parms) (bfv_fresh [3]) (bfv_fresh [- 4]) = Inr c"
    by (simp add: evaluator_add_def bfv_fresh_def)
  have b: "list_all2 (\<lambda>a b. \<bar>sint a + sint b\<bar> \<le> 516096)
     (bfv_reveal seal_working_init (bfv_fresh [3])) (bfv_reveal seal_working_init (bfv_fresh [- 4]))"
    by (simp add: list_all2_bfv_reveal_iff bfv_fresh_def bfv_slots_def centred_def)
  show ?thesis
    using bfv_add_refines[OF slots_reduced_bfv_fresh slots_reduced_bfv_fresh c b] c b slots_reduced_bfv_fresh
    by blast
qed

theorem bfv_mult_refines_witness:
  "slots_reduced (bfv_context create_bfv_parms) (bfv_fresh [3]) \<and>
   slots_reduced (bfv_context create_bfv_parms) (bfv_fresh [- 4]) \<and>
   list_all2 (\<lambda>a b. \<bar>sint a * sint b\<bar> \<le> 516096)
     (bfv_reveal seal_working_init (bfv_fresh [3])) (bfv_reveal seal_working_init (bfv_fresh [- 4])) \<and>
   (\<exists>cm c. evaluator_multiply (bfv_context create_bfv_parms) (bfv_fresh [3]) (bfv_fresh [- 4]) = Inr cm \<and>
     evaluator_relinearize (bfv_context create_bfv_parms) (keygen_relin_keys create_bfv_parms) cm = Inr c \<and>
     bfv_reveal seal_working_init c =
       map2 (*) (bfv_reveal seal_working_init (bfv_fresh [3])) (bfv_reveal seal_working_init (bfv_fresh [- 4])))"
proof -
  obtain cm where cm: "evaluator_multiply (bfv_context create_bfv_parms) (bfv_fresh [3]) (bfv_fresh [- 4]) = Inr cm"
    by (simp add: evaluator_multiply_def bfv_fresh_def Let_def)
  then have "ct_size cm = 3"
    by (auto simp: evaluator_multiply_def bfv_fresh_def Let_def split: if_splits)
  then obtain c where c: "evaluator_relinearize (bfv_context create_bfv_parms) (keygen_relin_keys create_bfv_parms) cm = Inr c"
    by (simp add: evaluator_relinearize_def keygen_relin_keys_def)
  have b: "list_all2 (\<lambda>a b. \<bar>sint a * sint b\<bar> \<le> 516096)
     (bfv_reveal seal_working_init (bfv_fresh [3])) (bfv_reveal seal_working_init (bfv_fresh [- 4]))"
    by (simp add: list_all2_bfv_reveal_iff bfv_fresh_def bfv_slots_def centred_def)
  show ?thesis
    using bfv_mult_refines[OF slots_reduced_bfv_fresh slots_reduced_bfv_fresh cm c b] cm c b slots_reduced_bfv_fresh
    by blast
qed

end
