(* ===== verification/DemoCKKS.thy ===== *)
theory DemoCKKS
  imports Working UserInput
begin

text \<open>
  \<open>SEAL_Working::demonstrateCKKS\<close> (\<open>src/SEAL_Working.h\<close>, lines 363--532) and
  \<open>verifyVectors\<close> (lines 536--547). The structure follows the BFV run, with the CKKS
  scale \<open>2^40\<close>: addition; multiplication, relinearization and rescaling; the plaintext
  scalar 2.0 encoded at \<open>ctxt1\<close>'s level and scale, multiplied in and rescaled; the
  addition of the plaintext \<open>ptxt2\<close>; then the comparison with the results computed on
  \<open>double\<close>, within the tolerance 0.01, by \<open>verifyVectors\<close>, which logs the first index
  where they differ. The lemmas trace the run's results and metadata, on inputs of
  magnitude at most \<open>2^10\<close> (\<open>ckks_small\<close>) where the exact model of the encoder is
  faithful, and show that on vectors of the size read it is free of undefined behaviour.
\<close>

section \<open>verifyVectors\<close>

text \<open>The loop \<open>for (size_t i = 0; i < expected.size(); i++)\<close>, from index \<open>i\<close> on.\<close>

fun verify_loop :: "nat \<Rightarrow> (real \<times> real) list \<Rightarrow> real \<Rightarrow> bool prog" where
  "verify_loop i [] tol = ret True"
| "verify_loop i ((e, a) # xs) tol =
     (if tol < \<bar>e - a\<bar> then xbind (emit (LVerifyFail i e a)) (\<lambda>_. ret False)
      else verify_loop (Suc i) xs tol)"

definition verifyVectors :: "real list \<Rightarrow> real list \<Rightarrow> real \<Rightarrow> bool prog" where
  "verifyVectors expected actual tol =
     (if length actual < length expected then ret False
      else verify_loop 0 (zip expected actual) tol)"

section \<open>The demonstration\<close>

definition ckks_banner :: "unit prog" where
  "ckks_banner =
     xbind (emit (LText (replicate 60 CHR ''=''))) (\<lambda>_.
     xbind (emit (LText ''CKKS (Cheon-Kim-Kim-Song) with Microsoft SEAL'')) (\<lambda>_.
     xbind (emit (LText (replicate 60 CHR ''=''))) (\<lambda>_.
     xbind (emit (LText ''1. Key Generation:'')) (\<lambda>_.
     emit (LTiming ''Key generation completed in constructor'')))))"

definition ckks_input :: "(size_t \<times> real list \<times> real list) prog" where
  "ckks_input =
     xbind (emit (LText ''2. Encryption:'')) (\<lambda>_.
     xbind (call getUserSize) (\<lambda>n.
     xbind (call (getUserVectorDouble n ''plaintext1'')) (\<lambda>p1.
     xbind (call (getUserVectorDouble n ''plaintext2'')) (\<lambda>p2.
     xbind (emit (LPlaintextReals ''Plaintext 1: '' p1)) (\<lambda>_.
     xbind (emit (LPlaintextReals ''Plaintext 2: '' p2)) (\<lambda>_.
     ret (n, p1, p2)))))))"

text \<open>Encoding at \<open>ckks_scale\<close> and encryption; \<open>ptxt2\<close> is kept for the plaintext addition.\<close>

definition ckks_encrypt ::
  "seal_working \<Rightarrow> real list \<Rightarrow> real list \<Rightarrow> (real ciphertext \<times> real ciphertext \<times> real plaintext) prog" where
  "ckks_encrypt w p1 p2 =
     xbind (library (ckks_encode (ckks_ctx w) p1 (ckks_scale w))) (\<lambda>pt1.
     xbind (library (ckks_encode (ckks_ctx w) p2 (ckks_scale w))) (\<lambda>pt2.
     xbind (defined ''ckks_encryptor'' (ckks_encryptor w)) (\<lambda>enc.
     xbind (library (encryptor_encrypt enc pt1)) (\<lambda>c1.
     xbind (library (encryptor_encrypt enc pt2)) (\<lambda>c2.
     xbind (emit (LTiming ''Encryption completed'')) (\<lambda>_.
     xbind (print_ckks_info c1 ''ctxt1 (after encryption)'') (\<lambda>_.
     xbind (print_ckks_info c2 ''ctxt2 (after encryption)'') (\<lambda>_.
     ret (c1, c2, pt2)))))))))"

definition ckks_reveal :: "seal_working \<Rightarrow> real ciphertext \<Rightarrow> real list" where
  "ckks_reveal w c = ckks_decode (ckks_ctx w) (decryptor_decrypt (ckks_ctx w) c)"

definition ckks_addition :: "seal_working \<Rightarrow> nat \<Rightarrow> real ciphertext \<Rightarrow> real ciphertext \<Rightarrow> real list prog" where
  "ckks_addition w n c1 c2 =
     xbind (library (evaluator_add (ckks_ctx w) c1 c2)) (\<lambda>cs.
     xbind (defined ''sum_result[i]'' (checked_take n (ckks_reveal w cs))) (\<lambda>r.
     xbind (emit (LResultReals ''Addition result'' r)) (\<lambda>_.
     xbind (emit (LTiming ''Addition operation'')) (\<lambda>_.
     xbind (print_ckks_info cs ''ctxt_sum (after addition)'') (\<lambda>_.
     ret (ckks_reveal w cs))))))"

definition ckks_multiplication ::
  "seal_working \<Rightarrow> nat \<Rightarrow> real ciphertext \<Rightarrow> real ciphertext \<Rightarrow> real list prog" where
  "ckks_multiplication w n c1 c2 =
     xbind (library (evaluator_multiply (ckks_ctx w) c1 c2)) (\<lambda>cm.
     xbind (emit (LTiming ''Multiplication operation'')) (\<lambda>_.
     xbind (print_ckks_info cm ''ctxt_mult (after multiply)'') (\<lambda>_.
     xbind (library (evaluator_relinearize (ckks_ctx w) (ckks_relin w) cm)) (\<lambda>cr.
     xbind (emit (LTiming ''Relinearization operation'')) (\<lambda>_.
     xbind (print_ckks_info cr ''ctxt_mult (after relinearize)'') (\<lambda>_.
     xbind (library (evaluator_rescale_to_next (ckks_ctx w) cr)) (\<lambda>cz.
     xbind (emit (LTiming ''Rescaling operation'')) (\<lambda>_.
     xbind (print_ckks_info cz ''ctxt_mult (after rescale)'') (\<lambda>_.
     xbind (defined ''mult_result[i]'' (checked_take n (ckks_reveal w cz))) (\<lambda>r.
     xbind (emit (LResultReals ''Multiplication result'' r)) (\<lambda>_.
     ret (ckks_reveal w cz))))))))))))"

text \<open>\<open>encode(scalar, ctxt1.parms_id(), ctxt1.scale(), ptxt_scalar)\<close>, then the product and a rescale.\<close>

definition ckks_scalar :: "seal_working \<Rightarrow> nat \<Rightarrow> real ciphertext \<Rightarrow> real list prog" where
  "ckks_scalar w n c1 =
     xbind (library (ckks_encode_scalar (ckks_ctx w) 2 (ct_level c1) (ct_scale c1))) (\<lambda>ps.
     xbind (library (evaluator_multiply_plain (ckks_ctx w) c1 ps)) (\<lambda>cp.
     xbind (library (evaluator_rescale_to_next (ckks_ctx w) cp)) (\<lambda>csc.
     xbind (defined ''scalar_result[i]'' (checked_take n (ckks_reveal w csc))) (\<lambda>r.
     xbind (emit (LResultReals ''Scalar multiplication (2.0x) result'' r)) (\<lambda>_.
     xbind (emit (LTiming ''Scalar multiplication'')) (\<lambda>_.
     xbind (print_ckks_info csc ''ctxt_scalar (after plain_mult)'') (\<lambda>_.
     ret (ckks_reveal w csc))))))))"

definition ckks_add_plain :: "seal_working \<Rightarrow> nat \<Rightarrow> real ciphertext \<Rightarrow> real plaintext \<Rightarrow> real list prog" where
  "ckks_add_plain w n c1 pt2 =
     xbind (library (evaluator_add_plain (ckks_ctx w) c1 pt2)) (\<lambda>ca.
     xbind (defined ''add_plain_result[i]'' (checked_take n (ckks_reveal w ca))) (\<lambda>r.
     xbind (emit (LResultReals ''Plaintext addition result'' r)) (\<lambda>_.
     xbind (emit (LTiming ''Plaintext addition'')) (\<lambda>_.
     xbind (print_ckks_info ca ''ctxt_add_plain (after add_plain)'') (\<lambda>_.
     ret (ckks_reveal w ca))))))"

text \<open>The expected results of lines 505--510, which read \<open>plaintext1[i]\<close> and \<open>plaintext2[i]\<close>.\<close>

definition ckks_expected ::
  "nat \<Rightarrow> real list \<Rightarrow> real list \<Rightarrow> real \<Rightarrow> (real list \<times> real list \<times> real list \<times> real list) option" where
  "ckks_expected n p1 p2 scalar =
     (if n \<le> length p1 \<and> n \<le> length p2
      then Some (map (\<lambda>i. p1 ! i + p2 ! i) [0..<n], map (\<lambda>i. p1 ! i * p2 ! i) [0..<n],
                 map (\<lambda>i. p1 ! i * scalar) [0..<n], map (\<lambda>i. p1 ! i + p2 ! i) [0..<n])
      else None)"

definition ckks_verify ::
  "nat \<Rightarrow> real list \<Rightarrow> real list \<Rightarrow> real list \<Rightarrow> real list \<Rightarrow> real list \<Rightarrow> real list \<Rightarrow> unit prog" where
  "ckks_verify n p1 p2 sum_result mult_result scalar_result add_plain_result =
     xbind (emit (LText ''4. Verification:'')) (\<lambda>_.
     xbind (defined ''plaintext[i]'' (ckks_expected n p1 p2 2)) (\<lambda>(es, em, esc, ea).
     xbind (verifyVectors es (resize (length es) sum_result) 0.01) (\<lambda>sum_ok.
     xbind (verifyVectors em (resize (length em) mult_result) 0.01) (\<lambda>mult_ok.
     xbind (verifyVectors esc (resize (length esc) scalar_result) 0.01) (\<lambda>sc_ok.
     xbind (verifyVectors ea (resize (length ea) add_plain_result) 0.01) (\<lambda>ap_ok.
     xbind (emit (LVerdict ''Addition verification'' sum_ok)) (\<lambda>_.
     xbind (emit (LVerdict ''Multiplication verification'' mult_ok)) (\<lambda>_.
     xbind (emit (LVerdict ''Scalar multiplication verification'' sc_ok)) (\<lambda>_.
     xbind (emit (LVerdict ''Plaintext addition verification'' ap_ok)) (\<lambda>_.
     if sum_ok \<and> mult_ok \<and> sc_ok \<and> ap_ok
     then xbind (emit (LAllPass ''CKKS with Microsoft SEAL'')) (\<lambda>_.
          xbind (emit (LText ''   - Proper noise management'')) (\<lambda>_.
          xbind (emit (LText ''   - Approximate arithmetic'')) (\<lambda>_.
          emit (LText ''   - Real number support''))))
     else ret ()))))))))))"

definition ckks_core :: "seal_working \<Rightarrow> size_t \<Rightarrow> real list \<Rightarrow> real list \<Rightarrow> unit prog" where
  "ckks_core w sz p1 p2 =
     xbind (ckks_encrypt w p1 p2) (\<lambda>(c1, c2, pt2).
     xbind (emit (LText ''3. Homomorphic Operations:'')) (\<lambda>_.
     xbind (ckks_addition w (unat sz) c1 c2) (\<lambda>sum_result.
     xbind (ckks_multiplication w (unat sz) c1 c2) (\<lambda>mult_result.
     xbind (ckks_scalar w (unat sz) c1) (\<lambda>scalar_result.
     xbind (ckks_add_plain w (unat sz) c1 pt2) (\<lambda>add_plain_result.
     ckks_verify (unat sz) p1 p2 sum_result mult_result scalar_result add_plain_result))))))"

definition demonstrateCKKS :: "seal_working \<Rightarrow> unit prog" where
  "demonstrateCKKS w =
     xbind ckks_banner (\<lambda>_.
     xbind ckks_input (\<lambda>(sz, p1, p2).
     ckks_core w sz p1 p2))"

section \<open>The run on the constructed object\<close>

text \<open>
  The slots a CKKS-encoded vector holds (the values, then zeros), the \<open>[INFO]\<close>
  metadata of a log (size, level, scale), the comparison \<open>verifyVectors\<close> makes of one
  pair, and the prime that the first rescale drops.
\<close>


definition ckks_slots :: "real list \<Rightarrow> nat \<Rightarrow> real" where
  "ckks_slots v i = (if i < length v then v ! i else 0)"

definition ckks_info_lines :: "log_entry list \<Rightarrow> (nat \<times> nat \<times> real) list" where
  "ckks_info_lines tr = concat (map (\<lambda>e. case e of LInfoCKKS _ k l sc \<Rightarrow> [(k, l, sc)] | _ \<Rightarrow> []) tr)"

definition verify_ok :: "real \<Rightarrow> real \<times> real \<Rightarrow> bool" where
  "verify_ok tol p \<longleftrightarrow> \<bar>fst p - snd p\<bar> \<le> tol"

abbreviation ckks_q2 :: real where "ckks_q2 \<equiv> 1099511480321"

section \<open>Properties of verifyVectors\<close>


lemma verify_loop_spec:
  "verify_loop i xs tol s =
     (case dropWhile (verify_ok tol) xs of
        [] \<Rightarrow> (Inr True, s)
      | (e, a) # _ \<Rightarrow> (Inr False, log_line (LVerifyFail (i + length (takeWhile (verify_ok tol) xs)) e a) s))"
proof (induction i xs tol arbitrary: s rule: verify_loop.induct)
  case (1 i tol)
  then show ?case by simp
next
  case (2 i e a xs tol)
  then show ?case by (auto simp: verify_ok_def log_line_def split: list.split dest: dropWhile_hd)
qed

text \<open>
  C20. \<open>verifyVectors\<close> returns false without logging when the actual vector is shorter; otherwise it returns true without logging when every pair is within the tolerance, and else returns false having logged one \<open>[VERIFY FAIL]\<close> line, for the first index whose pair is not.
\<close>

theorem verifyVectors_spec:
  "verifyVectors expected actual tol s =
     (if length actual < length expected then (Inr False, s)
      else case dropWhile (verify_ok tol) (zip expected actual) of
        [] \<Rightarrow> (Inr True, s)
      | (e, a) # _ \<Rightarrow> (Inr False,
          log_line (LVerifyFail (length (takeWhile (verify_ok tol) (zip expected actual))) e a) s))"
  unfolding verifyVectors_def verify_loop_spec add_0 by simp

text \<open>
  C3. The early-exit loop of \<open>verifyVectors\<close> computes the reference predicate: the result is true exactly when the actual vector is at least as long and every expected value is within the tolerance of the actual one.
\<close>

theorem verifyVectors_correct:
  "fst (verifyVectors expected actual tol s) =
     Inr (length expected \<le> length actual \<and> (\<forall>i<length expected. \<bar>expected ! i - actual ! i\<bar> \<le> tol))"
proof (cases "length actual < length expected")
  case True
  then show ?thesis by (simp add: verifyVectors_def)
next
  case False
  then have "(\<forall>p\<in>set (zip expected actual). verify_ok tol p) \<longleftrightarrow>
             (\<forall>i<length expected. \<bar>expected ! i - actual ! i\<bar> \<le> tol)"
    by (auto simp: set_zip verify_ok_def)
  with False show ?thesis
    by (auto simp: verifyVectors_def verify_loop_spec dropWhile_eq_Nil_conv split: list.split
        dest: dropWhile_hd)
qed

text \<open>
  The inputs on which exact arithmetic is a sound account of the CKKS run: every value at
  most \<open>2^10\<close> in magnitude. At the scale \<open>2^40\<close> the encoded coefficients stay below
  \<open>2^50\<close>, far from the 140 bits at which \<open>CKKSEncoder::encode\<close> throws "encoded values are
  too large"; the product, at scale \<open>2^80\<close>, stays below \<open>2^100\<close>, inside the 140-bit
  modulus; and the encoding and rescaling errors (of the order of \<open>N \<cdot> 2^-40\<close> per slot,
  times the operands) stay orders of magnitude below the tolerance \<open>0.01\<close>. Larger
  inputs are outside what this model of SEAL describes.
\<close>

definition ckks_small :: "real list \<Rightarrow> bool" where
  "ckks_small v \<longleftrightarrow> list_all (\<lambda>x. \<bar>x\<bar> \<le> 2 ^ 10) v"

section \<open>Phases of the run\<close>


lemma level_bits_ckks:
  "level_bits create_ckks_parms 2 = 140" "level_bits create_ckks_parms 1 = 100"
  "level_bits create_ckks_parms (Suc 0) = 100"
  by (simp_all add: level_bits_def create_ckks_parms_def ckks_coeff_8192_60_40_40_60_def bit_count.simps)

lemma ckks_reveal_init: "ckks_reveal seal_working_init c = map (ct_data c) [0..<4096]"
  by (simp add: ckks_reveal_def ckks_decode_def decryptor_decrypt_def)

lemma ckks_encode_init:
  "length v \<le> 4096 \<Longrightarrow> 0 < sc \<Longrightarrow> sc < 2 ^ 139 \<Longrightarrow>
     ckks_encode (ckks_context create_ckks_parms) v sc =
       Inr \<lparr>pt_level = Some 2, pt_scale = sc, pt_data = ckks_slots v\<rparr>"
  by (simp add: ckks_encode_def level_bits_ckks ckks_slots_def [abs_def])

lemma ckks_encrypt_run:
  assumes "length p1 \<le> 4096" and "length p2 \<le> 4096"
  shows "runs_to (ckks_encrypt seal_working_init p1 p2) s
     (\<lparr>ct_size = 2, ct_level = 2, ct_scale = 2 ^ 40, ct_data = ckks_slots p1\<rparr>,
      \<lparr>ct_size = 2, ct_level = 2, ct_scale = 2 ^ 40, ct_data = ckks_slots p2\<rparr>,
      \<lparr>pt_level = Some 2, pt_scale = 2 ^ 40, pt_data = ckks_slots p2\<rparr>)
     [LTiming ''Encryption completed'', LInfoCKKS ''ctxt1 (after encryption)'' 2 2 (2 ^ 40),
      LInfoCKKS ''ctxt2 (after encryption)'' 2 2 (2 ^ 40)]"
  using assms
  by (simp add: runs_to_def ckks_encrypt_def ckks_encode_init encryptor_encrypt_def
      print_ckks_info_def log_line_def)

lemma ckks_addition_run:
  assumes "n \<le> 4096"
  shows "runs_to (ckks_addition seal_working_init n
       \<lparr>ct_size = 2, ct_level = 2, ct_scale = 2 ^ 40, ct_data = x\<rparr>
       \<lparr>ct_size = 2, ct_level = 2, ct_scale = 2 ^ 40, ct_data = y\<rparr>) s
     (map (\<lambda>i. x i + y i) [0..<4096])
     [LResultReals ''Addition result'' (map (\<lambda>i. x i + y i) [0..<n]),
      LTiming ''Addition operation'', LInfoCKKS ''ctxt_sum (after addition)'' 2 2 (2 ^ 40)]"
  using assms
  by (simp add: runs_to_def ckks_addition_def evaluator_add_def ckks_reveal_init print_ckks_info_def
      log_line_def ckks_context_def)

lemma ckks_multiplication_run:
  assumes "n \<le> 4096"
  shows "runs_to (ckks_multiplication seal_working_init n
       \<lparr>ct_size = 2, ct_level = 2, ct_scale = 2 ^ 40, ct_data = x\<rparr>
       \<lparr>ct_size = 2, ct_level = 2, ct_scale = 2 ^ 40, ct_data = y\<rparr>) s
     (map (\<lambda>i. x i * y i) [0..<4096])
     [LTiming ''Multiplication operation'', LInfoCKKS ''ctxt_mult (after multiply)'' 3 2 (2 ^ 80),
      LTiming ''Relinearization operation'', LInfoCKKS ''ctxt_mult (after relinearize)'' 2 2 (2 ^ 80),
      LTiming ''Rescaling operation'', LInfoCKKS ''ctxt_mult (after rescale)'' 2 1 (2 ^ 80 / ckks_q2),
      LResultReals ''Multiplication result'' (map (\<lambda>i. x i * y i) [0..<n])]"
  using assms
  by (simp add: runs_to_def ckks_multiplication_def evaluator_multiply_def evaluator_relinearize_def
      evaluator_rescale_to_next_def keygen_relin_keys_def scale_within_bounds_def level_bits_ckks
      ckks_reveal_init print_ckks_info_def log_line_def ckks_context_def ckks_coeff_8192_60_40_40_60_def)

lemma ckks_scalar_run:
  assumes "n \<le> 4096"
  shows "runs_to (ckks_scalar seal_working_init n
       \<lparr>ct_size = 2, ct_level = 2, ct_scale = 2 ^ 40, ct_data = x\<rparr>) s
     (map (\<lambda>i. x i * 2) [0..<4096])
     [LResultReals ''Scalar multiplication (2.0x) result'' (map (\<lambda>i. x i * 2) [0..<n]),
      LTiming ''Scalar multiplication'', LInfoCKKS ''ctxt_scalar (after plain_mult)'' 2 1 (2 ^ 80 / ckks_q2)]"
proof -
  have nz: "\<not> plain_is_zero (ckks_context create_ckks_parms) \<lparr>pt_level = Some 2, pt_scale = 2 ^ 40, pt_data = \<lambda>i. 2\<rparr>"
    by (auto simp: plain_is_zero_iff intro!: exI[of _ 0])
  show ?thesis
    using assms nz
    by (simp add: runs_to_def ckks_scalar_def ckks_encode_scalar_def evaluator_multiply_plain_def
        evaluator_rescale_to_next_def scale_within_bounds_def level_bits_ckks ckks_reveal_init
        print_ckks_info_def log_line_def ckks_context_def ckks_coeff_8192_60_40_40_60_def)
qed

lemma ckks_add_plain_run:
  assumes "n \<le> 4096"
  shows "runs_to (ckks_add_plain seal_working_init n
       \<lparr>ct_size = 2, ct_level = 2, ct_scale = 2 ^ 40, ct_data = x\<rparr>
       \<lparr>pt_level = Some 2, pt_scale = 2 ^ 40, pt_data = y\<rparr>) s
     (map (\<lambda>i. x i + y i) [0..<4096])
     [LResultReals ''Plaintext addition result'' (map (\<lambda>i. x i + y i) [0..<n]),
      LTiming ''Plaintext addition'', LInfoCKKS ''ctxt_add_plain (after add_plain)'' 2 2 (2 ^ 40)]"
  using assms
  by (simp add: runs_to_def ckks_add_plain_def evaluator_add_plain_def ckks_reveal_init
      print_ckks_info_def log_line_def ckks_context_def)

lemma verifyVectors_same:
  assumes "0 \<le> tol" shows "verifyVectors xs xs tol s = (Inr True, s)"
proof -
  have "dropWhile (verify_ok tol) (zip xs xs) = []"
    using assms by (auto simp: dropWhile_eq_Nil_conv verify_ok_def set_zip)
  then show ?thesis by (simp add: verifyVectors_def verify_loop_spec del: dropWhile_eq_Nil_conv)
qed

lemma xbind_verifyVectors_same: "0 \<le> tol \<Longrightarrow> xbind (verifyVectors xs xs tol) f = f True"
  by (rule ext) (simp add: xbind_def verifyVectors_same)

lemma map_ckks_slots2:
  "n \<le> length p1 \<Longrightarrow> n \<le> length p2 \<Longrightarrow>
     map (\<lambda>i. g (ckks_slots p1 i) (ckks_slots p2 i)) [0..<n] = map (\<lambda>i. g (p1 ! i) (p2 ! i)) [0..<n]"
  by (rule map_cong) (auto simp: ckks_slots_def)

lemma ckks_verify_run:
  assumes "length p1 = n" and "length p2 = n" and "n \<le> 4096"
  shows "runs_to (ckks_verify n p1 p2
       (map (\<lambda>i. ckks_slots p1 i + ckks_slots p2 i) [0..<4096])
       (map (\<lambda>i. ckks_slots p1 i * ckks_slots p2 i) [0..<4096])
       (map (\<lambda>i. ckks_slots p1 i * 2) [0..<4096])
       (map (\<lambda>i. ckks_slots p1 i + ckks_slots p2 i) [0..<4096])) s ()
     [LText ''4. Verification:'', LVerdict ''Addition verification'' True,
      LVerdict ''Multiplication verification'' True, LVerdict ''Scalar multiplication verification'' True,
      LVerdict ''Plaintext addition verification'' True, LAllPass ''CKKS with Microsoft SEAL'',
      LText ''   - Proper noise management'', LText ''   - Approximate arithmetic'',
      LText ''   - Real number support'']"
proof -
  have a: "resize n (map (\<lambda>i. ckks_slots p1 i + ckks_slots p2 i) [0..<4096]) = map (\<lambda>i. p1 ! i + p2 ! i) [0..<n]"
    and m: "resize n (map (\<lambda>i. ckks_slots p1 i * ckks_slots p2 i) [0..<4096]) = map (\<lambda>i. p1 ! i * p2 ! i) [0..<n]"
    and c: "resize n (map (\<lambda>i. ckks_slots p1 i * 2) [0..<4096]) = map (\<lambda>i. p1 ! i * 2) [0..<n]"
    using assms map_ckks_slots2[of n p1 p2 "(+)"] map_ckks_slots2[of n p1 p2 "(*)"]
      map_ckks_slots2[of n p1 p1 "\<lambda>x y. x * 2"] by simp_all
  show ?thesis
    using assms(1,2)
    by (simp add: runs_to_def ckks_verify_def ckks_expected_def a m c xbind_verifyVectors_same log_line_def)
qed

lemma ckks_core_trace:
  assumes "length p1 = unat sz" and "length p2 = unat sz" and "unat sz \<le> 4096"
  shows "runs_to (ckks_core seal_working_init sz p1 p2) s ()
     ([LTiming ''Encryption completed'', LInfoCKKS ''ctxt1 (after encryption)'' 2 2 (2 ^ 40),
       LInfoCKKS ''ctxt2 (after encryption)'' 2 2 (2 ^ 40), LText ''3. Homomorphic Operations:'',
       LResultReals ''Addition result'' (map (\<lambda>i. ckks_slots p1 i + ckks_slots p2 i) [0..<unat sz]),
       LTiming ''Addition operation'', LInfoCKKS ''ctxt_sum (after addition)'' 2 2 (2 ^ 40),
       LTiming ''Multiplication operation'', LInfoCKKS ''ctxt_mult (after multiply)'' 3 2 (2 ^ 80),
       LTiming ''Relinearization operation'', LInfoCKKS ''ctxt_mult (after relinearize)'' 2 2 (2 ^ 80),
       LTiming ''Rescaling operation'', LInfoCKKS ''ctxt_mult (after rescale)'' 2 1 (2 ^ 80 / ckks_q2),
       LResultReals ''Multiplication result'' (map (\<lambda>i. ckks_slots p1 i * ckks_slots p2 i) [0..<unat sz]),
       LResultReals ''Scalar multiplication (2.0x) result'' (map (\<lambda>i. ckks_slots p1 i * 2) [0..<unat sz]),
       LTiming ''Scalar multiplication'', LInfoCKKS ''ctxt_scalar (after plain_mult)'' 2 1 (2 ^ 80 / ckks_q2),
       LResultReals ''Plaintext addition result'' (map (\<lambda>i. ckks_slots p1 i + ckks_slots p2 i) [0..<unat sz]),
       LTiming ''Plaintext addition'', LInfoCKKS ''ctxt_add_plain (after add_plain)'' 2 2 (2 ^ 40),
       LText ''4. Verification:'', LVerdict ''Addition verification'' True,
       LVerdict ''Multiplication verification'' True, LVerdict ''Scalar multiplication verification'' True,
       LVerdict ''Plaintext addition verification'' True, LAllPass ''CKKS with Microsoft SEAL'',
       LText ''   - Proper noise management'', LText ''   - Approximate arithmetic'',
       LText ''   - Real number support''])"
proof -
  note enc = ckks_encrypt_run[of p1 p2, unfolded runs_to_def]
  note add = ckks_addition_run[of "unat sz", unfolded runs_to_def, simplified]
  note mul = ckks_multiplication_run[of "unat sz", unfolded runs_to_def, simplified]
  note sca = ckks_scalar_run[of "unat sz", unfolded runs_to_def, simplified]
  note apl = ckks_add_plain_run[of "unat sz", unfolded runs_to_def, simplified]
  note ver = ckks_verify_run[of p1 "unat sz" p2, unfolded runs_to_def]
  show ?thesis
    using assms
    by (simp add: runs_to_def ckks_core_def xbind_def enc add mul sca apl ver log_line_def)
qed

text \<open>The input part of \<open>demonstrateCKKS\<close> on three lines that are accepted at once.\<close>

lemma demonstrateCKKS_input:
  assumes "size_of_line l0 = Some n" and "0 < unat n"
    and "\<not> short_line extract_double (unat n) l1" and "\<not> short_line extract_double (unat n) l2"
  shows "demonstrateCKKS w \<lparr>stdin = l0 # l1 # l2 # rest, console = c, log = l\<rparr> =
     ckks_core w n (read_values extract_double (unat n) [] l1) (read_values extract_double (unat n) [] l2)
       \<lparr>stdin = rest, console = c @ [PromptSize, PromptDoubles n ''plaintext1'', PromptDoubles n ''plaintext2''],
         log = l @ [LText (replicate 60 CHR ''=''),
          LText ''CKKS (Cheon-Kim-Kim-Song) with Microsoft SEAL'', LText (replicate 60 CHR ''=''),
          LText ''1. Key Generation:'', LTiming ''Key generation completed in constructor'',
          LText ''2. Encryption:'', LSizeChosen n, LUserInput ''plaintext1'' l1,
          LUserInput ''plaintext2'' l2,
          LPlaintextReals ''Plaintext 1: '' (read_values extract_double (unat n) [] l1),
          LPlaintextReals ''Plaintext 2: '' (read_values extract_double (unat n) [] l2)]\<rparr>"
  using assms
  by (simp add: demonstrateCKKS_def ckks_banner_def ckks_input_def getUserSize_spec getUserVectorDouble_def
      user_vector_loop_spec xbind_assoc log_line_def)

section \<open>Properties of demonstrateCKKS\<close>


text \<open>
  C17. For a size \<open>n \<le> 4096\<close> and two vectors of \<open>n\<close> values of magnitude at most
  \<open>2^10\<close> (\<open>ckks_small\<close>: the range in which SEAL's encoder accepts them, the products
  stay inside the modulus and the approximation error stays far below the tolerance), the
  part of \<open>demonstrateCKKS\<close> after the input returns normally, logs the slot-wise sums,
  products, doubles and plaintext sums (exact in this model), four PASS verdicts and ALL
  TESTS PASSING.
\<close>

theorem ckks_core_results:
  assumes "length p1 = unat sz" and "length p2 = unat sz" and "unat sz \<le> 4096"
    and "ckks_small p1" and "ckks_small p2"
  shows "\<exists>tr. runs_to (ckks_core seal_working_init sz p1 p2) s () tr \<and>
     LResultReals ''Addition result'' (map (\<lambda>i. p1 ! i + p2 ! i) [0..<unat sz]) \<in> set tr \<and>
     LResultReals ''Multiplication result'' (map (\<lambda>i. p1 ! i * p2 ! i) [0..<unat sz]) \<in> set tr \<and>
     LResultReals ''Scalar multiplication (2.0x) result'' (map (\<lambda>i. p1 ! i * 2) [0..<unat sz]) \<in> set tr \<and>
     LResultReals ''Plaintext addition result'' (map (\<lambda>i. p1 ! i + p2 ! i) [0..<unat sz]) \<in> set tr \<and>
     verdicts tr = [(''Addition verification'', True), (''Multiplication verification'', True),
       (''Scalar multiplication verification'', True), (''Plaintext addition verification'', True)] \<and>
     LAllPass ''CKKS with Microsoft SEAL'' \<in> set tr"
proof -
  have a: "map (\<lambda>i. ckks_slots p1 i + ckks_slots p2 i) [0..<unat sz] = map (\<lambda>i. p1 ! i + p2 ! i) [0..<unat sz]"
    and m: "map (\<lambda>i. ckks_slots p1 i * ckks_slots p2 i) [0..<unat sz] = map (\<lambda>i. p1 ! i * p2 ! i) [0..<unat sz]"
    and c: "map (\<lambda>i. ckks_slots p1 i * 2) [0..<unat sz] = map (\<lambda>i. p1 ! i * 2) [0..<unat sz]"
    using assms map_ckks_slots2[of "unat sz" p1 p2 "(+)"] map_ckks_slots2[of "unat sz" p1 p2 "(*)"]
      map_ckks_slots2[of "unat sz" p1 p1 "\<lambda>x y. x * 2"] by simp_all
  show ?thesis
    using ckks_core_trace[OF assms(1-3), of s] by (rule runs_to_exI) (simp add: a m c verdicts_def)
qed

text \<open>
  C16. On the same inputs (of magnitude at most \<open>2^10\<close>, where the encoder accepts them) the \<open>[INFO]\<close> lines record size 2 at level 2 and scale \<open>2^40\<close> after encryption and addition, size 3 and scale \<open>2^80\<close> after the product, size 2 after relinearization, level 1 and scale \<open>2^80 / q_2\<close> after each rescale (\<open>q_2\<close> the dropped 40-bit prime), and level 2 for the plaintext addition.
\<close>

theorem ckks_core_metadata:
  assumes "length p1 = unat sz" and "length p2 = unat sz" and "unat sz \<le> 4096"
    and "ckks_small p1" and "ckks_small p2"
  shows "\<exists>tr. runs_to (ckks_core seal_working_init sz p1 p2) s () tr \<and>
     ckks_info_lines tr =
       [(2, 2, 2 ^ 40), (2, 2, 2 ^ 40), (2, 2, 2 ^ 40), (3, 2, 2 ^ 80), (2, 2, 2 ^ 80),
        (2, 1, 2 ^ 80 / 1099511480321), (2, 1, 2 ^ 80 / 1099511480321), (2, 2, 2 ^ 40)]"
  using ckks_core_trace[OF assms(1-3), of s] by (rule runs_to_exI) (simp add: ckks_info_lines_def)

text \<open>
  C23. A vector longer than the 4096 CKKS slots makes \<open>CKKSEncoder::encode\<close> throw \<open>invalid_argument\<close> before anything is logged; a size between 4097 and 8192 thus passes the BFV run and fails here.
\<close>

theorem ckks_core_too_long:
  assumes "4096 < length p1"
  shows "ckks_core seal_working_init sz p1 p2 s =
           (Inl (Exception (InvalidArgument ''values_size is too large'')), s)"
  using assms by (simp add: ckks_core_def ckks_encrypt_def ckks_encode_def xbind_def)

section \<open>Streams and undefined behaviour\<close>

lemma grows_verify_loop [grows_intros]: "grows (verify_loop i xs tol)"
proof (induction i xs tol rule: verify_loop.induct)
  case (1 i tol)
  show ?case by (simp only: verify_loop.simps) (rule grows_ret)
next
  case (2 i e a xs tol)
  then show ?case by (simp only: verify_loop.simps) (intro grows_intros)
qed

lemma grows_ckks_core [grows_intros]: "grows (ckks_core w sz p1 p2)"
  unfolding ckks_core_def ckks_encrypt_def ckks_addition_def ckks_multiplication_def ckks_scalar_def
    ckks_add_plain_def ckks_verify_def verifyVectors_def
  by (intro grows_intros)

lemma ckks_input_cases:
  "\<exists>n p1 p2 s'. ckks_input s = (Inr (n, p1, p2), s') \<and> io_le s s' \<and>
     (length p1 = unat n \<and> length p2 = unat n \<or> stdin s' = [])"
  unfolding ckks_input_def by (rule read_input_cases getUserVectorDouble_io_le getUserVectorDouble_eof)+

text \<open>
  The outcome of the work after the input, on two vectors of the size read: it runs
  through up to the slot count, and beyond it the encoder throws.
\<close>

lemma ckks_core_outcome:
  assumes "length p1 = unat sz" and "length p2 = unat sz"
  shows "fst (ckks_core seal_working_init sz p1 p2 s) =
     (if unat sz \<le> 4096 then Inr () else Inl (Exception (InvalidArgument ''values_size is too large'')))"
proof (cases "unat sz \<le> 4096")
  case True
  with assms ckks_core_trace[of p1 sz p2 s] show ?thesis by (simp add: runs_to_def)
next
  case False
  with assms show ?thesis by (simp add: ckks_core_def ckks_encrypt_def ckks_encode_def xbind_def)
qed

lemma demonstrateCKKS_undefined_eof:
  assumes ub: "fst (demonstrateCKKS seal_working_init s) = Inl (Undefined u)"
  shows "stdin (snd (demonstrateCKKS seal_working_init s)) = []"
proof -
  have b: "fst (ckks_banner s) = Inr ()" by (simp add: ckks_banner_def)
  have c: "False"
    if "length p1 = unat n" "length p2 = unat n" "fst (ckks_core seal_working_init n p1 p2 s') = Inl (Undefined w)"
    for n p1 p2 s' w
    using that by (simp add: ckks_core_outcome split: if_splits)
  show ?thesis
    using demo_undefined_eof[OF b ckks_input_cases c grows_ckks_core ub[unfolded demonstrateCKKS_def]]
    by (simp add: demonstrateCKKS_def)
qed


section \<open>The scenario of the specification\<close>


lemma scen_doubles:
  "read_values extract_double 2 [] ''1.5 2.5'' = [3 / 2, 5 / 2]"
  "read_values extract_double 2 [] ''0.5 1.0'' = [1 / 2, 1]"
  "size_of_line ''2'' = Some 2"
  by (simp_all add: read_values.simps extraction_eval size_of_line_def classify_size_line_def)

lemma scen_ckks_input:
  "\<exists>c'. ckks_input \<lparr>stdin = [''2'', ''1.5 2.5'', ''0.5 1.0''], console = c, log = l\<rparr> =
     (Inr (2, [3 / 2, 5 / 2], [1 / 2, 1]),
      \<lparr>stdin = [], console = c', log = l @ [LText ''2. Encryption:'', LSizeChosen 2,
         LUserInput ''plaintext1'' ''1.5 2.5'', LUserInput ''plaintext2'' ''0.5 1.0'',
         LPlaintextReals ''Plaintext 1: '' [3 / 2, 5 / 2], LPlaintextReals ''Plaintext 2: '' [1 / 2, 1]]\<rparr>)"
  using scen_doubles
  by (simp add: ckks_input_def getUserSize_spec getUserVectorDouble_def user_vector_loop_spec short_line_def
      log_line_def)

text \<open>
  C5. On the input \<open>2\<close>, \<open>1.5 2.5\<close>, \<open>0.5 1.0\<close>, \<open>demonstrateCKKS\<close> logs the sums 2 and 3.5, the products 0.75 and 2.5, the doubles 3 and 5, the plaintext sums 2 and 3.5, four PASS verdicts and ALL TESTS PASSING.
\<close>

theorem demonstrateCKKS_scenario:
  "\<exists>s'. demonstrateCKKS seal_working_init \<lparr>stdin = [''2'', ''1.5 2.5'', ''0.5 1.0''], console = [], log = []\<rparr>
          = (Inr (), s') \<and>
        LResultReals ''Addition result'' [2, 7 / 2] \<in> set (log s') \<and>
        LResultReals ''Multiplication result'' [3 / 4, 5 / 2] \<in> set (log s') \<and>
        LResultReals ''Scalar multiplication (2.0x) result'' [3, 5] \<in> set (log s') \<and>
        LResultReals ''Plaintext addition result'' [2, 7 / 2] \<in> set (log s') \<and>
        verdicts (log s') = [(''Addition verification'', True), (''Multiplication verification'', True),
          (''Scalar multiplication verification'', True), (''Plaintext addition verification'', True)] \<and>
        LAllPass ''CKKS with Microsoft SEAL'' \<in> set (log s')"
proof -
  let ?s0 = "\<lparr>stdin = [''2'', ''1.5 2.5'', ''0.5 1.0''], console = [], log = []\<rparr>"
  let ?l = "[LText (replicate 60 CHR ''=''), LText ''CKKS (Cheon-Kim-Kim-Song) with Microsoft SEAL'',
         LText (replicate 60 CHR ''=''), LText ''1. Key Generation:'',
         LTiming ''Key generation completed in constructor'']"
  obtain c1 where i: "ckks_input (snd (ckks_banner ?s0)) = (Inr (2, [3 / 2, 5 / 2], [1 / 2, 1]),
      \<lparr>stdin = [], console = c1, log = ?l @ [LText ''2. Encryption:'', LSizeChosen 2,
         LUserInput ''plaintext1'' ''1.5 2.5'', LUserInput ''plaintext2'' ''0.5 1.0'',
         LPlaintextReals ''Plaintext 1: '' [3 / 2, 5 / 2], LPlaintextReals ''Plaintext 2: '' [1 / 2, 1]]\<rparr>)"
    using scen_ckks_input[of "[]" ?l] by (auto simp add: ckks_banner_def log_line_def)
  define s1 where "s1 = \<lparr>stdin = [], console = c1, log = ?l @ [LText ''2. Encryption:'', LSizeChosen 2,
         LUserInput ''plaintext1'' ''1.5 2.5'', LUserInput ''plaintext2'' ''0.5 1.0'',
         LPlaintextReals ''Plaintext 1: '' [3 / 2, 5 / 2], LPlaintextReals ''Plaintext 2: '' [1 / 2, 1]]\<rparr>"
  have "demonstrateCKKS seal_working_init ?s0 = ckks_core seal_working_init 2 [3 / 2, 5 / 2] [1 / 2, 1] s1"
    using i by (simp add: demonstrateCKKS_def xbind_def ckks_banner_def log_line_def s1_def)
  moreover note ckks_core_trace[of "[3 / 2, 5 / 2]" 2 "[1 / 2, 1]" s1, unfolded runs_to_def]
  ultimately show ?thesis
    by (simp add: verdicts_def ckks_slots_def upt_rec s1_def)
qed

section \<open>Witnesses\<close>

theorem ckks_core_results_witness:
  "length [3 / 2, 5 / 2 :: real] = unat (2 :: size_t) \<and> length [1 / 2, 1 :: real] = unat (2 :: size_t) \<and>
   unat (2 :: size_t) \<le> 4096 \<and> ckks_small [3 / 2, 5 / 2] \<and> ckks_small [1 / 2, 1] \<and>
   (\<exists>tr. runs_to (ckks_core seal_working_init 2 [3 / 2, 5 / 2] [1 / 2, 1]) \<lparr>stdin = [], console = [], log = []\<rparr> () tr \<and>
     LResultReals ''Multiplication result'' [3 / 4, 5 / 2] \<in> set tr \<and>
     LAllPass ''CKKS with Microsoft SEAL'' \<in> set tr)"
  using ckks_core_results[of "[3 / 2, 5 / 2]" 2 "[1 / 2, 1]" "\<lparr>stdin = [], console = [], log = []\<rparr>"]
  by (auto simp: upt_rec ckks_small_def)

theorem ckks_core_metadata_witness:
  "length [3 / 2, 5 / 2 :: real] = unat (2 :: size_t) \<and> length [1 / 2, 1 :: real] = unat (2 :: size_t) \<and>
   unat (2 :: size_t) \<le> 4096 \<and> ckks_small [3 / 2, 5 / 2] \<and> ckks_small [1 / 2, 1] \<and>
   (\<exists>tr. runs_to (ckks_core seal_working_init 2 [3 / 2, 5 / 2] [1 / 2, 1]) \<lparr>stdin = [], console = [], log = []\<rparr> () tr \<and>
     ckks_info_lines tr =
       [(2, 2, 2 ^ 40), (2, 2, 2 ^ 40), (2, 2, 2 ^ 40), (3, 2, 2 ^ 80), (2, 2, 2 ^ 80),
        (2, 1, 2 ^ 80 / 1099511480321), (2, 1, 2 ^ 80 / 1099511480321), (2, 2, 2 ^ 40)])"
  using ckks_core_metadata[of "[3 / 2, 5 / 2]" 2 "[1 / 2, 1]" "\<lparr>stdin = [], console = [], log = []\<rparr>"]
  by (simp add: ckks_small_def)

theorem ckks_core_too_long_witness:
  "4096 < length (replicate 4097 (0 :: real)) \<and>
   ckks_core seal_working_init 4097 (replicate 4097 0) (replicate 4097 0) \<lparr>stdin = [], console = [], log = []\<rparr> =
     (Inl (Exception (InvalidArgument ''values_size is too large'')), \<lparr>stdin = [], console = [], log = []\<rparr>)"
  using ckks_core_too_long[of "replicate 4097 0" 4097 "replicate 4097 0" "\<lparr>stdin = [], console = [], log = []\<rparr>"]
  by simp

theorem verifyVectors_correct_witness:
  "fst (verifyVectors [1, 2] [1.005, 2] 0.01 \<lparr>stdin = [], console = [], log = []\<rparr>) = Inr True"
  using verifyVectors_correct[of "[1, 2]" "[1.005, 2]" "0.01" "\<lparr>stdin = [], console = [], log = []\<rparr>"]
  by (simp add: all_less_list_all upt_rec)


end
