(* ===== verification/Compare.thy ===== *)
theory Compare
  imports Console_Log
begin

text \<open>
  The two report functions of \<open>src/main.cpp\<close> that write constant text to the log:
  \<open>compareProtocols\<close> (lines 8--55), with its table laid out by
  \<open>std::left << std::setw(20)\<close>, and \<open>showInstallationInstructions\<close> (lines 57--79).
  \<open>main\<close> does not call them (the calls are commented out), so they are modelled as
  functions on the streams and used by no other theory. As in the rest of the
  development, the \<open>"\n"\<close> that opens some lines is not kept: a log entry is one line.
\<close>

text \<open>\<open>std::setw(w)\<close> with \<open>std::left\<close>: pad on the right to \<open>w\<close> characters, never truncate.\<close>

definition setw_left :: "nat \<Rightarrow> string \<Rightarrow> string" where
  "setw_left w s = s @ replicate (w - length s) CHR '' ''"

definition table_row :: "string \<Rightarrow> string \<Rightarrow> string \<Rightarrow> string" where
  "table_row a b c = setw_left 20 a @ setw_left 20 b @ setw_left 20 c"

definition compare_table :: "string list" where
  "compare_table =
     [table_row ''Feature'' ''BFV'' ''CKKS'',
      replicate 60 CHR ''-'',
      table_row ''Data Type'' ''Integers'' ''Real Numbers'',
      table_row ''Precision'' ''Exact'' ''Approximate'',
      table_row ''Use Cases'' ''Exact Arithmetic'' ''ML/Analytics'',
      table_row ''Noise Growth'' ''Controlled'' ''Controlled'',
      table_row ''Bootstrapping'' ''Supported'' ''Supported'']"

definition compareProtocols :: "io \<Rightarrow> io" where
  "compareProtocols =
     fold log_line
       ([LText (replicate 60 CHR ''=''), LText ''BFV vs CKKS Protocol Comparison'',
         LText (replicate 60 CHR ''=''), LText ''Protocol Characteristics:''] @
        map LText compare_table @
        [LText ''Performance Analysis:'',
         LText ''- BFV: Better for exact integer computations, voting systems, secure databases'',
         LText ''- CKKS: Better for machine learning, statistical analysis, real-world applications'',
         LText ''- Both schemes support addition and multiplication on encrypted data'',
         LText ''- Both use Microsoft SEAL with proper noise management'',
         LText ''- Both support bootstrapping for unlimited operations'',
         LText ''Microsoft SEAL Features:'',
         LText ''- Automatic noise management'',
         LText ''- Relinearization after multiplication'',
         LText ''- Modulus switching for noise reduction'',
         LText ''- Bootstrapping for unlimited operations'',
         LText ''- Optimized parameter selection'',
         LText ''- Batch processing support'',
         LText ''- Python bindings available''])"

definition showInstallationInstructions :: "io \<Rightarrow> io" where
  "showInstallationInstructions =
     fold log_line
       [LText (replicate 60 CHR ''=''), LText ''Microsoft SEAL Installation Instructions'',
        LText (replicate 60 CHR ''=''),
        LText ''1. Install SEAL using package manager:'',
        LText ''   sudo apt update'',
        LText ''   sudo apt install libseal-dev'',
        LText ''2. Or build from source:'',
        LText ''   git clone https://github.com/Microsoft/SEAL.git'',
        LText ''   cd SEAL'',
        LText ''   mkdir build && cd build'',
        LText ''   cmake ..'',
        LText ''   make -j4'',
        LText ''   sudo make install'',
        LText ''3. Compile with SEAL:'',
        LText ''   g++ -std=c++17 -o phase2_homomorphic main_working.cpp $(pkg-config --cflags --libs seal)'',
        LText ''4. Alternative libraries:'',
        LText ''   - OpenFHE: https://github.com/openfheorg/openfhe-development'',
        LText ''   - HElib: sudo apt install libhelib-dev'']"

lemma length_setw_left [simp]: "length (setw_left w s) = max w (length s)"
  by (simp add: setw_left_def)

lemma fold_log_line: "fold log_line es s = s\<lparr>log := log s @ es\<rparr>"
  by (induction es arbitrary: s) (simp_all add: log_line_def)

end
