(* ===== verification/InputSteps.thy ===== *)
theory InputSteps
  imports UserInput
begin

text \<open>
  The loop \<open>while (vec.size() < size)\<close> of \<open>getUserVectorInt\<close> and \<open>getUserVectorDouble\<close>
  (\<open>src/SEAL_Working.h\<close>, lines 120--139) as a small-step machine: a configuration is
  either inside the loop with the current vector and streams, or returned. One step is
  one test of the guard and, if it holds, one iteration of the body. The theory shows
  that the machine reaches the final configuration the recursive \<open>user_vector_loop\<close>
  computes, and an invariant of every configuration reachable from the start of
  \<open>getUserVectorInt\<close>, by rule induction.
\<close>

datatype 'a vec_cfg = Reading "'a list" io | Returned "'a list" io

inductive vec_step :: "'a extractor \<Rightarrow> console_msg \<Rightarrow> nat \<Rightarrow> string \<Rightarrow> 'a vec_cfg \<Rightarrow> 'a vec_cfg \<Rightarrow> bool"
  for ex prompt n name where
  vec_full: "\<not> length vec < n \<Longrightarrow> vec_step ex prompt n name (Reading vec s) (Returned vec s)"
| vec_eof: "length vec < n \<Longrightarrow> stdin s = [] \<Longrightarrow>
    vec_step ex prompt n name (Reading vec s) (Returned vec (say prompt s))"
| vec_accept: "length vec < n \<Longrightarrow> stdin s = l # ls \<Longrightarrow> \<not> length (read_values ex n vec l) < n \<Longrightarrow>
    vec_step ex prompt n name (Reading vec s)
      (Returned (read_values ex n vec l) (log_line (LUserInput name l) (say prompt (s\<lparr>stdin := ls\<rparr>))))"
| vec_retry: "length vec < n \<Longrightarrow> stdin s = l # ls \<Longrightarrow> length (read_values ex n vec l) < n \<Longrightarrow>
    vec_step ex prompt n name (Reading vec s)
      (Reading [] (say ErrNotEnough (log_line (LUserInput name l) (say prompt (s\<lparr>stdin := ls\<rparr>)))))"

code_pred vec_step .

inductive_cases vec_step_ReturnedE [elim!]: "vec_step ex prompt n name (Returned vec s) c"

text \<open>The invariant of the configurations reached from \<open>getUserVectorInt\<close>'s start.\<close>

fun vec_inv :: "nat \<Rightarrow> io \<Rightarrow> 'a vec_cfg \<Rightarrow> bool" where
  "vec_inv n s0 (Reading vec s) \<longleftrightarrow> vec = [] \<and> io_le s0 s"
| "vec_inv n s0 (Returned vec s) \<longleftrightarrow> io_le s0 s \<and> (length vec = n \<or> stdin s = [])"

lemma user_vector_loop_steps:
  "user_vector_loop ex prompt n name vec s = (v, s') \<Longrightarrow>
   (vec_step ex prompt n name)\<^sup>*\<^sup>* (Reading vec s) (Returned v s')"
proof (induction ex prompt n name vec s arbitrary: v s' rule: user_vector_loop.induct)
  case (1 ex prompt n name vec s)
  show ?case
  proof (cases "length vec < n")
    case False
    with "1.prems" show ?thesis
      by (simp add: user_vector_loop.simps[of ex prompt n name vec s] vec_full r_into_rtranclp)
  next
    case True
    show ?thesis
    proof (cases "stdin s")
      case Nil
      with True "1.prems" show ?thesis
        by (auto simp: user_vector_loop.simps[of ex prompt n name vec s] intro!: r_into_rtranclp vec_eof)
    next
      case (Cons l ls)
      show ?thesis
      proof (cases "length (read_values ex n vec l) < n")
        case False
        with True Cons "1.prems" show ?thesis
          by (auto simp: user_vector_loop.simps[of ex prompt n name vec s] intro!: r_into_rtranclp vec_accept)
      next
        case short: True
        let ?s1 = "say ErrNotEnough (log_line (LUserInput name l) (say prompt (s\<lparr>stdin := ls\<rparr>)))"
        have "user_vector_loop ex prompt n name [] ?s1 = (v, s')"
          using True Cons short "1.prems" by (simp add: user_vector_loop.simps[of ex prompt n name vec s])
        then have "(vec_step ex prompt n name)\<^sup>*\<^sup>* (Reading [] ?s1) (Returned v s')"
          using "1.IH" True Cons short by (simp add: Let_def)
        moreover have "vec_step ex prompt n name (Reading vec s) (Reading [] ?s1)"
          using True Cons short by (rule vec_retry)
        ultimately show ?thesis by (meson converse_rtranclp_into_rtranclp)
      qed
    qed
  qed
qed

lemma vec_step_inv:
  "vec_step ex prompt n name c c' \<Longrightarrow> vec_inv n s0 c \<Longrightarrow> vec_inv n s0 c'"
proof (induction rule: vec_step.induct)
  case (vec_accept vec s l ls)
  then have "length (read_values ex n vec l) = n"
    using read_values_length[of vec n ex l] by simp
  with vec_accept show ?case by (auto simp: io_le_def dest: suffix_ConsD)
qed (auto simp: io_le_def dest: suffix_ConsD)

text \<open>
  C14. Invariant of the loop, by rule induction: every configuration reached from the
  start of \<open>getUserVectorInt\<close> (an empty vector) holds the empty vector while inside the
  loop (\<open>vec.clear()\<close> after every short line), has only consumed input and appended
  output, and once returned holds exactly \<open>size\<close> values unless the input is exhausted.
\<close>

theorem vec_reachable_inv:
  "(vec_step ex prompt n name)\<^sup>*\<^sup>* (Reading [] s0) c \<Longrightarrow> vec_inv n s0 c"
  by (induction rule: rtranclp_induct) (auto intro: vec_step_inv)

theorem vec_reachable_inv_witness:
  "(vec_step extract_int64 (PromptInts 2 ''p'') 2 ''p'')\<^sup>*\<^sup>*
     (Reading [] \<lparr>stdin = [''x'', ''5 6''], console = [], log = []\<rparr>)
     (Returned [5, 6] \<lparr>stdin = [], console = [PromptInts 2 ''p'', ErrNotEnough, PromptInts 2 ''p''],
        log = [LUserInput ''p'' ''x'', LUserInput ''p'' ''5 6'']\<rparr>) \<and>
   vec_inv 2 \<lparr>stdin = [''x'', ''5 6''], console = [], log = []\<rparr>
     (Returned [5, 6] \<lparr>stdin = [], console = [PromptInts 2 ''p'', ErrNotEnough, PromptInts 2 ''p''],
        log = [LUserInput ''p'' ''x'', LUserInput ''p'' ''5 6'']\<rparr>)"
proof -
  have "user_vector_loop extract_int64 (PromptInts 2 ''p'') 2 ''p'' [] \<lparr>stdin = [''x'', ''5 6''], console = [], log = []\<rparr> =
     ([5, 6], \<lparr>stdin = [], console = [PromptInts 2 ''p'', ErrNotEnough, PromptInts 2 ''p''],
        log = [LUserInput ''p'' ''x'', LUserInput ''p'' ''5 6'']\<rparr>)"
    by (simp add: user_vector_loop.simps read_values.simps extraction_eval say_def log_line_def)
  then have r: "(vec_step extract_int64 (PromptInts 2 ''p'') 2 ''p'')\<^sup>*\<^sup>*
     (Reading [] \<lparr>stdin = [''x'', ''5 6''], console = [], log = []\<rparr>)
     (Returned [5, 6] \<lparr>stdin = [], console = [PromptInts 2 ''p'', ErrNotEnough, PromptInts 2 ''p''],
        log = [LUserInput ''p'' ''x'', LUserInput ''p'' ''5 6'']\<rparr>)"
    by (rule user_vector_loop_steps)
  show ?thesis using vec_reachable_inv[OF r] r by simp
qed

end
