(* ===== verification/Spec2Isabelle.thy ===== *)
theory Spec2Isabelle
  imports Program Compare InputSteps
begin

text \<open>
  Verification development for the homomorphic-encryption demonstration of
  \<open>src/SEAL_Working.h\<close> and \<open>src/main.cpp\<close>. The program drives Microsoft SEAL through a
  BFV run on integers and then a CKKS run on reals. Each run reads a size and two vectors
  from standard input, encrypts them, computes homomorphically (sum, product with
  relinearization, and, for CKKS, rescaling, a plaintext scalar product and a plaintext
  sum), decrypts, and compares with the results computed in plain C++. Every step is
  written to a log. \<open>main\<close> runs both inside \<open>try\<close> and maps the outcome to the exit
  status.

  \<^bold>\<open>Theories.\<close>
  \<^item> \<open>Prelude\<close>: \<open>size_t\<close> and \<open>int64_t\<close> as \<open>64 word\<close>; the state-and-exception monad
    (\<open>ret\<close>, \<open>throw\<close>, \<open>xbind\<close>) in which a C++ function that writes to streams and may
    throw is a function from the stream state to a result and a new state; checked
    vector reads (\<open>checked_take\<close>) and \<open>std::vector::resize\<close>; the collection
    \<open>grows_intros\<close>; \<open>int64_t\<close> addition and multiplication with their overflow
    (\<open>signed_add\<close>, \<open>signed_mul\<close>), and \<open>collect\<close>, the first failure of a loop.
  \<^item> \<open>StreamIO\<close>: the formatted extraction of the C++ library used on input lines
    (\<open>ss >> size\<close>, \<open>ss >> val\<close>, \<open>ss >> c\<close>) and the insertion of integers; modelled
    from the standard's rules (C locale), not from code of the repository.
  \<^item> \<open>Console_Log\<close>: the streams: \<open>stdin\<close> as a list of lines, the console messages
    and the log lines as datatypes, appended in order (record \<open>io\<close>). \<open>io_le s s'\<close>
    orders stream states: input only consumed, console and log only appended to.
  \<^item> \<open>UserInput\<close>: \<open>getUserSize\<close>, \<open>getUserVectorInt\<close>, \<open>getUserVectorDouble\<close>
    (lines 88--166), each loop a \<open>function\<close> terminating on the remaining input.
  \<^item> \<open>Seal\<close>: the SEAL operations the program calls, modelled from SEAL's documented
    behaviour: the checks they make before computing (every \<open>invalid_argument\<close> and
    \<open>logic_error\<close> is an \<open>Inl\<close>), the modulus chains of the two parameter sets, and the slot
    values a ciphertext encrypts. Also \<open>ct_wf\<close>, the well-formedness of a ciphertext,
    and \<open>slots_reduced\<close>, a BFV ciphertext whose slots are residues modulo \<open>t\<close>.
  \<^item> \<open>Working\<close>: the object \<open>SEAL_Working\<close> (record \<open>seal_working\<close>), its constructor
    \<open>SEAL_Working_new\<close> and the \<open>[INFO]\<close> lines. \<open>runs_to\<close> states that a computation
    returns a value having only appended given lines to the log; \<open>grows m\<close> that
    \<open>m\<close> only consumes input and appends output, proved by structure with
    \<open>grows_intros\<close>. \<open>read_input_cases\<close> and \<open>demo_undefined_eof\<close> are the input
    phase and the undefined-behaviour argument both demonstrations share.
  \<^item> \<open>DemoBFV\<close>: \<open>demonstrateBFV\<close> (lines 210--360), split at its numbered parts
    (\<open>bfv_banner\<close>, \<open>bfv_input\<close>, \<open>bfv_encrypt\<close>, \<open>bfv_addition\<close>,
    \<open>bfv_multiplication\<close>, \<open>bfv_scalar\<close>, \<open>bfv_verify\<close>), each emitting its log
    lines in the source's order; \<open>bfv_core\<close> is everything after the input.
  \<^item> \<open>DemoCKKS\<close>: \<open>demonstrateCKKS\<close> (lines 363--532) split the same way, and
    \<open>verifyVectors\<close> (lines 536--547) as the recursion \<open>verify_loop\<close> over the pairs.
  \<^item> \<open>Program\<close>: \<open>main\<close> (\<open>src/main.cpp\<close>, lines 81--127). Opening the log is the
    flag \<open>log_opens\<close>. An exception gives exit status 1 with an \<open>Error:\<close> line.
    Undefined behaviour gives no status (\<open>None\<close>). Where the demonstrations can be
    undefined (\<open>run_demos_undefined\<close>).
  \<^item> \<open>InputSteps\<close>: the outer loop of the vector routines (lines 120--139) also as
    an inductive step relation \<open>vec_step\<close> on configurations \<open>vec_cfg\<close> (inside the loop
    with the vector and the streams, or returned), one step per test of the guard.
  \<^item> \<open>Compare\<close>: \<open>compareProtocols\<close> and \<open>showInstallationInstructions\<close>
    (\<open>src/main.cpp\<close>, lines 8--79) as functions that append their lines to the log;
    the table of the former with \<open>std::setw(20)\<close> as right padding (\<open>setw_left\<close>).
  \<^item> This theory: the whole program, \<open>main\<close> on the input of the specification, on
    an empty input and on sizes above the slot counts.

  \<^bold>\<open>What is proved.\<close>
  \<^item> Input: the input routines return the first acceptable line's values and print one
    error per rejected line. At the end of input they return 0 or the empty vector. A
    negative size is accepted modulo \<open>2^64\<close>. A vector routine returns a vector of the
    size asked for unless the input ran out, and does return one when some line has
    enough values (progress). The echo of an integer vector in the log reads back as
    the vector.
  \<^item> Construction and invariants: the constructor never throws. Every evaluator
    operation keeps ciphertexts well formed, and every BFV operation of the run keeps the
    slots residues modulo \<open>t\<close> (\<open>Seal\<close>).
  \<^item> Refinement: with the decoded \<open>int64_t\<close> vector as the abstraction of a BFV
    ciphertext, homomorphic addition, and multiplication with relinearization, implement
    slot-wise \<open>int64_t\<close> addition and multiplication as long as no exact result leaves
    the centred range of \<open>t\<close>.
  \<^item> Signed overflow: the expected values of the BFV check (lines 336--340) are computed
    in \<open>int64_t\<close>, where overflow is undefined behaviour. \<open>signed_add\<close> and
    \<open>signed_mul\<close> (\<open>Prelude\<close>) return \<open>None\<close> when the exact result does not fit, and
    \<open>bfv_expected\<close> turns that into \<open>Undefined\<close>. \<open>bfv_no_overflow\<close> says that every
    sum, product and double fits. Inputs that break it make the run undefined right
    after the line \<open>4. Verification:\<close>.
  \<^item> BFV verdicts: for every size \<open>0 < n \<le> 8192\<close> and inputs free of overflow the BFV
    run returns normally, and its verdicts are characterised exactly. Each of addition,
    multiplication and scalar multiplication passes exactly when its results lie within
    \<open>t div 2 = 516096\<close> of the plain modulus \<open>t = 1032193\<close>.
  \<^item> CKKS: for every size \<open>n \<le> 4096\<close> and inputs of magnitude at most \<open>2^10\<close>
    (\<open>ckks_small\<close>) the CKKS run logs the results and passes. The bound is the scope in
    which the exact model of the encoder is faithful: SEAL rejects only encoded
    coefficients of 140 bits and more (the inputs reach \<open>2^50\<close>, their products
    \<open>2^100\<close>), and for such inputs its approximation error is far below the tolerance \<open>0.01\<close>. Levels and scales are traced through multiplication,
    relinearization and rescaling. \<open>verifyVectors\<close> equals its reference predicate and
    logs the first failing index.
  \<^item> Errors: sizes above the slot counts throw in the encoders. The end of input inside
    a vector reads out of range.
  \<^item> By rule induction on the step relation of the vector loop, every configuration
    reached from the start keeps the vector empty inside the loop and returns a full
    vector unless the input ran out.
  \<^item> Composition of the two runs: a BFV size above 8192 stops \<open>main\<close> with status 1
    before CKKS starts; a CKKS size between 4097 and 8192 passes the BFV run and stops
    \<open>main\<close> with status 1 in the CKKS encoder, since no size is checked against the slots.
  \<^item> Safety: on vectors of the size read, the CKKS run after its input never reaches
    undefined behaviour, and the BFV run does not when its inputs are free of overflow.
    So the demonstrations are undefined only once standard input is exhausted or through
    a signed overflow of the BFV check (\<open>run_demos_undefined\<close>).
  \<^item> Whole program: on the input of the specification \<open>main\<close> exits 0 with both runs
    passing. On an empty input it does not abort cleanly: the zero scalar plaintext
    throws and \<open>main\<close> exits 1.

  \<^bold>\<open>Bounds.\<close> No fuel is used: every loop is a \<open>function\<close> or \<open>fun\<close> whose measure is
  the remaining input, the number of values still missing, or the list of pairs. Numbers
  are at their C++ widths (\<open>64 word\<close>). BFV slots are residues modulo \<open>t\<close>.

  \<^bold>\<open>Not modelled.\<close>
  \<^item> Every function of \<open>src/\<close> is modelled; the lines left out are the
    \<open>#include\<close>s, the declarations of the class's members and closing braces. What
    remains only partly modelled is Microsoft SEAL, an external library the code calls.
  \<^item> Noise and the noise budget: decryption is exact, so no run fails for noise, and
    the CKKS results are the exact real results.
  \<^item> Rounding: of CKKS encoding and of \<open>double\<close> parsing. Input numbers are read as
    exact decimals. The CKKS encoder's rejection of values too large for the modulus
    (\<open>encoded values are too large\<close>) depends on the rounded coefficients and is not
    modelled; the CKKS claims are restricted to \<open>ckks_small\<close> inputs, far below it.
  \<^item> The reduction of slot values in \<open>BatchEncoder::encode\<close>: debug builds of SEAL
    reject values outside \<open>(-t, t)\<close>, release builds reduce them modulo \<open>t\<close>, as the model
    does.
  \<^item> SEAL internals: primality of the moduli and the key material.
  \<^item> Timings: each timing line is kept, its number is not.
  \<^item> Formatting: \<open>std::setprecision\<close>, and \<open>std::setw\<close> outside the table of
    \<open>compareProtocols\<close>. \<open>[INFO]\<close> lines carry the scale itself rather than its rounded
    \<open>log2\<close>. The empty lines opened by \<open>"\n"\<close> are not log entries.
  \<^item> The log file itself: whether \<open>output_log.txt\<close> opens is the parameter
    \<open>log_opens\<close> of \<open>main\<close>; file-system effects beyond the lines written are not modelled.
\<close>

section \<open>The whole program\<close>

text \<open>
  C1. On an input whose first six lines are accepted at once (a BFV size
  \<open>0 < n \<le> 8192\<close>, two lines of at least \<open>n\<close> integers whose sums, products and doubles
  fit in 64 signed bits, a CKKS size \<open>0 < m \<le> 4096\<close>, two lines of at least \<open>m\<close> numbers
  of magnitude at most \<open>2^10\<close>), \<open>main\<close> exits with status 0 having consumed exactly those
  lines; the log reports ALL TESTS PASSING for CKKS, and for BFV exactly when every sum,
  product and double lies within \<open>516096\<close>, half the plaintext modulus.
\<close>

theorem main_exit_zero:
  assumes n: "size_of_line l0 = Some n" "0 < unat n" "unat n \<le> 8192"
    and a: "\<not> short_line extract_int64 (unat n) l1" and b: "\<not> short_line extract_int64 (unat n) l2"
    and m: "size_of_line l3 = Some m" "0 < unat m" "unat m \<le> 4096"
    and x: "\<not> short_line extract_double (unat m) l4" and y: "\<not> short_line extract_double (unat m) l5"
    and ov: "bfv_no_overflow (unat n) (read_values extract_int64 (unat n) [] l1)
               (read_values extract_int64 (unat n) [] l2)"
    and sm: "ckks_small (read_values extract_double (unat m) [] l4)"
            "ckks_small (read_values extract_double (unat m) [] l5)"
  defines "p1 \<equiv> read_values extract_int64 (unat n) [] l1"
    and "p2 \<equiv> read_values extract_int64 (unat n) [] l2"
  shows "\<exists>s'. main True \<lparr>stdin = l0 # l1 # l2 # l3 # l4 # l5 # rest, console = c, log = []\<rparr> = (Some 0, s') \<and>
     stdin s' = rest \<and> LAllPass ''CKKS with Microsoft SEAL'' \<in> set (log s') \<and>
     (LAllPass ''BFV with Microsoft SEAL'' \<in> set (log s') \<longleftrightarrow>
        (\<forall>i<unat n. \<bar>sint (p1 ! i) + sint (p2 ! i)\<bar> \<le> 516096 \<and>
                    \<bar>sint (p1 ! i) * sint (p2 ! i)\<bar> \<le> 516096 \<and> \<bar>2 * sint (p1 ! i)\<bar> \<le> 516096))"
proof -
  have lp1: "length p1 = unat n" and lp2: "length p2 = unat n"
    using a b by (simp_all add: p1_def p2_def read_values_line_length)
  have lq1: "length (read_values extract_double (unat m) [] l4) = unat m"
    and lq2: "length (read_values extract_double (unat m) [] l5) = unat m"
    using x y by (simp_all add: read_values_line_length)
  have mb: "decodes_back (sint (p1 ! i) * sint (p2 ! i)) \<longleftrightarrow> \<bar>sint (p1 ! i) * sint (p2 ! i)\<bar> \<le> 516096"
    if "i < unat n" for i
    using ov[folded p1_def p2_def] that by (intro decodes_back_fits) (simp add: bfv_no_overflow_def list_all_iff)
  note bfv_in = demonstrateBFV_input[OF n(1,2) a b, folded p1_def p2_def]
  note ckks_in = demonstrateCKKS_input[OF m(1,2) x y]
  note bfv_run = bfv_core_trace[OF lp1 lp2 n(2) n(3) ov[folded p1_def p2_def], unfolded runs_to_def]
  note ckks_run = ckks_core_trace[OF lq1 lq2 m(3), unfolded runs_to_def]
  have "\<exists>S. run_demos (log_line (LText ''Working BFV and CKKS Implementation using Microsoft SEAL'')
      (log_line (LText ''CS 6530 Applied Cryptography Course Project - Phase 2'')
        \<lparr>stdin = l0 # l1 # l2 # l3 # l4 # l5 # rest, console = c, log = []\<rparr>)) = (Inr (), S) \<and>
     stdin S = rest \<and> LAllPass ''CKKS with Microsoft SEAL'' \<in> set (log S) \<and>
     (LAllPass ''BFV with Microsoft SEAL'' \<in> set (log S) \<longleftrightarrow>
        (\<forall>i<unat n. \<bar>sint (p1 ! i) + sint (p2 ! i)\<bar> \<le> 516096 \<and>
                    decodes_back (sint (p1 ! i) * sint (p2 ! i)) \<and> \<bar>2 * sint (p1 ! i)\<bar> \<le> 516096))"
    using lp1 lp2
    by (simp add: run_demos_def xbind_def SEAL_Working_new_run log_line_def
        bfv_in ckks_in bfv_run ckks_run Let_def bfv_verdict_simps rule_line_def) blast
  then show ?thesis using mb by (auto dest: main_Inr simp: say_def)
qed

text \<open>
  C6. On an empty input \<open>main\<close> does not abort cleanly: \<open>getUserSize\<close> logs the
  size 0, the BFV run goes on into SEAL, the zero scalar plaintext makes the product throw,
  and \<open>main\<close> logs and prints the error and exits with status 1.
\<close>

theorem main_eof:
  "\<exists>s'. main True \<lparr>stdin = [], console = c, log = []\<rparr> = (Some 1, s') \<and>
     LSizeChosen 0 \<in> set (log s') \<and> LError ''result ciphertext is transparent'' \<in> set (log s') \<and>
     CErr ''Error: result ciphertext is transparent'' \<in> set (console s')"
proof -
  let ?s1 = "\<lparr>stdin = [], console = c @ [PromptSize],
     log = [LText ''CS 6530 Applied Cryptography Course Project - Phase 2'',
            LText ''Working BFV and CKKS Implementation using Microsoft SEAL'',
            LText ''SEAL_Working: Microsoft SEAL library implementation'',
            LText ''Features: Real BFV and CKKS with proper noise management'', rule_line,
            LText ''BFV (Brakerski-Fan-Vercauteren) with Microsoft SEAL'', rule_line,
            LText ''1. Key Generation:'', LTiming ''Key generation completed in constructor'',
            LText ''2. Encryption:'', LSizeChosen 0, LPlaintextInts ''Plaintext 1: '' (render_ints []),
            LPlaintextInts ''Plaintext 2: '' (render_ints [])]\<rparr>"
  obtain tr where e: "bfv_core seal_working_init 0 [] [] ?s1 =
      (Inl (Exception (LogicError ''result ciphertext is transparent'')), ?s1\<lparr>log := log ?s1 @ tr\<rparr>)"
    using bfv_core_empty by blast
  have "run_demos (log_line (LText ''Working BFV and CKKS Implementation using Microsoft SEAL'')
      (log_line (LText ''CS 6530 Applied Cryptography Course Project - Phase 2'')
         \<lparr>stdin = [], console = c, log = []\<rparr>)) =
      (Inl (Exception (LogicError ''result ciphertext is transparent'')), ?s1\<lparr>log := log ?s1 @ tr\<rparr>)"
    using e
    by (simp add: run_demos_def xbind_SEAL_Working_new demonstrateBFV_def bfv_banner_def xbind_assoc
        bfv_input_def getUserSize_spec getUserVectorInt_def user_vector_loop.simps log_line_def say_def
        xbind_Inl_step)
  from main_Exception[OF this] show ?thesis by (simp add: exn_what_def log_line_def say_def)
qed

text \<open>
  C9. A BFV size above the 8192 slots, with two lines of enough
  integers, makes the encoder throw: \<open>main\<close> logs and prints the error and exits 1, the
  CKKS demonstration never starts, and the input after the third line is left unread.
\<close>

theorem main_bfv_size_too_large:
  assumes n: "size_of_line l0 = Some n" "8192 < unat n"
    and a: "\<not> short_line extract_int64 (unat n) l1" and b: "\<not> short_line extract_int64 (unat n) l2"
  shows "\<exists>s'. main True \<lparr>stdin = l0 # l1 # l2 # rest, console = c, log = []\<rparr> = (Some 1, s') \<and>
     stdin s' = rest \<and> LError ''values_matrix size is too large'' \<in> set (log s') \<and>
     CErr ''Error: values_matrix size is too large'' \<in> set (console s') \<and>
     LText ''CKKS (Cheon-Kim-Kim-Song) with Microsoft SEAL'' \<notin> set (log s')"
proof -
  have pos: "0 < unat n" using n(2) by simp
  have lp1: "length (read_values extract_int64 (unat n) [] l1) = unat n"
    using a by (rule read_values_line_length)
  note bfv_in = demonstrateBFV_input[OF n(1) pos a b]
  have core: "bfv_core seal_working_init n (read_values extract_int64 (unat n) [] l1) p2 S =
      (Inl (Exception (InvalidArgument ''values_matrix size is too large'')), S)" for p2 S
    using lp1 n(2) by (simp add: bfv_core_def bfv_encrypt_def batch_encode_def xbind_def)
  have ne: "''CKKS (Cheon-Kim-Kim-Song) with Microsoft SEAL'' \<noteq> replicate 60 CHR ''=''"
    by (simp add: numeral_eq_Suc)
  have "\<exists>S. run_demos (log_line (LText ''Working BFV and CKKS Implementation using Microsoft SEAL'')
      (log_line (LText ''CS 6530 Applied Cryptography Course Project - Phase 2'')
        \<lparr>stdin = l0 # l1 # l2 # rest, console = c, log = []\<rparr>)) =
        (Inl (Exception (InvalidArgument ''values_matrix size is too large'')), S) \<and>
      stdin S = rest \<and> LText ''CKKS (Cheon-Kim-Kim-Song) with Microsoft SEAL'' \<notin> set (log S)"
    by (simp add: run_demos_def xbind_def SEAL_Working_new_run log_line_def bfv_in core rule_line_def ne)
  then show ?thesis by (auto dest: main_Exception simp: exn_what_def say_def)
qed


text \<open>
  C10. The two runs share no size check: a CKKS size above its
  4096 slots, after a complete BFV run free of signed overflow, makes the CKKS encoder throw, and \<open>main\<close> exits 1
  after logging the BFV verdicts.
\<close>

theorem main_ckks_size_too_large:
  assumes n: "size_of_line l0 = Some n" "0 < unat n" "unat n \<le> 8192"
    and a: "\<not> short_line extract_int64 (unat n) l1" and b: "\<not> short_line extract_int64 (unat n) l2"
    and ov: "bfv_no_overflow (unat n) (read_values extract_int64 (unat n) [] l1)
               (read_values extract_int64 (unat n) [] l2)"
    and m: "size_of_line l3 = Some m" "4096 < unat m"
    and x: "\<not> short_line extract_double (unat m) l4" and y: "\<not> short_line extract_double (unat m) l5"
  shows "\<exists>s'. main True \<lparr>stdin = l0 # l1 # l2 # l3 # l4 # l5 # rest, console = c, log = []\<rparr> = (Some 1, s') \<and>
     stdin s' = rest \<and> (\<exists>v. LVerdict ''Addition verification'' v \<in> set (log s')) \<and>
     LError ''values_size is too large'' \<in> set (log s') \<and>
     CErr ''Error: values_size is too large'' \<in> set (console s')"
proof -
  have mpos: "0 < unat m" using m(2) by simp
  have lp1: "length (read_values extract_int64 (unat n) [] l1) = unat n"
    and lp2: "length (read_values extract_int64 (unat n) [] l2) = unat n"
    using a b by (simp_all add: read_values_line_length)
  have lq1: "length (read_values extract_double (unat m) [] l4) = unat m"
    using x by (rule read_values_line_length)
  note bfv_in = demonstrateBFV_input[OF n(1,2) a b]
  note ckks_in = demonstrateCKKS_input[OF m(1) mpos x y]
  note bfv_run = bfv_core_trace[OF lp1 lp2 n(2) n(3) ov, unfolded runs_to_def]
  have core: "ckks_core seal_working_init m (read_values extract_double (unat m) [] l4) q2 S =
      (Inl (Exception (InvalidArgument ''values_size is too large'')), S)" for q2 S
    using lq1 m(2) by (simp add: ckks_core_def ckks_encrypt_def ckks_encode_def xbind_def)
  have "\<exists>S. run_demos (log_line (LText ''Working BFV and CKKS Implementation using Microsoft SEAL'')
      (log_line (LText ''CS 6530 Applied Cryptography Course Project - Phase 2'')
        \<lparr>stdin = l0 # l1 # l2 # l3 # l4 # l5 # rest, console = c, log = []\<rparr>)) =
        (Inl (Exception (InvalidArgument ''values_size is too large'')), S) \<and>
      stdin S = rest \<and> (\<exists>v. LVerdict ''Addition verification'' v \<in> set (log S))"
    by (simp add: run_demos_def xbind_def SEAL_Working_new_run log_line_def bfv_in ckks_in bfv_run core
        Let_def) blast
  then obtain S where r: "run_demos (log_line (LText ''Working BFV and CKKS Implementation using Microsoft SEAL'')
      (log_line (LText ''CS 6530 Applied Cryptography Course Project - Phase 2'')
        \<lparr>stdin = l0 # l1 # l2 # l3 # l4 # l5 # rest, console = c, log = []\<rparr>)) =
        (Inl (Exception (InvalidArgument ''values_size is too large'')), S)"
    and S: "stdin S = rest" "\<exists>v. LVerdict ''Addition verification'' v \<in> set (log S)"
    by blast
  show ?thesis using main_Exception[OF r] S by (simp add: exn_what_def say_def)
qed

section \<open>Witnesses\<close>

theorem main_exit_zero_witness:
  "size_of_line ''4'' = Some 4 \<and> 0 < unat (4 :: size_t) \<and> unat (4 :: size_t) \<le> 8192 \<and>
   \<not> short_line extract_int64 (unat (4 :: size_t)) ''1 2 3 4'' \<and>
   \<not> short_line extract_int64 (unat (4 :: size_t)) ''5 6 7 8'' \<and>
   size_of_line ''2'' = Some 2 \<and> 0 < unat (2 :: size_t) \<and> unat (2 :: size_t) \<le> 4096 \<and>
   \<not> short_line extract_double (unat (2 :: size_t)) ''1.5 2.5'' \<and>
   \<not> short_line extract_double (unat (2 :: size_t)) ''0.5 1.0'' \<and>
   bfv_no_overflow (unat (4 :: size_t)) [1, 2, 3, 4] [5, 6, 7, 8] \<and>
   ckks_small [3 / 2, 5 / 2] \<and> ckks_small [1 / 2, 1] \<and>
   (\<exists>s'. main True \<lparr>stdin = [''4'', ''1 2 3 4'', ''5 6 7 8'', ''2'', ''1.5 2.5'', ''0.5 1.0''],
       console = [], log = []\<rparr> = (Some 0, s') \<and>
     stdin s' = [] \<and> LAllPass ''CKKS with Microsoft SEAL'' \<in> set (log s') \<and>
     LAllPass ''BFV with Microsoft SEAL'' \<in> set (log s'))"
proof -
  have r: "read_values extract_int64 4 [] ''1 2 3 4'' = [1, 2, 3, 4]"
    "read_values extract_int64 4 [] ''5 6 7 8'' = [5, 6, 7, 8]"
    "read_values extract_double 2 [] ''1.5 2.5'' = [3 / 2, 5 / 2]"
    "read_values extract_double 2 [] ''0.5 1.0'' = [1 / 2, 1]"
    "size_of_line ''4'' = Some 4" "size_of_line ''2'' = Some 2"
    by (simp_all add: read_values.simps extraction_eval size_of_line_def classify_size_line_def)
  show ?thesis
    using main_exit_zero[of "''4''" 4 "''1 2 3 4''" "''5 6 7 8''" "''2''" 2 "''1.5 2.5''" "''0.5 1.0''" "[]" "[]"]
    by (simp add: r short_line_def all_less_list_all upt_rec bfv_no_overflow_def int64_fits_def ckks_small_def)
qed

lemma read_values_rendered:
  "read_values extract_int64 8193 [] (render_ints (replicate 8193 1)) = replicate 8193 1"
  "read_values extract_double 4097 [] (concat (replicate 4097 ''1 '')) = replicate 4097 1"
  using read_values_render[of "[]" "replicate 8193 1" 8193 "[]"] read_values_ones[of "[]" 4097 4097 "[]"]
  by (simp_all add: read_values_full)

theorem main_bfv_size_too_large_witness:
  "size_of_line ''8193'' = Some 8193 \<and> 8192 < unat (8193 :: size_t) \<and>
   \<not> short_line extract_int64 (unat (8193 :: size_t)) (render_ints (replicate 8193 1)) \<and>
   (\<exists>s'. main True \<lparr>stdin = [''8193'', render_ints (replicate 8193 1), render_ints (replicate 8193 1), ''2''],
       console = [], log = []\<rparr> = (Some 1, s') \<and>
     stdin s' = [''2''] \<and> LError ''values_matrix size is too large'' \<in> set (log s') \<and>
     CErr ''Error: values_matrix size is too large'' \<in> set (console s') \<and>
     LText ''CKKS (Cheon-Kim-Kim-Song) with Microsoft SEAL'' \<notin> set (log s'))"
proof -
  have s: "size_of_line ''8193'' = Some 8193"
    by (simp add: size_of_line_def classify_size_line_def extraction_eval)
  have l: "\<not> short_line extract_int64 (unat (8193 :: size_t)) (render_ints (replicate 8193 1))"
    by (simp add: short_line_def read_values_rendered)
  show ?thesis
    using main_bfv_size_too_large[OF s _ l l, of "[''2'']" "[]"] s l by simp
qed

theorem main_ckks_size_too_large_witness:
  "size_of_line ''1'' = Some 1 \<and> 0 < unat (1 :: size_t) \<and> unat (1 :: size_t) \<le> 8192 \<and>
   \<not> short_line extract_int64 (unat (1 :: size_t)) ''5'' \<and> \<not> short_line extract_int64 (unat (1 :: size_t)) ''6'' \<and>
   bfv_no_overflow (unat (1 :: size_t)) [5] [6] \<and>
   size_of_line ''4097'' = Some 4097 \<and> 4096 < unat (4097 :: size_t) \<and>
   \<not> short_line extract_double (unat (4097 :: size_t)) (concat (replicate 4097 ''1 '')) \<and>
   (\<exists>s'. main True \<lparr>stdin = [''1'', ''5'', ''6'', ''4097'', concat (replicate 4097 ''1 ''),
        concat (replicate 4097 ''1 '')], console = [], log = []\<rparr> = (Some 1, s') \<and>
     stdin s' = [] \<and> (\<exists>v. LVerdict ''Addition verification'' v \<in> set (log s')) \<and>
     LError ''values_size is too large'' \<in> set (log s') \<and>
     CErr ''Error: values_size is too large'' \<in> set (console s'))"
proof -
  have s: "size_of_line ''1'' = Some 1" "size_of_line ''4097'' = Some 4097"
    by (simp_all add: size_of_line_def classify_size_line_def extraction_eval)
  have l: "\<not> short_line extract_int64 (unat (1 :: size_t)) ''5''" "\<not> short_line extract_int64 (unat (1 :: size_t)) ''6''"
    by (simp_all add: short_line_def read_values.simps extraction_eval)
  have r: "read_values extract_int64 (unat (1 :: size_t)) [] ''5'' = [5]"
    "read_values extract_int64 (unat (1 :: size_t)) [] ''6'' = [6]"
    by (simp_all add: read_values.simps extraction_eval)
  have o: "bfv_no_overflow (unat (1 :: size_t)) [5] [6]"
    by (simp add: bfv_no_overflow_def int64_fits_def)
  have d: "\<not> short_line extract_double (unat (4097 :: size_t)) (concat (replicate 4097 ''1 ''))"
    by (simp add: short_line_def read_values_rendered)
  show ?thesis
    using main_ckks_size_too_large[OF s(1) _ _ l o[folded r] s(2) _ d d, of "[]" "[]"] s l d o by simp
qed

end
